theory Spec2Isabelle
  imports Main
begin

section \<open>Strings, exceptions and the outside world\<close>

text \<open>
  A Python \<open>str\<close> is a sequence of Unicode code points; a code point is a natural number.
  \<open>str\<close> turns an ASCII literal of the source into such a sequence.
\<close>

type_synonym pystr = "nat list"

definition str :: "string \<Rightarrow> pystr" where
  "str s = map of_char s"

text \<open>
  Python truthiness of a value of type \<open>str | None\<close>: \<open>None\<close> and the empty string are
  false, every other string is true (\<open>if cover_url:\<close>, \<open>if not cover_src:\<close>,
  \<open>if spotify_token:\<close>).
\<close>

fun truthy :: "pystr option \<Rightarrow> bool" where
  "truthy None = False"
| "truthy (Some u) = (u \<noteq> [])"

text \<open>
  The exceptions the modelled code can let escape: a transport failure of \<open>requests\<close>
  (\<open>requests.exceptions.RequestException\<close>), an index into an empty list, and an error raised
  by the imaging library or the file system while an image is decoded, resized and saved.
\<close>

datatype exn = RequestException | IndexError | ImagingError

text \<open>
  What a call of \<open>requests.get/post/head\<close> does: it raises, or it returns a response with a
  status code and a body. The body is the decoded JSON in the shape the code reads it.
\<close>

datatype 'a http = Raised | Http nat 'a

text \<open>Every outbound call the script makes, with the data it sends.\<close>

datatype request =
    TokenPost "pystr option" "pystr option"
  | SpotifySearch pystr pystr pystr
  | DeezerSearch pystr pystr
  | LastfmAlbumInfo "pystr option" pystr pystr
  | DiscogsSearch "pystr option" pystr pystr
  | MusicBrainzSearch pystr pystr
  | CoverArtHead pystr
  | ImageGet pystr

text \<open>
  \<^item> \<open>TokenPost client_id client_secret\<close>: the POST of \<open>authenticate_spotify\<close>;
  \<^item> \<open>SpotifySearch token variant artist\<close>: the search with \<open>q = album:variant artist:artist\<close>;
  \<^item> \<open>DeezerSearch artist variant\<close>; \<open>LastfmAlbumInfo api_key artist album\<close>;
  \<^item> \<open>DiscogsSearch user_token album artist\<close>; \<open>MusicBrainzSearch artist album\<close>;
  \<^item> \<open>CoverArtHead cover_url\<close>: the HEAD request of \<open>fetch_cover_musicbrainz\<close>;
  \<^item> \<open>ImageGet url\<close>: the download of \<open>download_and_resize_image\<close>.
\<close>

text \<open>An album object of the Spotify search result, with the keys the code reads.\<close>

record spotify_album =
  sp_name :: pystr
  sp_artists :: "pystr list"
  sp_album_type :: "pystr option"
  sp_release_date :: "pystr option"
  sp_images :: "pystr list"

text \<open>An album object of the Deezer search result.\<close>

record deezer_album =
  dz_title :: pystr
  dz_artist_name :: pystr
  dz_record_type :: "pystr option"
  dz_release_date :: "pystr option"
  dz_cover_big :: pystr

text \<open>
  The \<open>album\<close> object of the Last.fm answer: its name, its artist, and the list under
  \<open>image\<close> (\<open>None\<close> when that key is missing), each image the pair of its \<open>size\<close>
  and its \<open>#text\<close>. The code reads the images only.
\<close>

record lastfm_album =
  lf_name :: pystr
  lf_artist :: pystr
  lf_image :: "(pystr \<times> pystr) list option"

text \<open>
  The Discogs client raises on any failure; otherwise it yields the releases found, each with
  the list of its image URIs.
\<close>

datatype discogs_reply = DiscogsRaises | DiscogsReleases "pystr list list"

text \<open>
  Everything outside the source file: the libraries \<open>fuzzywuzzy\<close>, \<open>slugify\<close> and
  \<open>unicodedata\<close>, the five providers, the image host and the imaging library. A network
  answer may depend on the requests made so far (the first argument) as well as on the request.
  \<open>imaging content output_path\<close> says whether decoding, resizing, converting and saving
  complete without raising.
\<close>

record world =
  token_sort_ratio :: "pystr \<Rightarrow> pystr \<Rightarrow> nat"
  slugify :: "pystr \<Rightarrow> pystr"
  unicode_nfd :: "pystr \<Rightarrow> pystr"
  unicode_category :: "nat \<Rightarrow> pystr"
  spotify_token_api :: "request list \<Rightarrow> request \<Rightarrow> (pystr option) http"
  spotify_api :: "request list \<Rightarrow> request \<Rightarrow> (spotify_album list) http"
  deezer_api :: "request list \<Rightarrow> request \<Rightarrow> (deezer_album list) http"
  lastfm_api :: "request list \<Rightarrow> request \<Rightarrow> (lastfm_album option) http"
  discogs_api :: "request list \<Rightarrow> request \<Rightarrow> discogs_reply"
  musicbrainz_api :: "request list \<Rightarrow> request \<Rightarrow> (pystr list) http"
  coverart_api :: "request list \<Rightarrow> request \<Rightarrow> unit http"
  image_api :: "request list \<Rightarrow> request \<Rightarrow> (nat list) http"
  imaging :: "nat list \<Rightarrow> pystr \<Rightarrow> bool"

text \<open>The credentials read from the process environment (\<open>os.getenv\<close>).\<close>

record env =
  SPOTIFY_CLIENT_ID :: "pystr option"
  SPOTIFY_CLIENT_SECRET :: "pystr option"
  DISCOGS_API_TOKEN :: "pystr option"
  LASTFM_API_KEY :: "pystr option"

text \<open>
  The state the script changes: the paths that exist on disk (compared as strings) and the
  requests made so far, oldest first.
\<close>

record state =
  files :: "pystr set"
  trace :: "request list"

definition sent :: "request \<Rightarrow> state \<Rightarrow> state" where
  "sent r s = s\<lparr>trace := trace s @ [r]\<rparr>"

section \<open>Constants and pure helpers\<close>

definition TITLE_VARIANTS :: "pystr list" where
  "TITLE_VARIANTS =
     map str [''Deluxe'', ''Remastered'', ''Anniversary'', ''Special Edition'', ''Expanded Edition'']"

definition ALBUM_TYPES :: "pystr list" where
  "ALBUM_TYPES = map str [''album'', ''ep'', ''compilation'', ''live'']"

definition fuzzy_match :: "world \<Rightarrow> pystr \<Rightarrow> pystr \<Rightarrow> nat \<Rightarrow> bool" where
  "fuzzy_match w target candidate threshold = (threshold \<le> token_sort_ratio w target candidate)"

definition normalize_artist_name :: "world \<Rightarrow> pystr \<Rightarrow> pystr" where
  "normalize_artist_name w artist =
     filter (\<lambda>c. unicode_category w c \<noteq> str ''Mn'') (unicode_nfd w artist)"

text \<open>
  \<open>[album] + [f"{album} {suffix}" for suffix in TITLE_VARIANTS]\<close>, the list both
  \<open>fetch_cover_spotify\<close> and \<open>fetch_cover_deezer\<close> iterate over.
\<close>

definition title_variants :: "pystr \<Rightarrow> pystr list" where
  "title_variants album = album # map (\<lambda>suffix. album @ str '' '' @ suffix) TITLE_VARIANTS"

text \<open>
  \<open>album_data.get('release_date', '').split('-')[0]\<close>: the text before the first hyphen of
  the date, the empty string when the key is missing.
\<close>

definition release_year_of :: "pystr option \<Rightarrow> pystr" where
  "release_year_of d =
     (case d of None \<Rightarrow> [] | Some date \<Rightarrow> takeWhile (\<lambda>c. c \<noteq> of_char (CHR ''-'')) date)"

text \<open>
  The condition of lines 158-161 and 197-200, the same in both providers:
  artist similarity at least 90, album similarity at least the default 85, the album type in
  \<open>ALBUM_TYPES\<close>, and the year equal when one is requested.
\<close>

definition match_ok ::
  "world \<Rightarrow> pystr \<Rightarrow> pystr \<Rightarrow> pystr option \<Rightarrow> pystr \<Rightarrow> pystr \<Rightarrow> pystr option \<Rightarrow> pystr option \<Rightarrow> bool" where
  "match_ok w artist album release_year artist_name album_name album_type release_date =
     (fuzzy_match w artist artist_name 90 \<and>
      fuzzy_match w album album_name 85 \<and>
      (case album_type of None \<Rightarrow> False | Some t \<Rightarrow> t \<in> set ALBUM_TYPES) \<and>
      (release_year = None \<or> Some (release_year_of release_date) = release_year))"

section \<open>Spotify\<close>

definition authenticate_spotify :: "world \<Rightarrow> env \<Rightarrow> state \<Rightarrow> (exn + pystr option) \<times> state" where
  "authenticate_spotify w e s =
     (let req = TokenPost (SPOTIFY_CLIENT_ID e) (SPOTIFY_CLIENT_SECRET e) in
      case spotify_token_api w (trace s) req of
        Raised \<Rightarrow> (Inl RequestException, sent req s)
      | Http status access_token \<Rightarrow>
          (Inr (if status = 200 then access_token else None), sent req s))"

text \<open>
  The inner loop of \<open>fetch_cover_spotify\<close> over \<open>data['albums']['items']\<close>:
  \<open>Inr (Some url)\<close> is \<open>return url\<close>, \<open>Inr None\<close> is the loop running to its end.
\<close>

fun spotify_items ::
  "world \<Rightarrow> pystr \<Rightarrow> pystr \<Rightarrow> pystr option \<Rightarrow> spotify_album list \<Rightarrow> exn + pystr option" where
  "spotify_items w artist album release_year [] = Inr None"
| "spotify_items w artist album release_year (album_data # rest) =
     (case sp_artists album_data of
        [] \<Rightarrow> Inl IndexError
      | artist_name # _ \<Rightarrow>
          if match_ok w artist album release_year artist_name (sp_name album_data)
               (sp_album_type album_data) (sp_release_date album_data)
          then (case sp_images album_data of
                  [] \<Rightarrow> Inl IndexError
                | url # _ \<Rightarrow> Inr (Some url))
          else spotify_items w artist album release_year rest)"

text \<open>The outer loop over the title variants.\<close>

fun spotify_variants ::
  "world \<Rightarrow> pystr \<Rightarrow> pystr \<Rightarrow> pystr \<Rightarrow> pystr option \<Rightarrow> pystr list \<Rightarrow> state
     \<Rightarrow> (exn + pystr option) \<times> state" where
  "spotify_variants w artist album spotify_token release_year [] s = (Inr None, s)"
| "spotify_variants w artist album spotify_token release_year (variant # rest) s =
     (let req = SpotifySearch spotify_token variant artist in
      case spotify_api w (trace s) req of
        Raised \<Rightarrow> (Inl RequestException, sent req s)
      | Http status items \<Rightarrow>
          if status = 200 then
            (case spotify_items w artist album release_year items of
               Inl e \<Rightarrow> (Inl e, sent req s)
             | Inr (Some url) \<Rightarrow> (Inr (Some url), sent req s)
             | Inr None \<Rightarrow>
                 spotify_variants w artist album spotify_token release_year rest (sent req s))
          else spotify_variants w artist album spotify_token release_year rest (sent req s))"

definition fetch_cover_spotify ::
  "world \<Rightarrow> pystr \<Rightarrow> pystr \<Rightarrow> pystr \<Rightarrow> pystr option \<Rightarrow> state \<Rightarrow> (exn + pystr option) \<times> state" where
  "fetch_cover_spotify w artist album spotify_token release_year s =
     spotify_variants w artist album spotify_token release_year (title_variants album) s"

section \<open>Deezer\<close>

text \<open>Only the first album of \<open>data['data']\<close> is looked at.\<close>

definition deezer_first :: "world \<Rightarrow> pystr \<Rightarrow> pystr \<Rightarrow> pystr option \<Rightarrow> deezer_album list \<Rightarrow> pystr option" where
  "deezer_first w artist album release_year items =
     (case items of
        [] \<Rightarrow> None
      | album_data # _ \<Rightarrow>
          if match_ok w artist album release_year (dz_artist_name album_data) (dz_title album_data)
               (dz_record_type album_data) (dz_release_date album_data)
          then Some (dz_cover_big album_data)
          else None)"

fun deezer_variants ::
  "world \<Rightarrow> pystr \<Rightarrow> pystr \<Rightarrow> pystr option \<Rightarrow> pystr list \<Rightarrow> state \<Rightarrow> (exn + pystr option) \<times> state" where
  "deezer_variants w artist album release_year [] s = (Inr None, s)"
| "deezer_variants w artist album release_year (album_variant # rest) s =
     (let req = DeezerSearch artist album_variant in
      case deezer_api w (trace s) req of
        Raised \<Rightarrow> (Inl RequestException, sent req s)
      | Http status items \<Rightarrow>
          if status = 200 then
            (case deezer_first w artist album release_year items of
               Some url \<Rightarrow> (Inr (Some url), sent req s)
             | None \<Rightarrow> deezer_variants w artist album release_year rest (sent req s))
          else deezer_variants w artist album release_year rest (sent req s))"

definition fetch_cover_deezer ::
  "world \<Rightarrow> pystr \<Rightarrow> pystr \<Rightarrow> pystr option \<Rightarrow> state \<Rightarrow> (exn + pystr option) \<times> state" where
  "fetch_cover_deezer w artist album release_year s =
     deezer_variants w artist album release_year (title_variants album) s"

section \<open>Last.fm, Discogs, MusicBrainz\<close>

text \<open>
  The loop over \<open>data['album']['image']\<close>: the text of the first image whose size is
  \<open>extralarge\<close>.
\<close>

fun lastfm_images :: "(pystr \<times> pystr) list \<Rightarrow> pystr option" where
  "lastfm_images [] = None"
| "lastfm_images ((img_size, img_text) # rest) =
     (if img_size = str ''extralarge'' then Some img_text else lastfm_images rest)"

definition fetch_cover_lastfm ::
  "world \<Rightarrow> env \<Rightarrow> pystr \<Rightarrow> pystr \<Rightarrow> state \<Rightarrow> (exn + pystr option) \<times> state" where
  "fetch_cover_lastfm w e artist album s =
     (let req = LastfmAlbumInfo (LASTFM_API_KEY e) artist album in
      case lastfm_api w (trace s) req of
        Raised \<Rightarrow> (Inl RequestException, sent req s)
      | Http status body \<Rightarrow>
          if status = 200 then
            (case body of
               None \<Rightarrow> (Inr None, sent req s)
             | Some album_obj \<Rightarrow>
                 (case lf_image album_obj of
                    None \<Rightarrow> (Inr None, sent req s)
                  | Some images \<Rightarrow> (Inr (lastfm_images images), sent req s)))
          else (Inr None, sent req s))"

text \<open>Every exception inside the \<open>try\<close> block is caught and logged.\<close>

definition fetch_cover_discogs ::
  "world \<Rightarrow> env \<Rightarrow> pystr \<Rightarrow> pystr \<Rightarrow> state \<Rightarrow> (exn + pystr option) \<times> state" where
  "fetch_cover_discogs w e artist album s =
     (let req = DiscogsSearch (DISCOGS_API_TOKEN e) album artist in
      case discogs_api w (trace s) req of
        DiscogsRaises \<Rightarrow> (Inr None, sent req s)
      | DiscogsReleases results \<Rightarrow>
          (case results of
             [] \<Rightarrow> (Inr None, sent req s)
           | release # _ \<Rightarrow>
               (case release of
                  [] \<Rightarrow> (Inr None, sent req s)
                | uri # _ \<Rightarrow> (Inr (Some uri), sent req s))))"

definition fetch_cover_musicbrainz ::
  "world \<Rightarrow> pystr \<Rightarrow> pystr \<Rightarrow> state \<Rightarrow> (exn + pystr option) \<times> state" where
  "fetch_cover_musicbrainz w artist album s =
     (let req = MusicBrainzSearch artist album in
      case musicbrainz_api w (trace s) req of
        Raised \<Rightarrow> (Inl RequestException, sent req s)
      | Http status releases \<Rightarrow>
          if status = 200 then
            (case releases of
               [] \<Rightarrow> (Inr None, sent req s)
             | release_id # _ \<Rightarrow>
                 (let cover_url = str ''https://coverartarchive.org/release/'' @ release_id
                                    @ str ''/front-500'';
                      head = CoverArtHead cover_url in
                  case coverart_api w (trace (sent req s)) head of
                    Raised \<Rightarrow> (Inl RequestException, sent head (sent req s))
                  | Http head_status _ \<Rightarrow>
                      if head_status = 404 then (Inr None, sent head (sent req s))
                      else (Inr (Some cover_url), sent head (sent req s))))
          else (Inr None, sent req s))"

section \<open>Downloading the image\<close>

text \<open>
  Only \<open>requests.exceptions.RequestException\<close> is caught; an exception of the imaging steps
  leaves the function.
\<close>

definition download_and_resize_image ::
  "world \<Rightarrow> pystr \<Rightarrow> pystr \<Rightarrow> state \<Rightarrow> (exn + bool) \<times> state" where
  "download_and_resize_image w url output_path s =
     (let req = ImageGet url in
      case image_api w (trace s) req of
        Raised \<Rightarrow> (Inr False, sent req s)
      | Http status content \<Rightarrow>
          if status = 200 then
            (if imaging w content output_path
             then (Inr True, (sent req s)\<lparr>files := insert output_path (files s)\<rparr>)
             else (Inl ImagingError, sent req s))
          else (Inr False, sent req s))"

section \<open>Paths\<close>

text \<open>
  \<open>posixpath.join\<close> of two components, \<open>os.path.basename\<close>, and the first component of
  \<open>os.path.splitext\<close> (the extension starts at the last dot of the file name, unless only
  dots stand before it).
\<close>

definition path_join :: "pystr \<Rightarrow> pystr \<Rightarrow> pystr" where
  "path_join a b =
     (if take 1 b = str ''/'' then b
      else if a = [] \<or> last a = of_char (CHR ''/'') then a @ b
      else a @ str ''/'' @ b)"

definition basename :: "pystr \<Rightarrow> pystr" where
  "basename p = rev (takeWhile (\<lambda>c. c \<noteq> of_char (CHR ''/'')) (rev p))"

definition splitext_root :: "pystr \<Rightarrow> pystr" where
  "splitext_root p =
     (let name = basename p;
          stem = rev (drop 1 (dropWhile (\<lambda>c. c \<noteq> of_char (CHR ''.'')) (rev name)))
      in if of_char (CHR ''.'') \<in> set name \<and> filter (\<lambda>c. c \<noteq> of_char (CHR ''.'')) stem \<noteq> []
         then take (length p - length name) p @ stem
         else p)"

section \<open>The catalog and \<open>process_json\<close>\<close>

text \<open>
  An album object of the catalog: the JSON keys \<open>artist\<close>, \<open>album\<close>, \<open>year\<close> and
  \<open>coverSrc\<close> (\<open>None\<close> when the key is missing); every other key travels in the record's
  extension and is never touched.
\<close>

record album_data =
  rec_artist :: pystr
  rec_album :: pystr
  rec_year :: "pystr option"
  coverSrc :: "pystr option"

text \<open>
  \<open>os.path.join("bandcover", genre, slugify(f"{artist}_{album}") + ".jpg")\<close>
\<close>

definition output_path_of :: "world \<Rightarrow> pystr \<Rightarrow> pystr \<Rightarrow> pystr \<Rightarrow> pystr" where
  "output_path_of w genre artist album =
     path_join (path_join (str ''bandcover'') genre)
       (slugify w (artist @ str ''_'' @ album) @ str ''.jpg'')"

text \<open>
  Lines 376-408: the five providers, each behind \<open>if not cover_url\<close> (Spotify behind
  \<open>if spotify_token\<close>). The result is the final value of \<open>cover_url\<close>.
\<close>

definition lookup_cover ::
  "world \<Rightarrow> env \<Rightarrow> pystr option \<Rightarrow> pystr \<Rightarrow> pystr \<Rightarrow> pystr option \<Rightarrow> state
     \<Rightarrow> (exn + pystr option) \<times> state" where
  "lookup_cover w e spotify_token artist album release_year s =
     (case (case spotify_token of
              None \<Rightarrow> (Inr None, s)
            | Some token \<Rightarrow>
                if token \<noteq> [] then fetch_cover_spotify w artist album token release_year s
                else (Inr None, s)) of
        (Inl x, s1) \<Rightarrow> (Inl x, s1)
      | (Inr url1, s1) \<Rightarrow>
     (case (if \<not> truthy url1 then fetch_cover_deezer w artist album release_year s1
            else (Inr url1, s1)) of
        (Inl x, s2) \<Rightarrow> (Inl x, s2)
      | (Inr url2, s2) \<Rightarrow>
     (case (if \<not> truthy url2 then fetch_cover_lastfm w e artist album s2
            else (Inr url2, s2)) of
        (Inl x, s3) \<Rightarrow> (Inl x, s3)
      | (Inr url3, s3) \<Rightarrow>
     (case (if \<not> truthy url3 then fetch_cover_discogs w e artist album s3
            else (Inr url3, s3)) of
        (Inl x, s4) \<Rightarrow> (Inl x, s4)
      | (Inr url4, s4) \<Rightarrow>
          (if \<not> truthy url4 then fetch_cover_musicbrainz w artist album s4
           else (Inr url4, s4))))))"

text \<open>
  The body of the loop over the catalog (lines 357-420) for one album object. The result is
  the album object as it stands in \<open>data\<close> afterwards, or the exception that left the loop.
\<close>

definition process_album ::
  "world \<Rightarrow> env \<Rightarrow> pystr option \<Rightarrow> pystr \<Rightarrow> 'a album_data_scheme \<Rightarrow> state
     \<Rightarrow> (exn + 'a album_data_scheme) \<times> state" where
  "process_album w e spotify_token genre album_data s =
     (let artist = rec_artist album_data;
          album = rec_album album_data;
          release_year = rec_year album_data;
          cover_src = coverSrc album_data;
          album_data1 = (if \<not> truthy cover_src then album_data\<lparr>coverSrc := Some []\<rparr>
                         else album_data);
          output_path = output_path_of w genre artist album
      in if (case cover_src of None \<Rightarrow> False | Some p \<Rightarrow> p \<noteq> [] \<and> p \<in> files s)
         then (Inr album_data1, s)
         else if output_path \<in> files s
         then (Inr (album_data1\<lparr>coverSrc := Some (str ''/'' @ output_path)\<rparr>), s)
         else
           (case lookup_cover w e spotify_token artist album release_year s of
              (Inl x, s1) \<Rightarrow> (Inl x, s1)
            | (Inr cover_url, s1) \<Rightarrow>
                (case cover_url of
                   None \<Rightarrow> (Inr (album_data1\<lparr>coverSrc := Some (str ''/default-cover.jpg'')\<rparr>), s1)
                 | Some url \<Rightarrow>
                     if url = []
                     then (Inr (album_data1\<lparr>coverSrc := Some (str ''/default-cover.jpg'')\<rparr>), s1)
                     else
                       (case download_and_resize_image w url output_path s1 of
                          (Inl x, s2) \<Rightarrow> (Inl x, s2)
                        | (Inr ok, s2) \<Rightarrow>
                            if ok
                            then (Inr (album_data1\<lparr>coverSrc := Some (str ''/'' @ output_path)\<rparr>), s2)
                            else (Inr album_data1, s2)))))"

text \<open>The loop itself: an exception ends it, and the albums after it are not processed.\<close>

fun process_albums ::
  "world \<Rightarrow> env \<Rightarrow> pystr option \<Rightarrow> pystr \<Rightarrow> 'a album_data_scheme list \<Rightarrow> state
     \<Rightarrow> (exn + 'a album_data_scheme list) \<times> state" where
  "process_albums w e spotify_token genre [] s = (Inr [], s)"
| "process_albums w e spotify_token genre (album_data # rest) s =
     (case process_album w e spotify_token genre album_data s of
        (Inl x, s1) \<Rightarrow> (Inl x, s1)
      | (Inr album_data', s1) \<Rightarrow>
          (case process_albums w e spotify_token genre rest s1 of
             (Inl x, s2) \<Rightarrow> (Inl x, s2)
           | (Inr rest', s2) \<Rightarrow> (Inr (album_data' # rest'), s2)))"

text \<open>
  \<open>process_json file_path\<close>, given the albums \<open>data\<close> that \<open>json.load\<close> read from the file.
  \<open>Inr data'\<close>: the run reached \<open>json.dump\<close> and wrote \<open>data'\<close> back to the file;
  \<open>Inl x\<close>: the exception \<open>x\<close> ended the run before anything was written.
\<close>

definition process_json ::
  "world \<Rightarrow> env \<Rightarrow> pystr \<Rightarrow> 'a album_data_scheme list \<Rightarrow> state
     \<Rightarrow> (exn + 'a album_data_scheme list) \<times> state" where
  "process_json w e file_path data s =
     (case authenticate_spotify w e s of
        (Inl x, s0) \<Rightarrow> (Inl x, s0)
      | (Inr spotify_token, s0) \<Rightarrow>
          process_albums w e spotify_token (splitext_root (basename file_path)) data s0)"

section \<open>Notions used to state the properties\<close>

text \<open>
  The outcome of one pass of the loop over the title variants, as a function of the requests
  made before it and of the request of this pass.
\<close>

definition spotify_reply ::
  "world \<Rightarrow> pystr \<Rightarrow> pystr \<Rightarrow> pystr option \<Rightarrow> request list \<Rightarrow> request \<Rightarrow> exn + pystr option" where
  "spotify_reply w artist album release_year h req =
     (case spotify_api w h req of
        Raised \<Rightarrow> Inl RequestException
      | Http status items \<Rightarrow>
          if status = 200 then spotify_items w artist album release_year items else Inr None)"

definition deezer_reply ::
  "world \<Rightarrow> pystr \<Rightarrow> pystr \<Rightarrow> pystr option \<Rightarrow> request list \<Rightarrow> request \<Rightarrow> exn + pystr option" where
  "deezer_reply w artist album release_year h req =
     (case deezer_api w h req of
        Raised \<Rightarrow> Inl RequestException
      | Http status items \<Rightarrow>
          if status = 200 then Inr (deezer_first w artist album release_year items) else Inr None)"

text \<open>
  A loop over title variants \<open>vs\<close> that started in state \<open>s\<close> and ended in \<open>s'\<close> with outcome
  \<open>r\<close> has tried the variants in their order and stopped at the first verified hit:
  the requests made are those of an initial stretch \<open>pre @ [v]\<close> of \<open>vs\<close>, in this order;
  every pass over \<open>pre\<close> ended without a hit; the pass for \<open>v\<close> gave the outcome \<open>r\<close>; and
  when that outcome is again no hit, \<open>v\<close> is the last variant. \<open>reply h q\<close> is the outcome of
  the pass that sends the request \<open>q\<close> after the requests \<open>h\<close>, and \<open>mk v\<close> is the request for
  the variant \<open>v\<close>.
\<close>

definition variants_tried ::
  "(request list \<Rightarrow> request \<Rightarrow> exn + pystr option) \<Rightarrow> (pystr \<Rightarrow> request) \<Rightarrow> pystr list
     \<Rightarrow> state \<Rightarrow> exn + pystr option \<Rightarrow> state \<Rightarrow> bool" where
  "variants_tried reply mk vs s r s' =
     (\<exists>pre v post. vs = pre @ v # post \<and>
        trace s' = trace s @ map mk (pre @ [v]) \<and>
        (\<forall>j<length pre. reply (trace s @ map mk (take j pre)) (mk (pre ! j)) = Inr None) \<and>
        reply (trace s @ map mk pre) (mk v) = r \<and>
        (r = Inr None \<longrightarrow> post = []))"



text \<open>
  The provider chain in the words of the specification: the providers in a fixed order, each
  queried in turn; a provider that yields no cover passes the turn to the next one, and the
  first cover found ends the lookup. A provider yields a cover when its function returns a
  non-empty URL. An exception is not a result of a provider: it ends the lookup.
\<close>

datatype provider = Spotify | Deezer | Lastfm | Discogs | MusicBrainz

definition PROVIDER_ORDER :: "provider list" where
  "PROVIDER_ORDER = [Spotify, Deezer, Lastfm, Discogs, MusicBrainz]"

fun query_provider ::
  "world \<Rightarrow> env \<Rightarrow> pystr option \<Rightarrow> pystr \<Rightarrow> pystr \<Rightarrow> pystr option \<Rightarrow> provider \<Rightarrow> state
     \<Rightarrow> (exn + pystr option) \<times> state" where
  "query_provider w e spotify_token artist album release_year Spotify s =
     (case spotify_token of
        None \<Rightarrow> (Inr None, s)
      | Some token \<Rightarrow>
          if token \<noteq> [] then fetch_cover_spotify w artist album token release_year s
          else (Inr None, s))"
| "query_provider w e spotify_token artist album release_year Deezer s =
     fetch_cover_deezer w artist album release_year s"
| "query_provider w e spotify_token artist album release_year Lastfm s =
     fetch_cover_lastfm w e artist album s"
| "query_provider w e spotify_token artist album release_year Discogs s =
     fetch_cover_discogs w e artist album s"
| "query_provider w e spotify_token artist album release_year MusicBrainz s =
     fetch_cover_musicbrainz w artist album s"

fun first_found ::
  "world \<Rightarrow> env \<Rightarrow> pystr option \<Rightarrow> pystr \<Rightarrow> pystr \<Rightarrow> pystr option \<Rightarrow> provider list \<Rightarrow> state
     \<Rightarrow> (exn + pystr option) \<times> state" where
  "first_found w e spotify_token artist album release_year [] s = (Inr None, s)"
| "first_found w e spotify_token artist album release_year (p # ps) s =
     (case query_provider w e spotify_token artist album release_year p s of
        (Inl x, s') \<Rightarrow> (Inl x, s')
      | (Inr r, s') \<Rightarrow>
          if truthy r then (Inr r, s')
          else first_found w e spotify_token artist album release_year ps s')"

text \<open>A provider that answers every request with a status other than 200.\<close>

definition unavailable :: "(request list \<Rightarrow> request \<Rightarrow> 'a http) \<Rightarrow> bool" where
  "unavailable api = (\<forall>h q. \<exists>status body. api h q = Http status body \<and> status \<noteq> 200)"

text \<open>
  The stage of the run a request belongs to: the token request, then the five providers in
  the order of the chain (the HEAD request for a cover belongs to MusicBrainz), then the
  download of the image.
\<close>

fun stage :: "request \<Rightarrow> nat" where
  "stage (TokenPost _ _) = 0"
| "stage (SpotifySearch _ _ _) = 1"
| "stage (DeezerSearch _ _) = 2"
| "stage (LastfmAlbumInfo _ _ _) = 3"
| "stage (DiscogsSearch _ _ _) = 4"
| "stage (MusicBrainzSearch _ _) = 5"
| "stage (CoverArtHead _) = 5"
| "stage (ImageGet _) = 6"

fun provider_stage :: "provider \<Rightarrow> nat" where
  "provider_stage Spotify = 1"
| "provider_stage Deezer = 2"
| "provider_stage Lastfm = 3"
| "provider_stage Discogs = 4"
| "provider_stage MusicBrainz = 5"

text \<open>
  \<open>cover_exists\<close>: the condition of line 369, \<open>coverSrc\<close> is not empty and names an existing
  file. \<open>output_path_for\<close>: the output path of an album object. \<open>settled\<close>: the album object
  needs nothing from the network, because its \<open>coverSrc\<close> names an existing file, or because
  its output file exists and \<open>coverSrc\<close> already names it.
\<close>

definition cover_exists :: "state \<Rightarrow> 'a album_data_scheme \<Rightarrow> bool" where
  "cover_exists s album_data =
     (case coverSrc album_data of None \<Rightarrow> False | Some p \<Rightarrow> p \<noteq> [] \<and> p \<in> files s)"

definition output_path_for :: "world \<Rightarrow> pystr \<Rightarrow> 'a album_data_scheme \<Rightarrow> pystr" where
  "output_path_for w genre album_data =
     output_path_of w genre (rec_artist album_data) (rec_album album_data)"


section \<open>Sample surroundings\<close>

text \<open>
  Concrete stand-ins for the libraries and the network, to run the model on examples:
  a similarity that scores equal strings 100 and all others 0; a slug that lower-cases ASCII
  letters, keeps digits and turns every other character into a hyphen; a decomposition that
  knows the letter o with diaeresis (code point 246, decomposed into o and the combining
  diaeresis 776); and the category \<open>Mn\<close> for the combining marks 768 to 879.
\<close>

definition exact_ratio :: "pystr \<Rightarrow> pystr \<Rightarrow> nat" where
  "exact_ratio a b = (if a = b then 100 else 0)"

definition ascii_slug :: "pystr \<Rightarrow> pystr" where
  "ascii_slug t =
     map (\<lambda>c. if 65 \<le> c \<and> c \<le> 90 then c + 32
              else if (97 \<le> c \<and> c \<le> 122) \<or> (48 \<le> c \<and> c \<le> 57) then c
              else 45) t"

definition sample_nfd :: "pystr \<Rightarrow> pystr" where
  "sample_nfd t = concat (map (\<lambda>c. if c = 246 then [111, 776] else [c]) t)"

definition sample_category :: "nat \<Rightarrow> pystr" where
  "sample_category c =
     (if 768 \<le> c \<and> c \<le> 879 then str ''Mn''
      else if 65 \<le> c \<and> c \<le> 90 then str ''Lu'' else str ''Ll'')"

text \<open>
  A world in which a Spotify token is granted, every provider finds nothing, and no image
  can be downloaded.
\<close>

definition quiet_world :: world where
  "quiet_world =
     \<lparr> token_sort_ratio = exact_ratio,
       slugify = ascii_slug,
       unicode_nfd = sample_nfd,
       unicode_category = sample_category,
       spotify_token_api = (\<lambda>h r. Http 200 (Some (str ''token''))),
       spotify_api = (\<lambda>h r. Http 200 []),
       deezer_api = (\<lambda>h r. Http 200 []),
       lastfm_api = (\<lambda>h r. Http 200 None),
       discogs_api = (\<lambda>h r. DiscogsReleases []),
       musicbrainz_api = (\<lambda>h r. Http 200 []),
       coverart_api = (\<lambda>h r. Http 404 ()),
       image_api = (\<lambda>h r. Http 404 []),
       imaging = (\<lambda>content output_path. True) \<rparr>"

definition no_credentials :: env where
  "no_credentials =
     \<lparr> SPOTIFY_CLIENT_ID = None, SPOTIFY_CLIENT_SECRET = None,
       DISCOGS_API_TOKEN = None, LASTFM_API_KEY = None \<rparr>"

definition all_credentials :: env where
  "all_credentials =
     \<lparr> SPOTIFY_CLIENT_ID = Some (str ''id''), SPOTIFY_CLIENT_SECRET = Some (str ''secret''),
       DISCOGS_API_TOKEN = Some (str ''dtoken''), LASTFM_API_KEY = Some (str ''lkey'') \<rparr>"

definition empty_state :: state where
  "empty_state = \<lparr> files = {}, trace = [] \<rparr>"

definition the_wall :: album_data where
  "the_wall =
     \<lparr> rec_artist = str ''Pink Floyd'', rec_album = str ''The Wall'',
       rec_year = Some (str ''1979''), coverSrc = None \<rparr>"

text \<open>
  A world in which Spotify knows the album only under its \<open>Deluxe\<close> title and Deezer only
  under its \<open>Remastered\<close> title (Deezer answers every other search with status 500), and in
  which every image can be downloaded and saved.
\<close>

definition wall_spotify :: spotify_album where
  "wall_spotify =
     \<lparr> sp_name = str ''The Wall'', sp_artists = [str ''Pink Floyd''],
       sp_album_type = Some (str ''album''), sp_release_date = Some (str ''1979-11-30''),
       sp_images = [str ''https://i.scdn.co/image/wall''] \<rparr>"

definition wall_deezer :: deezer_album where
  "wall_deezer =
     \<lparr> dz_title = str ''The Wall'', dz_artist_name = str ''Pink Floyd'',
       dz_record_type = Some (str ''album''), dz_release_date = Some (str ''1979-11-30''),
       dz_cover_big = str ''https://e-cdns-images.dzcdn.net/wall'' \<rparr>"

definition reissue_world :: world where
  "reissue_world =
     quiet_world
     \<lparr> spotify_api :=
         (\<lambda>h r. if r = SpotifySearch (str ''token'') (str ''The Wall Deluxe'') (str ''Pink Floyd'')
                 then Http 200 [wall_spotify] else Http 200 []),
       deezer_api :=
         (\<lambda>h r. if r = DeezerSearch (str ''Pink Floyd'') (str ''The Wall Remastered'')
                 then Http 200 [wall_deezer] else Http 500 []),
       image_api := (\<lambda>h r. Http 200 [255, 216, 255]) \<rparr>"

text \<open>
  A world in which Spotify and Deezer find nothing and Last.fm answers the request for
  \<open>The Wall\<close> by \<open>Pink Floyd\<close> with another album by another artist.
\<close>

definition berlin_lastfm :: lastfm_album where
  "berlin_lastfm =
     \<lparr> lf_name = str ''The Wall: Live in Berlin'', lf_artist = str ''Roger Waters'',
       lf_image = Some [(str ''small'', str ''https://lastfm.freetls.fastly.net/i/u/34s/berlin.png''),
                        (str ''extralarge'', str ''https://lastfm.freetls.fastly.net/i/u/300x300/berlin.png'')] \<rparr>"

definition lastfm_world :: world where
  "lastfm_world = quiet_world \<lparr> lastfm_api := (\<lambda>h r. Http 200 (Some berlin_lastfm)) \<rparr>"

text \<open>
  A world in which every provider is out of order: Spotify, Deezer, Last.fm and MusicBrainz
  answer with status 503, and the Discogs client raises.
\<close>

definition outage_world :: world where
  "outage_world =
     quiet_world
     \<lparr> spotify_api := (\<lambda>h r. Http 503 []),
       deezer_api := (\<lambda>h r. Http 503 []),
       lastfm_api := (\<lambda>h r. Http 503 None),
       discogs_api := (\<lambda>h r. DiscogsRaises),
       musicbrainz_api := (\<lambda>h r. Http 503 []) \<rparr>"


definition animals :: album_data where
  "animals =
     \<lparr> rec_artist = str ''Pink Floyd'', rec_album = str ''Animals'',
       rec_year = Some (str ''1977''), coverSrc = None \<rparr>"

text \<open>
  A world like \<open>reissue_world\<close>, except that the image host answers with status 200 and an
  HTML page, which the imaging library cannot decode.
\<close>

definition html_image_world :: world where
  "html_image_world =
     reissue_world
     \<lparr> image_api := (\<lambda>h r. Http 200 (str ''<html>not an image</html>'')),
       imaging := (\<lambda>content output_path. False) \<rparr>"

text \<open>
  A world in which the services refuse requests without credentials: no Spotify token is
  granted (status 400), Last.fm answers with status 403, and the Discogs client raises.
\<close>

definition rejecting_world :: world where
  "rejecting_world =
     quiet_world
     \<lparr> spotify_token_api := (\<lambda>h r. Http 400 None),
       lastfm_api := (\<lambda>h r. Http 403 None),
       discogs_api := (\<lambda>h r. DiscogsRaises) \<rparr>"

text \<open>
  The artist name \<open>Bj\<close>, o with diaeresis, \<open>rk\<close> as code points, and a Spotify and a Deezer
  candidate by \<open>Bjork\<close>, written without the diaeresis.
\<close>

definition bjork :: pystr where
  "bjork = [66, 106, 246, 114, 107]"

definition homogenic_spotify :: spotify_album where
  "homogenic_spotify =
     \<lparr> sp_name = str ''Homogenic'', sp_artists = [str ''Bjork''],
       sp_album_type = Some (str ''album''), sp_release_date = Some (str ''1997-09-22''),
       sp_images = [str ''https://i.scdn.co/image/homogenic''] \<rparr>"

definition homogenic_deezer :: deezer_album where
  "homogenic_deezer =
     \<lparr> dz_title = str ''Homogenic'', dz_artist_name = str ''Bjork'',
       dz_record_type = Some (str ''album''), dz_release_date = Some (str ''1997-09-22''),
       dz_cover_big = str ''https://e-cdns-images.dzcdn.net/homogenic'' \<rparr>"

text \<open>
  \<open>the_wall\<close> after a run that found nothing, after a run that downloaded its cover, and with
  a cover of its own; the state after the download, and a state that holds the own cover.
\<close>

definition wall_default :: album_data where
  "wall_default = the_wall\<lparr>coverSrc := Some (str ''/default-cover.jpg'')\<rparr>"





text \<open>
  A world like \<open>rejecting_world\<close>, except that Last.fm answers even a request without a key.
\<close>

definition keyless_lastfm_world :: world where
  "keyless_lastfm_world =
     rejecting_world \<lparr> lastfm_api := (\<lambda>h r. Http 200 (Some berlin_lastfm)) \<rparr>"

text \<open>A world like \<open>quiet_world\<close>, except that no connection to Deezer can be made.\<close>

definition deezer_down_world :: world where
  "deezer_down_world = quiet_world \<lparr> deezer_api := (\<lambda>h r. Raised) \<rparr>"


text \<open>A world like \<open>lastfm_world\<close>, except that every image can be downloaded.\<close>

definition berlin_cover_world :: world where
  "berlin_cover_world = lastfm_world \<lparr> image_api := (\<lambda>h r. Http 200 [255, 216, 255]) \<rparr>"

text \<open>
  The Spotify album of \<open>The Wall\<close> with the date of a later reissue, and the Deezer album
  with no date at all.
\<close>

definition wall_reissue_spotify :: spotify_album where
  "wall_reissue_spotify = wall_spotify\<lparr>sp_release_date := Some (str ''2011-09-26'')\<rparr>"

definition wall_undated_deezer :: deezer_album where
  "wall_undated_deezer = wall_deezer\<lparr>dz_release_date := None\<rparr>"

text \<open>
  A world in which no connection can be made to Spotify, Deezer, Last.fm, Discogs or
  MusicBrainz.
\<close>

definition offline_world :: world where
  "offline_world =
     quiet_world
     \<lparr> spotify_api := (\<lambda>h r. Raised),
       deezer_api := (\<lambda>h r. Raised),
       lastfm_api := (\<lambda>h r. Raised),
       discogs_api := (\<lambda>h r. DiscogsRaises),
       musicbrainz_api := (\<lambda>h r. Raised) \<rparr>"

section \<open>Shared lemmas\<close>

lemma trace_sent [simp]: "trace (sent r s) = trace s @ [r]"
  by (simp add: sent_def)

lemma files_sent [simp]: "files (sent r s) = files s"
  by (simp add: sent_def)

lemma spotify_variants_Cons:
  "spotify_variants w artist album tok yr (v # vs) s =
     (case spotify_reply w artist album yr (trace s) (SpotifySearch tok v artist) of
        Inr None \<Rightarrow> spotify_variants w artist album tok yr vs (sent (SpotifySearch tok v artist) s)
      | r \<Rightarrow> (r, sent (SpotifySearch tok v artist) s))"
  by (simp add: spotify_reply_def Let_def split: http.splits sum.splits option.splits)

lemma deezer_variants_Cons:
  "deezer_variants w artist album yr (v # vs) s =
     (case deezer_reply w artist album yr (trace s) (DeezerSearch artist v) of
        Inr None \<Rightarrow> deezer_variants w artist album yr vs (sent (DeezerSearch artist v) s)
      | r \<Rightarrow> (r, sent (DeezerSearch artist v) s))"
  by (simp add: deezer_reply_def Let_def split: http.splits sum.splits option.splits)

declare spotify_variants.simps(2) [simp del]
declare deezer_variants.simps(2) [simp del]

text \<open>What the loop over the variants has done when it ends without a cover, and with one.\<close>

lemma spotify_variants_None:
  "spotify_variants w artist album tok yr vs s = (Inr None, s') \<Longrightarrow>
     trace s' = trace s @ map (\<lambda>v. SpotifySearch tok v artist) vs \<and>
     (\<forall>j<length vs. spotify_reply w artist album yr
          (trace s @ map (\<lambda>v. SpotifySearch tok v artist) (take j vs))
          (SpotifySearch tok (vs ! j) artist) = Inr None)"
proof (induction vs arbitrary: s)
  case Nil
  then show ?case by simp
next
  case (Cons v vs)
  let ?mk = "\<lambda>v. SpotifySearch tok v artist"
  from Cons.prems have r: "spotify_reply w artist album yr (trace s) (?mk v) = Inr None"
    and rest: "spotify_variants w artist album tok yr vs (sent (?mk v) s) = (Inr None, s')"
    by (auto simp: spotify_variants_Cons split: sum.splits option.splits)
  from Cons.IH[OF rest] have t: "trace s' = trace (sent (?mk v) s) @ map ?mk vs"
    and d: "\<forall>j<length vs. spotify_reply w artist album yr
          (trace (sent (?mk v) s) @ map ?mk (take j vs)) (?mk (vs ! j)) = Inr None"
    by blast+
  have "spotify_reply w artist album yr (trace s @ map ?mk (take j (v # vs))) (?mk ((v # vs) ! j)) = Inr None"
    if "j < length (v # vs)" for j
    using that r d by (cases j) auto
  with t show ?case by simp
qed

lemma spotify_variants_stop:
  assumes "spotify_variants w artist album tok yr vs s = (r, s')" and "r \<noteq> Inr None"
  shows "\<exists>pre v post. vs = pre @ v # post \<and>
        trace s' = trace s @ map (\<lambda>v. SpotifySearch tok v artist) (pre @ [v]) \<and>
        spotify_reply w artist album yr (trace s @ map (\<lambda>v. SpotifySearch tok v artist) pre)
          (SpotifySearch tok v artist) = r \<and>
        (\<forall>j<length pre. spotify_reply w artist album yr
            (trace s @ map (\<lambda>v. SpotifySearch tok v artist) (take j pre))
            (SpotifySearch tok (pre ! j) artist) = Inr None)"
  using assms
proof (induction vs arbitrary: s)
  case Nil
  then show ?case by simp
next
  case (Cons v vs)
  let ?mk = "\<lambda>v. SpotifySearch tok v artist"
  show ?case
  proof (cases "spotify_reply w artist album yr (trace s) (?mk v) = Inr None")
    case True
    with Cons.prems have "spotify_variants w artist album tok yr vs (sent (?mk v) s) = (r, s')"
      by (simp add: spotify_variants_Cons)
    from Cons.IH[OF this Cons.prems(2)] obtain pre x post where
      a: "vs = pre @ x # post"
      and b: "trace s' = trace (sent (?mk v) s) @ map ?mk (pre @ [x])"
      and c: "spotify_reply w artist album yr (trace (sent (?mk v) s) @ map ?mk pre) (?mk x) = r"
      and d: "\<forall>j<length pre. spotify_reply w artist album yr
            (trace (sent (?mk v) s) @ map ?mk (take j pre)) (?mk (pre ! j)) = Inr None"
      by blast
    have "spotify_reply w artist album yr
            (trace s @ map ?mk (take j (v # pre))) (?mk ((v # pre) ! j)) = Inr None"
      if "j < length (v # pre)" for j
      using that True d by (cases j) auto
    with a b c show ?thesis
      by (intro exI[of _ "v # pre"] exI[of _ x] exI[of _ post]) simp
  next
    case False
    with Cons.prems have "spotify_reply w artist album yr (trace s) (?mk v) = r"
      and "s' = sent (?mk v) s"
      by (auto simp: spotify_variants_Cons split: sum.splits option.splits)
    then show ?thesis
      by (intro exI[of _ "[]"] exI[of _ v] exI[of _ vs]) simp
  qed
qed

lemma deezer_variants_None:
  "deezer_variants w artist album yr vs s = (Inr None, s') \<Longrightarrow>
     trace s' = trace s @ map (DeezerSearch artist) vs \<and>
     (\<forall>j<length vs. deezer_reply w artist album yr
          (trace s @ map (DeezerSearch artist) (take j vs))
          (DeezerSearch artist (vs ! j)) = Inr None)"
proof (induction vs arbitrary: s)
  case Nil
  then show ?case by simp
next
  case (Cons v vs)
  from Cons.prems have r: "deezer_reply w artist album yr (trace s) (DeezerSearch artist v) = Inr None"
    and rest: "deezer_variants w artist album yr vs (sent (DeezerSearch artist v) s) = (Inr None, s')"
    by (auto simp: deezer_variants_Cons split: sum.splits option.splits)
  from Cons.IH[OF rest] have t: "trace s' = trace (sent (DeezerSearch artist v) s) @ map (DeezerSearch artist) vs"
    and d: "\<forall>j<length vs. deezer_reply w artist album yr
          (trace (sent (DeezerSearch artist v) s) @ map (DeezerSearch artist) (take j vs))
          (DeezerSearch artist (vs ! j)) = Inr None"
    by blast+
  have "deezer_reply w artist album yr (trace s @ map (DeezerSearch artist) (take j (v # vs)))
          (DeezerSearch artist ((v # vs) ! j)) = Inr None"
    if "j < length (v # vs)" for j
    using that r d by (cases j) auto
  with t show ?case by simp
qed

lemma deezer_variants_stop:
  assumes "deezer_variants w artist album yr vs s = (r, s')" and "r \<noteq> Inr None"
  shows "\<exists>pre v post. vs = pre @ v # post \<and>
        trace s' = trace s @ map (DeezerSearch artist) (pre @ [v]) \<and>
        deezer_reply w artist album yr (trace s @ map (DeezerSearch artist) pre)
          (DeezerSearch artist v) = r \<and>
        (\<forall>j<length pre. deezer_reply w artist album yr
            (trace s @ map (DeezerSearch artist) (take j pre))
            (DeezerSearch artist (pre ! j)) = Inr None)"
  using assms
proof (induction vs arbitrary: s)
  case Nil
  then show ?case by simp
next
  case (Cons v vs)
  show ?case
  proof (cases "deezer_reply w artist album yr (trace s) (DeezerSearch artist v) = Inr None")
    case True
    with Cons.prems have "deezer_variants w artist album yr vs (sent (DeezerSearch artist v) s) = (r, s')"
      by (simp add: deezer_variants_Cons)
    from Cons.IH[OF this Cons.prems(2)] obtain pre x post where
      a: "vs = pre @ x # post"
      and b: "trace s' = trace (sent (DeezerSearch artist v) s) @ map (DeezerSearch artist) (pre @ [x])"
      and c: "deezer_reply w artist album yr
                (trace (sent (DeezerSearch artist v) s) @ map (DeezerSearch artist) pre)
                (DeezerSearch artist x) = r"
      and d: "\<forall>j<length pre. deezer_reply w artist album yr
            (trace (sent (DeezerSearch artist v) s) @ map (DeezerSearch artist) (take j pre))
            (DeezerSearch artist (pre ! j)) = Inr None"
      by blast
    have "deezer_reply w artist album yr
            (trace s @ map (DeezerSearch artist) (take j (v # pre)))
            (DeezerSearch artist ((v # pre) ! j)) = Inr None"
      if "j < length (v # pre)" for j
      using that True d by (cases j) auto
    with a b c show ?thesis
      by (intro exI[of _ "v # pre"] exI[of _ x] exI[of _ post]) simp
  next
    case False
    with Cons.prems have "deezer_reply w artist album yr (trace s) (DeezerSearch artist v) = r"
      and "s' = sent (DeezerSearch artist v) s"
      by (auto simp: deezer_variants_Cons split: sum.splits option.splits)
    then show ?thesis
      by (intro exI[of _ "[]"] exI[of _ v] exI[of _ vs]) simp
  qed
qed

lemma quiet_world_simps:
  "token_sort_ratio quiet_world = exact_ratio"
  "slugify quiet_world = ascii_slug"
  "unicode_nfd quiet_world = sample_nfd"
  "unicode_category quiet_world = sample_category"
  "spotify_token_api quiet_world = (\<lambda>h r. Http 200 (Some (str ''token'')))"
  "spotify_api quiet_world = (\<lambda>h r. Http 200 [])"
  "deezer_api quiet_world = (\<lambda>h r. Http 200 [])"
  "lastfm_api quiet_world = (\<lambda>h r. Http 200 None)"
  "discogs_api quiet_world = (\<lambda>h r. DiscogsReleases [])"
  "musicbrainz_api quiet_world = (\<lambda>h r. Http 200 [])"
  "coverart_api quiet_world = (\<lambda>h r. Http 404 ())"
  "image_api quiet_world = (\<lambda>h r. Http 404 [])"
  "imaging quiet_world = (\<lambda>c p. True)"
  by (simp_all add: quiet_world_def)

lemma all_credentials_simps:
  "SPOTIFY_CLIENT_ID all_credentials = Some (str ''id'')"
  "SPOTIFY_CLIENT_SECRET all_credentials = Some (str ''secret'')"
  "DISCOGS_API_TOKEN all_credentials = Some (str ''dtoken'')"
  "LASTFM_API_KEY all_credentials = Some (str ''lkey'')"
  by (simp_all add: all_credentials_def)

lemma no_credentials_simps:
  "SPOTIFY_CLIENT_ID no_credentials = None"
  "SPOTIFY_CLIENT_SECRET no_credentials = None"
  "DISCOGS_API_TOKEN no_credentials = None"
  "LASTFM_API_KEY no_credentials = None"
  by (simp_all add: no_credentials_def)

lemma empty_state_simps: "files empty_state = {}" "trace empty_state = []"
  by (simp_all add: empty_state_def)

lemma reissue_world_simps:
  "token_sort_ratio reissue_world = exact_ratio"
  "slugify reissue_world = ascii_slug"
  "spotify_token_api reissue_world = (\<lambda>h r. Http 200 (Some (str ''token'')))"
  "spotify_api reissue_world =
     (\<lambda>h r. if r = SpotifySearch (str ''token'') (str ''The Wall Deluxe'') (str ''Pink Floyd'')
             then Http 200 [wall_spotify] else Http 200 [])"
  "deezer_api reissue_world =
     (\<lambda>h r. if r = DeezerSearch (str ''Pink Floyd'') (str ''The Wall Remastered'')
             then Http 200 [wall_deezer] else Http 500 [])"
  "lastfm_api reissue_world = (\<lambda>h r. Http 200 None)"
  "discogs_api reissue_world = (\<lambda>h r. DiscogsReleases [])"
  "musicbrainz_api reissue_world = (\<lambda>h r. Http 200 [])"
  "coverart_api reissue_world = (\<lambda>h r. Http 404 ())"
  "image_api reissue_world = (\<lambda>h r. Http 200 [255, 216, 255])"
  "imaging reissue_world = (\<lambda>c p. True)"
  by (simp_all add: reissue_world_def quiet_world_def)


lemma title_variants_list:
  "title_variants album =
     [album, album @ str '' Deluxe'', album @ str '' Remastered'', album @ str '' Anniversary'',
      album @ str '' Special Edition'', album @ str '' Expanded Edition'']"
  by (simp add: title_variants_def TITLE_VARIANTS_def str_def)


lemma spotify_variants_run:
  assumes "vs \<noteq> []" and run: "spotify_variants w artist album tok yr vs s = (r, s')"
  shows "\<exists>pre v post. vs = pre @ v # post \<and>
        trace s' = trace s @ map (\<lambda>v. SpotifySearch tok v artist) (pre @ [v]) \<and>
        (\<forall>j<length pre. spotify_reply w artist album yr
            (trace s @ map (\<lambda>v. SpotifySearch tok v artist) (take j pre))
            (SpotifySearch tok (pre ! j) artist) = Inr None) \<and>
        spotify_reply w artist album yr (trace s @ map (\<lambda>v. SpotifySearch tok v artist) pre)
          (SpotifySearch tok v artist) = r \<and>
        (r = Inr None \<longrightarrow> post = [])"
proof (cases "r = Inr None")
  case True
  let ?mk = "\<lambda>v. SpotifySearch tok v artist"
  from \<open>vs \<noteq> []\<close> obtain pre v where vs: "vs = pre @ [v]"
    by (cases vs rule: rev_cases) auto
  from run True have run': "spotify_variants w artist album tok yr vs s = (Inr None, s')"
    by simp
  from spotify_variants_None[OF run'] have t: "trace s' = trace s @ map ?mk vs"
    and d: "\<forall>j<length vs. spotify_reply w artist album yr
          (trace s @ map ?mk (take j vs)) (?mk (vs ! j)) = Inr None"
    by simp_all
  have e: "spotify_reply w artist album yr
            (trace s @ map ?mk (take j pre)) (?mk (pre ! j)) = Inr None"
    if "j < length pre" for j
    using d[rule_format, of j] that by (simp add: vs nth_append)
  have l: "spotify_reply w artist album yr (trace s @ map ?mk pre) (?mk v) = r"
    using d[rule_format, of "length pre"] True by (simp add: vs)
  show ?thesis
    apply (rule exI[of _ pre], rule exI[of _ v], rule exI[of _ "[]"])
    using t e l by (simp add: vs)
next
  case False
  from spotify_variants_stop[OF run False] obtain pre v post where
    "vs = pre @ v # post"
    "trace s' = trace s @ map (\<lambda>v. SpotifySearch tok v artist) (pre @ [v])"
    "spotify_reply w artist album yr (trace s @ map (\<lambda>v. SpotifySearch tok v artist) pre)
          (SpotifySearch tok v artist) = r"
    "\<forall>j<length pre. spotify_reply w artist album yr
            (trace s @ map (\<lambda>v. SpotifySearch tok v artist) (take j pre))
            (SpotifySearch tok (pre ! j) artist) = Inr None"
    by blast
  with False show ?thesis
    by (intro exI[of _ pre] exI[of _ v] exI[of _ post]) simp
qed

lemma deezer_variants_run:
  assumes "vs \<noteq> []" and run: "deezer_variants w artist album yr vs s = (r, s')"
  shows "\<exists>pre v post. vs = pre @ v # post \<and>
        trace s' = trace s @ map (DeezerSearch artist) (pre @ [v]) \<and>
        (\<forall>j<length pre. deezer_reply w artist album yr
            (trace s @ map (DeezerSearch artist) (take j pre))
            (DeezerSearch artist (pre ! j)) = Inr None) \<and>
        deezer_reply w artist album yr (trace s @ map (DeezerSearch artist) pre)
          (DeezerSearch artist v) = r \<and>
        (r = Inr None \<longrightarrow> post = [])"
proof (cases "r = Inr None")
  case True
  let ?mk = "DeezerSearch artist"
  from \<open>vs \<noteq> []\<close> obtain pre v where vs: "vs = pre @ [v]"
    by (cases vs rule: rev_cases) auto
  from run True have run': "deezer_variants w artist album yr vs s = (Inr None, s')"
    by simp
  from deezer_variants_None[OF run'] have t: "trace s' = trace s @ map ?mk vs"
    and d: "\<forall>j<length vs. deezer_reply w artist album yr
          (trace s @ map ?mk (take j vs)) (?mk (vs ! j)) = Inr None"
    by simp_all
  have e: "deezer_reply w artist album yr
            (trace s @ map ?mk (take j pre)) (?mk (pre ! j)) = Inr None"
    if "j < length pre" for j
    using d[rule_format, of j] that by (simp add: vs nth_append)
  have l: "deezer_reply w artist album yr (trace s @ map ?mk pre) (?mk v) = r"
    using d[rule_format, of "length pre"] True by (simp add: vs)
  show ?thesis
    apply (rule exI[of _ pre], rule exI[of _ v], rule exI[of _ "[]"])
    using t e l by (simp add: vs)
next
  case False
  from deezer_variants_stop[OF run False] obtain pre v post where
    "vs = pre @ v # post"
    "trace s' = trace s @ map (DeezerSearch artist) (pre @ [v])"
    "deezer_reply w artist album yr (trace s @ map (DeezerSearch artist) pre)
          (DeezerSearch artist v) = r"
    "\<forall>j<length pre. deezer_reply w artist album yr
            (trace s @ map (DeezerSearch artist) (take j pre))
            (DeezerSearch artist (pre ! j)) = Inr None"
    by blast
  with False show ?thesis
    by (intro exI[of _ pre] exI[of _ v] exI[of _ post]) simp
qed

lemma spotify_variants_tried:
  assumes "vs \<noteq> []" and "spotify_variants w artist album tok yr vs s = (r, s')"
  shows "variants_tried (spotify_reply w artist album yr) (\<lambda>v. SpotifySearch tok v artist) vs s r s'"
  unfolding variants_tried_def by (rule spotify_variants_run[OF assms])

lemma deezer_variants_tried:
  assumes "vs \<noteq> []" and "deezer_variants w artist album yr vs s = (r, s')"
  shows "variants_tried (deezer_reply w artist album yr) (DeezerSearch artist) vs s r s'"
  unfolding variants_tried_def by (rule deezer_variants_run[OF assms])

lemma fetch_cover_lastfm_trace:
  "trace (snd (fetch_cover_lastfm w e artist album s)) =
     trace s @ [LastfmAlbumInfo (LASTFM_API_KEY e) artist album]"
  by (simp add: fetch_cover_lastfm_def Let_def split: http.splits option.splits)

lemma fetch_cover_discogs_trace:
  "trace (snd (fetch_cover_discogs w e artist album s)) =
     trace s @ [DiscogsSearch (DISCOGS_API_TOKEN e) album artist]"
  by (simp add: fetch_cover_discogs_def Let_def split: discogs_reply.splits list.splits)

lemma fetch_cover_musicbrainz_trace:
  "\<exists>rest. trace (snd (fetch_cover_musicbrainz w artist album s)) =
            trace s @ MusicBrainzSearch artist album # rest \<and>
          (rest = [] \<or> (\<exists>u. rest = [CoverArtHead u]))"
  by (simp add: fetch_cover_musicbrainz_def Let_def split: http.splits list.splits)

lemma pink_floyd_spotify_reissue:
  "fetch_cover_spotify reissue_world (str ''Pink Floyd'') (str ''The Wall'') (str ''token'')
       (Some (str ''1979'')) empty_state =
     (Inr (Some (str ''https://i.scdn.co/image/wall'')),
      empty_state\<lparr>trace :=
        [SpotifySearch (str ''token'') (str ''The Wall'') (str ''Pink Floyd''),
         SpotifySearch (str ''token'') (str ''The Wall Deluxe'') (str ''Pink Floyd'')]\<rparr>)"
  by (simp add: fetch_cover_spotify_def title_variants_list spotify_variants_Cons spotify_reply_def
       reissue_world_simps match_ok_def fuzzy_match_def exact_ratio_def ALBUM_TYPES_def
       release_year_of_def wall_spotify_def sent_def empty_state_def str_def)

lemma pink_floyd_deezer_reissue:
  "fetch_cover_deezer reissue_world (str ''Pink Floyd'') (str ''The Wall'')
       (Some (str ''1979'')) empty_state =
     (Inr (Some (str ''https://e-cdns-images.dzcdn.net/wall'')),
      empty_state\<lparr>trace :=
        [DeezerSearch (str ''Pink Floyd'') (str ''The Wall''),
         DeezerSearch (str ''Pink Floyd'') (str ''The Wall Deluxe''),
         DeezerSearch (str ''Pink Floyd'') (str ''The Wall Remastered'')]\<rparr>)"
  by (simp add: fetch_cover_deezer_def title_variants_list deezer_variants_Cons deezer_reply_def
       deezer_first_def reissue_world_simps match_ok_def fuzzy_match_def exact_ratio_def
       ALBUM_TYPES_def release_year_of_def wall_deezer_def sent_def empty_state_def str_def)

section \<open>C3: title variants\<close>

text \<open>
  C3, as amended. Spotify and Deezer go through the base title and then the title followed by
  a space and each of the five suffixes, in this order, and stop at the first verified hit
  (\<open>variants_tried\<close>). Last.fm, Discogs and MusicBrainz ask for the base title only: one
  request each, MusicBrainz at most one more for the cover of the release it found.
\<close>

theorem C3_title_variants:
  assumes "fetch_cover_spotify w artist album tok yr s = (r1, s1)"
    and "fetch_cover_deezer w artist album yr s = (r2, s2)"
  shows "title_variants album =
     [album, album @ str '' Deluxe'', album @ str '' Remastered'', album @ str '' Anniversary'',
      album @ str '' Special Edition'', album @ str '' Expanded Edition''] \<and>
   variants_tried (spotify_reply w artist album yr) (\<lambda>v. SpotifySearch tok v artist)
     (title_variants album) s r1 s1 \<and>
   variants_tried (deezer_reply w artist album yr) (DeezerSearch artist)
     (title_variants album) s r2 s2 \<and>
   trace (snd (fetch_cover_lastfm w e artist album s)) =
     trace s @ [LastfmAlbumInfo (LASTFM_API_KEY e) artist album] \<and>
   trace (snd (fetch_cover_discogs w e artist album s)) =
     trace s @ [DiscogsSearch (DISCOGS_API_TOKEN e) album artist] \<and>
   (\<exists>rest. trace (snd (fetch_cover_musicbrainz w artist album s)) =
             trace s @ MusicBrainzSearch artist album # rest \<and>
           (rest = [] \<or> (\<exists>u. rest = [CoverArtHead u])))"
proof -
  have ne: "title_variants album \<noteq> []" by (simp add: title_variants_def)
  from assms(1) have sp: "variants_tried (spotify_reply w artist album yr)
      (\<lambda>v. SpotifySearch tok v artist) (title_variants album) s r1 s1"
    unfolding fetch_cover_spotify_def by (rule spotify_variants_tried[OF ne])
  from assms(2) have dz: "variants_tried (deezer_reply w artist album yr)
      (DeezerSearch artist) (title_variants album) s r2 s2"
    unfolding fetch_cover_deezer_def by (rule deezer_variants_tried[OF ne])
  show ?thesis
    by (intro conjI title_variants_list sp dz fetch_cover_lastfm_trace fetch_cover_discogs_trace
          fetch_cover_musicbrainz_trace)
qed

theorem C3_title_variants_witness:
  "fetch_cover_spotify reissue_world (str ''Pink Floyd'') (str ''The Wall'') (str ''token'')
       (Some (str ''1979'')) empty_state =
     (Inr (Some (str ''https://i.scdn.co/image/wall'')),
      empty_state\<lparr>trace :=
        [SpotifySearch (str ''token'') (str ''The Wall'') (str ''Pink Floyd''),
         SpotifySearch (str ''token'') (str ''The Wall Deluxe'') (str ''Pink Floyd'')]\<rparr>) \<and>
   fetch_cover_deezer reissue_world (str ''Pink Floyd'') (str ''The Wall'')
       (Some (str ''1979'')) empty_state =
     (Inr (Some (str ''https://e-cdns-images.dzcdn.net/wall'')),
      empty_state\<lparr>trace :=
        [DeezerSearch (str ''Pink Floyd'') (str ''The Wall''),
         DeezerSearch (str ''Pink Floyd'') (str ''The Wall Deluxe''),
         DeezerSearch (str ''Pink Floyd'') (str ''The Wall Remastered'')]\<rparr>) \<and>
   variants_tried (spotify_reply reissue_world (str ''Pink Floyd'') (str ''The Wall'') (Some (str ''1979'')))
     (\<lambda>v. SpotifySearch (str ''token'') v (str ''Pink Floyd'')) (title_variants (str ''The Wall''))
     empty_state (Inr (Some (str ''https://i.scdn.co/image/wall'')))
     (empty_state\<lparr>trace :=
        [SpotifySearch (str ''token'') (str ''The Wall'') (str ''Pink Floyd''),
         SpotifySearch (str ''token'') (str ''The Wall Deluxe'') (str ''Pink Floyd'')]\<rparr>) \<and>
   variants_tried (deezer_reply reissue_world (str ''Pink Floyd'') (str ''The Wall'') (Some (str ''1979'')))
     (DeezerSearch (str ''Pink Floyd'')) (title_variants (str ''The Wall''))
     empty_state (Inr (Some (str ''https://e-cdns-images.dzcdn.net/wall'')))
     (empty_state\<lparr>trace :=
        [DeezerSearch (str ''Pink Floyd'') (str ''The Wall''),
         DeezerSearch (str ''Pink Floyd'') (str ''The Wall Deluxe''),
         DeezerSearch (str ''Pink Floyd'') (str ''The Wall Remastered'')]\<rparr>)"
proof -
  note c = C3_title_variants[OF pink_floyd_spotify_reissue pink_floyd_deezer_reissue]
  show ?thesis
    by (intro conjI pink_floyd_spotify_reissue pink_floyd_deezer_reissue
          c[THEN conjunct2, THEN conjunct1] c[THEN conjunct2, THEN conjunct2, THEN conjunct1])
qed

text \<open>
  C3 as stated fails for Last.fm, Discogs and MusicBrainz: where no provider finds anything,
  each of the three is asked once, for the base title, and for no title with a suffix.
\<close>

theorem C3_counterexample:
  "fetch_cover_lastfm quiet_world all_credentials (str ''Pink Floyd'') (str ''The Wall'') empty_state =
     (Inr None,
      empty_state\<lparr>trace := [LastfmAlbumInfo (Some (str ''lkey'')) (str ''Pink Floyd'') (str ''The Wall'')]\<rparr>) \<and>
   fetch_cover_discogs quiet_world all_credentials (str ''Pink Floyd'') (str ''The Wall'') empty_state =
     (Inr None,
      empty_state\<lparr>trace := [DiscogsSearch (Some (str ''dtoken'')) (str ''The Wall'') (str ''Pink Floyd'')]\<rparr>) \<and>
   fetch_cover_musicbrainz quiet_world (str ''Pink Floyd'') (str ''The Wall'') empty_state =
     (Inr None,
      empty_state\<lparr>trace := [MusicBrainzSearch (str ''Pink Floyd'') (str ''The Wall'')]\<rparr>)"
  by (simp add: fetch_cover_lastfm_def fetch_cover_discogs_def fetch_cover_musicbrainz_def
        quiet_world_simps all_credentials_simps sent_def empty_state_def)

lemma lastfm_world_simps:
  "token_sort_ratio lastfm_world = exact_ratio"
  "slugify lastfm_world = ascii_slug"
  "spotify_token_api lastfm_world = (\<lambda>h r. Http 200 (Some (str ''token'')))"
  "spotify_api lastfm_world = (\<lambda>h r. Http 200 [])"
  "deezer_api lastfm_world = (\<lambda>h r. Http 200 [])"
  "lastfm_api lastfm_world = (\<lambda>h r. Http 200 (Some berlin_lastfm))"
  "discogs_api lastfm_world = (\<lambda>h r. DiscogsReleases [])"
  "musicbrainz_api lastfm_world = (\<lambda>h r. Http 200 [])"
  "coverart_api lastfm_world = (\<lambda>h r. Http 404 ())"
  "image_api lastfm_world = (\<lambda>h r. Http 404 [])"
  "imaging lastfm_world = (\<lambda>c p. True)"
  by (simp_all add: lastfm_world_def quiet_world_def)



lemma spotify_items_Some:
  "spotify_items w artist album yr items = Inr (Some url) \<Longrightarrow>
     \<exists>item artist_name. item \<in> set items \<and>
        take 1 (sp_artists item) = [artist_name] \<and> take 1 (sp_images item) = [url] \<and>
        match_ok w artist album yr artist_name (sp_name item) (sp_album_type item)
          (sp_release_date item)"
proof (induction items)
  case Nil
  then show ?case by simp
next
  case (Cons a items)
  show ?case
  proof (cases "sp_artists a")
    case Nil
    with Cons.prems show ?thesis by simp
  next
    case (Cons n ns)
    note artists = this
    show ?thesis
    proof (cases "match_ok w artist album yr n (sp_name a) (sp_album_type a) (sp_release_date a)")
      case True
      with artists Cons.prems obtain imgs where "sp_images a = url # imgs"
        by (cases "sp_images a") auto
      with True artists show ?thesis
        by (intro exI[of _ a] exI[of _ n]) simp
    next
      case False
      with artists Cons.prems have "spotify_items w artist album yr items = Inr (Some url)"
        by simp
      from Cons.IH[OF this] obtain item artist_name where
        "item \<in> set items" "take 1 (sp_artists item) = [artist_name]"
        "take 1 (sp_images item) = [url]"
        "match_ok w artist album yr artist_name (sp_name item) (sp_album_type item)
          (sp_release_date item)"
        by blast
      then show ?thesis
        by (intro exI[of _ item] exI[of _ artist_name]) simp
    qed
  qed
qed










section \<open>C1: which results are verified\<close>







lemma release_year_of_prefix:
  assumes "of_char (CHR ''-'') \<notin> set year"
  shows "release_year_of (Some (year @ str ''-'' @ rest)) = year"
    and "release_year_of (Some year) = year"
proof -
  from assms have a: "\<forall>x\<in>set year. x \<noteq> of_char (CHR ''-'')" by auto
  then have "takeWhile (\<lambda>c. c \<noteq> of_char (CHR ''-'')) (year @ of_char (CHR ''-'') # rest) = year"
    by (induction year) auto
  then show "release_year_of (Some (year @ str ''-'' @ rest)) = year"
    by (simp add: release_year_of_def str_def)
  from a have "takeWhile (\<lambda>c. c \<noteq> of_char (CHR ''-'')) year = year"
    by (induction year) auto
  then show "release_year_of (Some year) = year"
    by (simp add: release_year_of_def)
qed

lemma match_ok_year:
  "match_ok w artist album (Some y) artist_name album_name album_type date \<Longrightarrow>
     release_year_of date = y"
  by (simp add: match_ok_def)

lemma wall_spotify_items:
  "spotify_items quiet_world (str ''Pink Floyd'') (str ''The Wall'') (Some (str ''1979''))
     [wall_spotify] = Inr (Some (str ''https://i.scdn.co/image/wall''))"
  by (simp add: quiet_world_simps match_ok_def fuzzy_match_def exact_ratio_def ALBUM_TYPES_def
        release_year_of_def wall_spotify_def str_def)

lemma wall_deezer_first:
  "deezer_first quiet_world (str ''Pink Floyd'') (str ''The Wall'') (Some (str ''1979''))
     [wall_deezer] = Some (str ''https://e-cdns-images.dzcdn.net/wall'')"
  by (simp add: deezer_first_def quiet_world_simps match_ok_def fuzzy_match_def exact_ratio_def
        ALBUM_TYPES_def release_year_of_def wall_deezer_def str_def)

lemma spotify_items_no_year:
  assumes "take 1 (sp_artists item) = [artist_name]" and "take 1 (sp_images item) = [url]"
    and "90 \<le> token_sort_ratio w artist artist_name"
    and "85 \<le> token_sort_ratio w album (sp_name item)"
    and "sp_album_type item = Some t" and "t \<in> set ALBUM_TYPES"
  shows "spotify_items w artist album None (item # rest) = Inr (Some url)"
proof -
  from assms(1) obtain more_artists where a: "sp_artists item = artist_name # more_artists"
    by (cases "sp_artists item") auto
  from assms(2) obtain more_images where i: "sp_images item = url # more_images"
    by (cases "sp_images item") auto
  from assms(3-6) have
    "match_ok w artist album None artist_name (sp_name item) (sp_album_type item)
       (sp_release_date item)"
    by (simp add: match_ok_def fuzzy_match_def)
  with a i show ?thesis by simp
qed

lemma deezer_first_no_year:
  assumes "90 \<le> token_sort_ratio w artist (dz_artist_name item)"
    and "85 \<le> token_sort_ratio w album (dz_title item)"
    and "dz_record_type item = Some t" and "t \<in> set ALBUM_TYPES"
  shows "deezer_first w artist album None (item # others) = Some (dz_cover_big item)"
  using assms by (simp add: deezer_first_def match_ok_def fuzzy_match_def)

section \<open>C7: the year check\<close>

text \<open>
  C7. With a requested year \<open>y\<close>, an album that Spotify's loop or Deezer's check accepts has
  the release year \<open>y\<close>, and a candidate whose release year differs from \<open>y\<close> is rejected
  whatever the similarity scores are. With no requested year the year check is skipped: the
  verdict does not depend on the date, it is the verdict a request for the candidate's own
  release year would get, and a candidate that passes the artist, title and type checks is
  accepted by Spotify's loop and by Deezer's check whatever its date is. The release year is
  the text of the date before its first hyphen: the leading year of a date such as
  \<open>1979-11-30\<close>, the whole date when it has no hyphen, and the empty string when the
  candidate has no date.
\<close>

theorem C7_year_check:
  "(spotify_items w artist album (Some y) sp_items = Inr (Some url) \<longrightarrow>
      (\<exists>item. item \<in> set sp_items \<and> take 1 (sp_images item) = [url] \<and>
         release_year_of (sp_release_date item) = y)) \<and>
   (deezer_first w artist album (Some y) dz_items = Some url \<longrightarrow>
      (\<exists>item others. dz_items = item # others \<and> dz_cover_big item = url \<and>
         release_year_of (dz_release_date item) = y)) \<and>
   (release_year_of date \<noteq> y \<longrightarrow>
      \<not> match_ok w artist album (Some y) artist_name album_name album_type date) \<and>
   match_ok w artist album None artist_name album_name album_type date =
     match_ok w artist album None artist_name album_name album_type date' \<and>
   (of_char (CHR ''-'') \<notin> set year \<longrightarrow>
      release_year_of (Some (year @ str ''-'' @ rest)) = year \<and>
      release_year_of (Some year) = year) \<and>
   release_year_of None = [] \<and>
   match_ok w artist album None artist_name album_name album_type date =
     match_ok w artist album (Some (release_year_of date)) artist_name album_name album_type
       date \<and>
   (take 1 (sp_artists sp_item) = [artist_name] \<and> take 1 (sp_images sp_item) = [url] \<and>
    90 \<le> token_sort_ratio w artist artist_name \<and>
    85 \<le> token_sort_ratio w album (sp_name sp_item) \<and>
    sp_album_type sp_item = Some t \<and> t \<in> set ALBUM_TYPES \<longrightarrow>
      spotify_items w artist album None (sp_item # sp_rest) = Inr (Some url)) \<and>
   (90 \<le> token_sort_ratio w artist (dz_artist_name dz_item) \<and>
    85 \<le> token_sort_ratio w album (dz_title dz_item) \<and>
    dz_record_type dz_item = Some t \<and> t \<in> set ALBUM_TYPES \<longrightarrow>
      deezer_first w artist album None (dz_item # dz_rest) = Some (dz_cover_big dz_item))"
proof (intro conjI impI)
  assume "spotify_items w artist album (Some y) sp_items = Inr (Some url)"
  from spotify_items_Some[OF this] obtain item artist_name where
    "item \<in> set sp_items" "take 1 (sp_images item) = [url]"
    "match_ok w artist album (Some y) artist_name (sp_name item) (sp_album_type item)
       (sp_release_date item)"
    by blast
  then show "\<exists>item. item \<in> set sp_items \<and> take 1 (sp_images item) = [url] \<and>
         release_year_of (sp_release_date item) = y"
    by (intro exI[of _ item]) (simp add: match_ok_year)
next
  assume "deezer_first w artist album (Some y) dz_items = Some url"
  then show "\<exists>item others. dz_items = item # others \<and> dz_cover_big item = url \<and>
         release_year_of (dz_release_date item) = y"
    by (cases dz_items) (auto simp: deezer_first_def match_ok_year split: if_splits)
next
  assume "release_year_of date \<noteq> y"
  then show "\<not> match_ok w artist album (Some y) artist_name album_name album_type date"
    using match_ok_year by blast
next
  show "match_ok w artist album None artist_name album_name album_type date =
     match_ok w artist album None artist_name album_name album_type date'"
    by (simp add: match_ok_def)
next
  assume "of_char (CHR ''-'') \<notin> set year"
  then show "release_year_of (Some (year @ str ''-'' @ rest)) = year"
    by (rule release_year_of_prefix)
next
  assume "of_char (CHR ''-'') \<notin> set year"
  then show "release_year_of (Some year) = year"
    by (rule release_year_of_prefix)
next
  show "release_year_of None = []"
    by (simp add: release_year_of_def)
next
  show "match_ok w artist album None artist_name album_name album_type date =
     match_ok w artist album (Some (release_year_of date)) artist_name album_name album_type
       date"
    by (simp add: match_ok_def)
next
  assume "take 1 (sp_artists sp_item) = [artist_name] \<and> take 1 (sp_images sp_item) = [url] \<and>
    90 \<le> token_sort_ratio w artist artist_name \<and>
    85 \<le> token_sort_ratio w album (sp_name sp_item) \<and>
    sp_album_type sp_item = Some t \<and> t \<in> set ALBUM_TYPES"
  then show "spotify_items w artist album None (sp_item # sp_rest) = Inr (Some url)"
    using spotify_items_no_year by blast
next
  assume "90 \<le> token_sort_ratio w artist (dz_artist_name dz_item) \<and>
    85 \<le> token_sort_ratio w album (dz_title dz_item) \<and>
    dz_record_type dz_item = Some t \<and> t \<in> set ALBUM_TYPES"
  then show "deezer_first w artist album None (dz_item # dz_rest) = Some (dz_cover_big dz_item)"
    using deezer_first_no_year by blast
qed

lemma year_1979_no_hyphen: "of_char (CHR ''-'') \<notin> set (str ''1979'')"
  by (simp add: str_def)

lemma wall_year_differs: "release_year_of (Some (str ''1979-11-30'')) \<noteq> str ''1980''"
  by (simp add: release_year_of_def str_def)

lemma wall_reissue_passes:
  "take 1 (sp_artists wall_reissue_spotify) = [str ''Pink Floyd''] \<and>
   take 1 (sp_images wall_reissue_spotify) = [str ''https://i.scdn.co/image/wall''] \<and>
   90 \<le> token_sort_ratio quiet_world (str ''Pink Floyd'') (str ''Pink Floyd'') \<and>
   85 \<le> token_sort_ratio quiet_world (str ''The Wall'') (sp_name wall_reissue_spotify) \<and>
   sp_album_type wall_reissue_spotify = Some (str ''album'') \<and>
   str ''album'' \<in> set ALBUM_TYPES"
  by (simp add: wall_reissue_spotify_def wall_spotify_def quiet_world_simps exact_ratio_def
        ALBUM_TYPES_def)

lemma wall_undated_passes:
  "90 \<le> token_sort_ratio quiet_world (str ''Pink Floyd'') (dz_artist_name wall_undated_deezer) \<and>
   85 \<le> token_sort_ratio quiet_world (str ''The Wall'') (dz_title wall_undated_deezer) \<and>
   dz_record_type wall_undated_deezer = Some (str ''album'') \<and>
   str ''album'' \<in> set ALBUM_TYPES"
  by (simp add: wall_undated_deezer_def wall_deezer_def quiet_world_simps exact_ratio_def
        ALBUM_TYPES_def)

lemma wall_reissue_dates:
  "sp_release_date wall_reissue_spotify = Some (str ''2011-09-26'')"
  "dz_release_date wall_undated_deezer = None"
  "dz_cover_big wall_undated_deezer = str ''https://e-cdns-images.dzcdn.net/wall''"
  by (simp_all add: wall_reissue_spotify_def wall_undated_deezer_def wall_deezer_def)

lemma wall_reissue_with_year:
  "spotify_items quiet_world (str ''Pink Floyd'') (str ''The Wall'') (Some (str ''1979''))
     [wall_reissue_spotify] = Inr None"
  "deezer_first quiet_world (str ''Pink Floyd'') (str ''The Wall'') (Some (str ''1979''))
     [wall_undated_deezer] = None"
  by (simp_all add: deezer_first_def quiet_world_simps match_ok_def fuzzy_match_def
        exact_ratio_def ALBUM_TYPES_def release_year_of_def wall_reissue_spotify_def
        wall_undated_deezer_def wall_spotify_def wall_deezer_def str_def)

theorem C7_year_check_witness:
  "spotify_items quiet_world (str ''Pink Floyd'') (str ''The Wall'') (Some (str ''1979''))
     [wall_spotify] = Inr (Some (str ''https://i.scdn.co/image/wall'')) \<and>
   (\<exists>item. item \<in> set [wall_spotify] \<and>
      take 1 (sp_images item) = [str ''https://i.scdn.co/image/wall''] \<and>
      release_year_of (sp_release_date item) = str ''1979'') \<and>
   deezer_first quiet_world (str ''Pink Floyd'') (str ''The Wall'') (Some (str ''1979''))
     [wall_deezer] = Some (str ''https://e-cdns-images.dzcdn.net/wall'') \<and>
   (\<exists>item others. [wall_deezer] = item # others \<and>
      dz_cover_big item = str ''https://e-cdns-images.dzcdn.net/wall'' \<and>
      release_year_of (dz_release_date item) = str ''1979'') \<and>
   release_year_of (Some (str ''1979-11-30'')) \<noteq> str ''1980'' \<and>
   token_sort_ratio quiet_world (str ''Pink Floyd'') (str ''Pink Floyd'') = 100 \<and>
   token_sort_ratio quiet_world (str ''The Wall'') (str ''The Wall'') = 100 \<and>
   \<not> match_ok quiet_world (str ''Pink Floyd'') (str ''The Wall'') (Some (str ''1980''))
       (str ''Pink Floyd'') (str ''The Wall'') (Some (str ''album'')) (Some (str ''1979-11-30'')) \<and>
   of_char (CHR ''-'') \<notin> set (str ''1979'') \<and>
   release_year_of (Some (str ''1979'' @ str ''-'' @ str ''11-30'')) = str ''1979'' \<and>
   release_year_of (Some (str ''1979'')) = str ''1979'' \<and>
   (take 1 (sp_artists wall_reissue_spotify) = [str ''Pink Floyd''] \<and>
    take 1 (sp_images wall_reissue_spotify) = [str ''https://i.scdn.co/image/wall''] \<and>
    90 \<le> token_sort_ratio quiet_world (str ''Pink Floyd'') (str ''Pink Floyd'') \<and>
    85 \<le> token_sort_ratio quiet_world (str ''The Wall'') (sp_name wall_reissue_spotify) \<and>
    sp_album_type wall_reissue_spotify = Some (str ''album'') \<and>
    str ''album'' \<in> set ALBUM_TYPES) \<and>
   sp_release_date wall_reissue_spotify = Some (str ''2011-09-26'') \<and>
   spotify_items quiet_world (str ''Pink Floyd'') (str ''The Wall'') (Some (str ''1979''))
     [wall_reissue_spotify] = Inr None \<and>
   spotify_items quiet_world (str ''Pink Floyd'') (str ''The Wall'') None
     (wall_reissue_spotify # []) = Inr (Some (str ''https://i.scdn.co/image/wall'')) \<and>
   (90 \<le> token_sort_ratio quiet_world (str ''Pink Floyd'') (dz_artist_name wall_undated_deezer) \<and>
    85 \<le> token_sort_ratio quiet_world (str ''The Wall'') (dz_title wall_undated_deezer) \<and>
    dz_record_type wall_undated_deezer = Some (str ''album'') \<and>
    str ''album'' \<in> set ALBUM_TYPES) \<and>
   dz_release_date wall_undated_deezer = None \<and>
   deezer_first quiet_world (str ''Pink Floyd'') (str ''The Wall'') (Some (str ''1979''))
     [wall_undated_deezer] = None \<and>
   deezer_first quiet_world (str ''Pink Floyd'') (str ''The Wall'') None
     (wall_undated_deezer # []) = Some (dz_cover_big wall_undated_deezer)"
proof -
  note t = C7_year_check[where w = quiet_world and artist = "str ''Pink Floyd''"
      and album = "str ''The Wall''"]
  note u = t[THEN conjunct2, THEN conjunct2, THEN conjunct2, THEN conjunct2, THEN conjunct2,
      THEN conjunct2, THEN conjunct2]
  have ratio: "token_sort_ratio quiet_world (str ''Pink Floyd'') (str ''Pink Floyd'') = 100"
    "token_sort_ratio quiet_world (str ''The Wall'') (str ''The Wall'') = 100"
    by (simp_all add: quiet_world_simps exact_ratio_def)
  show ?thesis
    by (intro conjI wall_spotify_items wall_deezer_first wall_year_differs ratio
          year_1979_no_hyphen wall_reissue_dates(1,2) wall_reissue_with_year
          wall_reissue_passes[THEN conjunct1]
          wall_reissue_passes[THEN conjunct2, THEN conjunct1]
          wall_reissue_passes[THEN conjunct2, THEN conjunct2, THEN conjunct1]
          wall_reissue_passes[THEN conjunct2, THEN conjunct2, THEN conjunct2, THEN conjunct1]
          wall_reissue_passes[THEN conjunct2, THEN conjunct2, THEN conjunct2, THEN conjunct2,
            THEN conjunct1]
          wall_reissue_passes[THEN conjunct2, THEN conjunct2, THEN conjunct2, THEN conjunct2,
            THEN conjunct2]
          wall_undated_passes[THEN conjunct1]
          wall_undated_passes[THEN conjunct2, THEN conjunct1]
          wall_undated_passes[THEN conjunct2, THEN conjunct2, THEN conjunct1]
          wall_undated_passes[THEN conjunct2, THEN conjunct2, THEN conjunct2]
          t[THEN conjunct1, rule_format, OF wall_spotify_items]
          t[THEN conjunct2, THEN conjunct1, rule_format, OF wall_deezer_first]
          t[THEN conjunct2, THEN conjunct2, THEN conjunct1, rule_format, OF wall_year_differs]
          t[THEN conjunct2, THEN conjunct2, THEN conjunct2, THEN conjunct2, THEN conjunct1,
            rule_format, OF year_1979_no_hyphen, THEN conjunct1]
          t[THEN conjunct2, THEN conjunct2, THEN conjunct2, THEN conjunct2, THEN conjunct1,
            rule_format, OF year_1979_no_hyphen, THEN conjunct2]
          u[THEN conjunct1, rule_format, OF wall_reissue_passes]
          u[THEN conjunct2, rule_format, OF wall_undated_passes])
qed

lemma outage_world_simps:
  "token_sort_ratio outage_world = exact_ratio"
  "slugify outage_world = ascii_slug"
  "spotify_token_api outage_world = (\<lambda>h r. Http 200 (Some (str ''token'')))"
  "spotify_api outage_world = (\<lambda>h r. Http 503 [])"
  "deezer_api outage_world = (\<lambda>h r. Http 503 [])"
  "lastfm_api outage_world = (\<lambda>h r. Http 503 None)"
  "discogs_api outage_world = (\<lambda>h r. DiscogsRaises)"
  "musicbrainz_api outage_world = (\<lambda>h r. Http 503 [])"
  "coverart_api outage_world = (\<lambda>h r. Http 404 ())"
  "image_api outage_world = (\<lambda>h r. Http 404 [])"
  "imaging outage_world = (\<lambda>c p. True)"
  by (simp_all add: outage_world_def quiet_world_def)

text \<open>Each provider only adds requests of its own stage and leaves the files alone.\<close>

lemma spotify_variants_stage:
  "spotify_variants w artist album tok yr vs s = (r, s') \<Longrightarrow>
     \<exists>qs. trace s' = trace s @ qs \<and> (\<forall>q\<in>set qs. stage q = 1) \<and> files s' = files s"
proof (induction vs arbitrary: s)
  case Nil
  then show ?case by simp
next
  case (Cons v vs)
  let ?q = "SpotifySearch tok v artist"
  show ?case
  proof (cases "spotify_reply w artist album yr (trace s) ?q = Inr None")
    case True
    with Cons.prems have "spotify_variants w artist album tok yr vs (sent ?q s) = (r, s')"
      by (simp add: spotify_variants_Cons)
    from Cons.IH[OF this] obtain qs where
      "trace s' = trace (sent ?q s) @ qs" "\<forall>q\<in>set qs. stage q = 1" "files s' = files (sent ?q s)"
      by blast
    then show ?thesis by (intro exI[of _ "?q # qs"]) simp
  next
    case False
    with Cons.prems have "s' = sent ?q s"
      by (auto simp: spotify_variants_Cons split: sum.splits option.splits)
    then show ?thesis by (intro exI[of _ "[?q]"]) simp
  qed
qed

lemma deezer_variants_stage:
  "deezer_variants w artist album yr vs s = (r, s') \<Longrightarrow>
     \<exists>qs. trace s' = trace s @ qs \<and> (\<forall>q\<in>set qs. stage q = 2) \<and> files s' = files s"
proof (induction vs arbitrary: s)
  case Nil
  then show ?case by simp
next
  case (Cons v vs)
  let ?q = "DeezerSearch artist v"
  show ?case
  proof (cases "deezer_reply w artist album yr (trace s) ?q = Inr None")
    case True
    with Cons.prems have "deezer_variants w artist album yr vs (sent ?q s) = (r, s')"
      by (simp add: deezer_variants_Cons)
    from Cons.IH[OF this] obtain qs where
      "trace s' = trace (sent ?q s) @ qs" "\<forall>q\<in>set qs. stage q = 2" "files s' = files (sent ?q s)"
      by blast
    then show ?thesis by (intro exI[of _ "?q # qs"]) simp
  next
    case False
    with Cons.prems have "s' = sent ?q s"
      by (auto simp: deezer_variants_Cons split: sum.splits option.splits)
    then show ?thesis by (intro exI[of _ "[?q]"]) simp
  qed
qed

lemma fetch_cover_lastfm_stage:
  "fetch_cover_lastfm w e artist album s = (r, s') \<Longrightarrow>
     \<exists>qs. trace s' = trace s @ qs \<and> (\<forall>q\<in>set qs. stage q = 3) \<and> files s' = files s"
  by (auto simp: fetch_cover_lastfm_def Let_def split: http.splits option.splits if_splits)

lemma fetch_cover_discogs_stage:
  "fetch_cover_discogs w e artist album s = (r, s') \<Longrightarrow>
     \<exists>qs. trace s' = trace s @ qs \<and> (\<forall>q\<in>set qs. stage q = 4) \<and> files s' = files s"
  by (auto simp: fetch_cover_discogs_def Let_def split: discogs_reply.splits list.splits)

lemma fetch_cover_musicbrainz_stage:
  "fetch_cover_musicbrainz w artist album s = (r, s') \<Longrightarrow>
     \<exists>qs. trace s' = trace s @ qs \<and> (\<forall>q\<in>set qs. stage q = 5) \<and> files s' = files s"
  by (auto simp: fetch_cover_musicbrainz_def Let_def split: http.splits list.splits if_splits)

lemma query_provider_stage:
  "query_provider w e tok artist album yr p s = (r, s') \<Longrightarrow>
     \<exists>qs. trace s' = trace s @ qs \<and> (\<forall>q\<in>set qs. stage q = provider_stage p) \<and>
          files s' = files s"
proof (cases p)
  case Spotify
  assume "query_provider w e tok artist album yr p s = (r, s')"
  with Spotify show ?thesis
    using spotify_variants_stage[of w artist album _ yr "title_variants album" s r s']
    by (auto simp: fetch_cover_spotify_def split: option.splits if_splits)
next
  case Deezer
  assume "query_provider w e tok artist album yr p s = (r, s')"
  with Deezer show ?thesis
    using deezer_variants_stage[of w artist album yr "title_variants album" s r s']
    by (simp add: fetch_cover_deezer_def)
next
  case Lastfm
  assume "query_provider w e tok artist album yr p s = (r, s')"
  with Lastfm show ?thesis using fetch_cover_lastfm_stage[of w e artist album s r s'] by simp
next
  case Discogs
  assume "query_provider w e tok artist album yr p s = (r, s')"
  with Discogs show ?thesis using fetch_cover_discogs_stage[of w e artist album s r s'] by simp
next
  case MusicBrainz
  assume "query_provider w e tok artist album yr p s = (r, s')"
  with MusicBrainz show ?thesis
    using fetch_cover_musicbrainz_stage[of w artist album s r s'] by simp
qed

lemma first_found_stages:
  "sorted (map provider_stage ps) \<Longrightarrow>
   first_found w e tok artist album yr ps s = (r, s') \<Longrightarrow>
     \<exists>qs. trace s' = trace s @ qs \<and> sorted (map stage qs) \<and>
          (\<forall>q\<in>set qs. stage q \<in> provider_stage ` set ps) \<and> files s' = files s"
proof (induction ps arbitrary: s)
  case Nil
  then show ?case by simp
next
  case (Cons p ps)
  obtain r1 s1 where q: "query_provider w e tok artist album yr p s = (r1, s1)"
    by (cases "query_provider w e tok artist album yr p s") auto
  from query_provider_stage[OF q] obtain qs1 where
    t1: "trace s1 = trace s @ qs1" and st1: "\<forall>q\<in>set qs1. stage q = provider_stage p"
    and f1: "files s1 = files s"
    by blast
  have sorted1: "sorted (map stage qs1)"
    using st1 by (induction qs1) auto
  show ?case
  proof (cases "\<exists>v. r1 = Inr v \<and> \<not> truthy v")
    case True
    with q Cons.prems(2) have rest: "first_found w e tok artist album yr ps s1 = (r, s')"
      by auto
    from Cons.prems(1) have "sorted (map provider_stage ps)" by simp
    from Cons.IH[OF this rest] obtain qs2 where
      t2: "trace s' = trace s1 @ qs2" and so2: "sorted (map stage qs2)"
      and st2: "\<forall>q\<in>set qs2. stage q \<in> provider_stage ` set ps" and f2: "files s' = files s1"
      by blast
    from Cons.prems(1) have le: "\<forall>x\<in>set ps. provider_stage p \<le> provider_stage x" by simp
    have "sorted (map stage (qs1 @ qs2))"
      using sorted1 so2 st1 st2 le by (auto simp: sorted_append)
    moreover have "\<forall>q\<in>set (qs1 @ qs2). stage q \<in> provider_stage ` set (p # ps)"
      using st1 st2 by auto
    ultimately show ?thesis
      using t1 t2 f1 f2 by (intro exI[of _ "qs1 @ qs2"]) simp
  next
    case False
    with q Cons.prems(2) have "s' = s1"
      by (cases r1) (auto split: if_splits)
    with t1 st1 f1 sorted1 show ?thesis
      by (intro exI[of _ qs1]) simp
  qed
qed

lemma fetch_cover_musicbrainz_falsy:
  "fetch_cover_musicbrainz w artist album s = (Inr r, s') \<Longrightarrow> \<not> truthy r \<Longrightarrow> r = None"
  by (auto simp: fetch_cover_musicbrainz_def Let_def str_def split: http.splits list.splits if_splits)

lemma lookup_cover_first_found:
  "lookup_cover w e tok artist album yr s =
     first_found w e tok artist album yr PROVIDER_ORDER s"
proof -
  obtain r1 s1 where a: "query_provider w e tok artist album yr Spotify s = (r1, s1)"
    by (cases "query_provider w e tok artist album yr Spotify s") auto
  obtain r2 s2 where b: "fetch_cover_deezer w artist album yr s1 = (r2, s2)"
    by (cases "fetch_cover_deezer w artist album yr s1") auto
  obtain r3 s3 where c: "fetch_cover_lastfm w e artist album s2 = (r3, s3)"
    by (cases "fetch_cover_lastfm w e artist album s2") auto
  obtain r4 s4 where d: "fetch_cover_discogs w e artist album s3 = (r4, s4)"
    by (cases "fetch_cover_discogs w e artist album s3") auto
  obtain r5 s5 where f: "fetch_cover_musicbrainz w artist album s4 = (r5, s5)"
    by (cases "fetch_cover_musicbrainz w artist album s4") auto
  have mb: "r5 = Inr None" if "r5 = Inr v" "\<not> truthy v" for v
    using fetch_cover_musicbrainz_falsy[of w artist album s4 v s5] f that by simp
  from a have a': "(case tok of None \<Rightarrow> (Inr None, s)
            | Some token \<Rightarrow>
                if token \<noteq> [] then fetch_cover_spotify w artist album token yr s
                else (Inr None, s)) = (r1, s1)"
    by simp
  show ?thesis
    unfolding lookup_cover_def PROVIDER_ORDER_def a'
    using a b c d f mb
    by (cases r1; cases r2; cases r3; cases r4; cases r5) (auto split: if_splits)
qed

lemma spotify_variants_unavailable:
  "unavailable (spotify_api w) \<Longrightarrow>
     spotify_variants w artist album tok yr vs s =
       (Inr None, s\<lparr>trace := trace s @ map (\<lambda>v. SpotifySearch tok v artist) vs\<rparr>)"
proof (induction vs arbitrary: s)
  case Nil
  then show ?case by simp
next
  case (Cons v vs)
  from Cons.prems obtain st b where
    "spotify_api w (trace s) (SpotifySearch tok v artist) = Http st b" "st \<noteq> 200"
    unfolding unavailable_def by blast
  then have "spotify_reply w artist album yr (trace s) (SpotifySearch tok v artist) = Inr None"
    by (simp add: spotify_reply_def)
  then show ?case
    by (simp add: spotify_variants_Cons Cons.IH[OF Cons.prems] sent_def)
qed

lemma deezer_variants_unavailable:
  "unavailable (deezer_api w) \<Longrightarrow>
     deezer_variants w artist album yr vs s =
       (Inr None, s\<lparr>trace := trace s @ map (DeezerSearch artist) vs\<rparr>)"
proof (induction vs arbitrary: s)
  case Nil
  then show ?case by simp
next
  case (Cons v vs)
  from Cons.prems obtain st b where
    "deezer_api w (trace s) (DeezerSearch artist v) = Http st b" "st \<noteq> 200"
    unfolding unavailable_def by blast
  then have "deezer_reply w artist album yr (trace s) (DeezerSearch artist v) = Inr None"
    by (simp add: deezer_reply_def)
  then show ?case
    by (simp add: deezer_variants_Cons Cons.IH[OF Cons.prems] sent_def)
qed

lemma fetch_cover_lastfm_unavailable:
  "unavailable (lastfm_api w) \<Longrightarrow>
     fetch_cover_lastfm w e artist album s =
       (Inr None, s\<lparr>trace := trace s @ [LastfmAlbumInfo (LASTFM_API_KEY e) artist album]\<rparr>)"
proof -
  assume "unavailable (lastfm_api w)"
  then obtain st b where
    "lastfm_api w (trace s) (LastfmAlbumInfo (LASTFM_API_KEY e) artist album) = Http st b"
    "st \<noteq> 200"
    unfolding unavailable_def by blast
  then show ?thesis by (simp add: fetch_cover_lastfm_def sent_def)
qed

lemma fetch_cover_musicbrainz_unavailable:
  "unavailable (musicbrainz_api w) \<Longrightarrow>
     fetch_cover_musicbrainz w artist album s =
       (Inr None, s\<lparr>trace := trace s @ [MusicBrainzSearch artist album]\<rparr>)"
proof -
  assume "unavailable (musicbrainz_api w)"
  then obtain st b where
    "musicbrainz_api w (trace s) (MusicBrainzSearch artist album) = Http st b" "st \<noteq> 200"
    unfolding unavailable_def by blast
  then show ?thesis by (simp add: fetch_cover_musicbrainz_def sent_def)
qed

lemma fetch_cover_discogs_raises:
  "discogs_api w (trace s) (DiscogsSearch (DISCOGS_API_TOKEN e) album artist) = DiscogsRaises \<Longrightarrow>
     fetch_cover_discogs w e artist album s =
       (Inr None, s\<lparr>trace := trace s @ [DiscogsSearch (DISCOGS_API_TOKEN e) album artist]\<rparr>)"
  by (simp add: fetch_cover_discogs_def sent_def)

lemma lookup_cover_stages:
  "\<exists>qs. trace (snd (lookup_cover w e tok artist album yr s)) = trace s @ qs \<and>
        sorted (map stage qs) \<and> (\<forall>q\<in>set qs. 1 \<le> stage q \<and> stage q \<le> 5)"
proof -
  obtain r s' where l: "first_found w e tok artist album yr PROVIDER_ORDER s = (r, s')"
    by (cases "first_found w e tok artist album yr PROVIDER_ORDER s") auto
  have "sorted (map provider_stage PROVIDER_ORDER)" by (simp add: PROVIDER_ORDER_def)
  from first_found_stages[OF this l] obtain qs where
    "trace s' = trace s @ qs" "sorted (map stage qs)"
    "\<forall>q\<in>set qs. stage q \<in> provider_stage ` set PROVIDER_ORDER"
    by blast
  moreover have "provider_stage ` set PROVIDER_ORDER = {1, 2, 3, 4, 5}"
    by (auto simp: PROVIDER_ORDER_def)
  ultimately show ?thesis
    using l by (intro exI[of _ qs]) (auto simp: lookup_cover_first_found)
qed

section \<open>The order of the providers\<close>

text \<open>
  Where no exception escapes, the nested conditions of \<open>process_json\<close> are a chain over
  Spotify, Deezer, Last.fm, Discogs, MusicBrainz in this order, Spotify being asked only when
  a token was obtained: the requests of one lookup come stage by stage in this order; a
  provider that returns a non-empty URL ends the lookup with that URL; a provider that
  returns nothing hands over to the next one. Spotify, Deezer, Last.fm and MusicBrainz return
  \<open>None\<close> when every answer has a status other than 200, and Discogs when its client raises.
\<close>

lemma provider_chain:
  "PROVIDER_ORDER = [Spotify, Deezer, Lastfm, Discogs, MusicBrainz] \<and>
   lookup_cover w e tok artist album yr s =
     first_found w e tok artist album yr PROVIDER_ORDER s \<and>
   (\<exists>qs. trace (snd (lookup_cover w e tok artist album yr s)) = trace s @ qs \<and>
        sorted (map stage qs) \<and> (\<forall>q\<in>set qs. 1 \<le> stage q \<and> stage q \<le> 5)) \<and>
   (\<not> truthy tok \<longrightarrow> query_provider w e tok artist album yr Spotify s = (Inr None, s)) \<and>
   (query_provider w e tok artist album yr p s = (Inr (Some url), s') \<and> url \<noteq> [] \<longrightarrow>
      first_found w e tok artist album yr (p # ps) s = (Inr (Some url), s')) \<and>
   (query_provider w e tok artist album yr p s = (Inr r, s') \<and> \<not> truthy r \<longrightarrow>
      first_found w e tok artist album yr (p # ps) s =
        first_found w e tok artist album yr ps s') \<and>
   (unavailable (spotify_api w) \<longrightarrow>
      fetch_cover_spotify w artist album token yr s =
        (Inr None, s\<lparr>trace := trace s @
           map (\<lambda>v. SpotifySearch token v artist) (title_variants album)\<rparr>)) \<and>
   (unavailable (deezer_api w) \<longrightarrow>
      fetch_cover_deezer w artist album yr s =
        (Inr None, s\<lparr>trace := trace s @ map (DeezerSearch artist) (title_variants album)\<rparr>)) \<and>
   (unavailable (lastfm_api w) \<longrightarrow>
      fetch_cover_lastfm w e artist album s =
        (Inr None, s\<lparr>trace := trace s @ [LastfmAlbumInfo (LASTFM_API_KEY e) artist album]\<rparr>)) \<and>
   (discogs_api w (trace s) (DiscogsSearch (DISCOGS_API_TOKEN e) album artist) = DiscogsRaises \<longrightarrow>
      fetch_cover_discogs w e artist album s =
        (Inr None, s\<lparr>trace := trace s @ [DiscogsSearch (DISCOGS_API_TOKEN e) album artist]\<rparr>)) \<and>
   (unavailable (musicbrainz_api w) \<longrightarrow>
      fetch_cover_musicbrainz w artist album s =
        (Inr None, s\<lparr>trace := trace s @ [MusicBrainzSearch artist album]\<rparr>))"
proof (intro conjI impI)
  show "PROVIDER_ORDER = [Spotify, Deezer, Lastfm, Discogs, MusicBrainz]"
    by (simp add: PROVIDER_ORDER_def)
  show "lookup_cover w e tok artist album yr s =
     first_found w e tok artist album yr PROVIDER_ORDER s"
    by (rule lookup_cover_first_found)
  show "\<exists>qs. trace (snd (lookup_cover w e tok artist album yr s)) = trace s @ qs \<and>
        sorted (map stage qs) \<and> (\<forall>q\<in>set qs. 1 \<le> stage q \<and> stage q \<le> 5)"
    by (rule lookup_cover_stages)
next
  assume "\<not> truthy tok"
  then show "query_provider w e tok artist album yr Spotify s = (Inr None, s)"
    by (cases tok) simp_all
next
  assume "query_provider w e tok artist album yr p s = (Inr (Some url), s') \<and> url \<noteq> []"
  then show "first_found w e tok artist album yr (p # ps) s = (Inr (Some url), s')"
    by simp
next
  assume "query_provider w e tok artist album yr p s = (Inr r, s') \<and> \<not> truthy r"
  then show "first_found w e tok artist album yr (p # ps) s =
        first_found w e tok artist album yr ps s'"
    by simp
next
  assume "unavailable (spotify_api w)"
  then show "fetch_cover_spotify w artist album token yr s =
        (Inr None, s\<lparr>trace := trace s @
           map (\<lambda>v. SpotifySearch token v artist) (title_variants album)\<rparr>)"
    unfolding fetch_cover_spotify_def by (rule spotify_variants_unavailable)
next
  assume "unavailable (deezer_api w)"
  then show "fetch_cover_deezer w artist album yr s =
        (Inr None, s\<lparr>trace := trace s @ map (DeezerSearch artist) (title_variants album)\<rparr>)"
    unfolding fetch_cover_deezer_def by (rule deezer_variants_unavailable)
next
  assume "unavailable (lastfm_api w)"
  then show "fetch_cover_lastfm w e artist album s =
        (Inr None, s\<lparr>trace := trace s @ [LastfmAlbumInfo (LASTFM_API_KEY e) artist album]\<rparr>)"
    by (rule fetch_cover_lastfm_unavailable)
next
  assume "discogs_api w (trace s) (DiscogsSearch (DISCOGS_API_TOKEN e) album artist) = DiscogsRaises"
  then show "fetch_cover_discogs w e artist album s =
        (Inr None, s\<lparr>trace := trace s @ [DiscogsSearch (DISCOGS_API_TOKEN e) album artist]\<rparr>)"
    by (rule fetch_cover_discogs_raises)
next
  assume "unavailable (musicbrainz_api w)"
  then show "fetch_cover_musicbrainz w artist album s =
        (Inr None, s\<lparr>trace := trace s @ [MusicBrainzSearch artist album]\<rparr>)"
    by (rule fetch_cover_musicbrainz_unavailable)
qed


lemma not_truthy_None: "\<not> truthy None"
  by simp

lemma deezer_down_world_simps:
  "token_sort_ratio deezer_down_world = exact_ratio"
  "slugify deezer_down_world = ascii_slug"
  "spotify_token_api deezer_down_world = (\<lambda>h r. Http 200 (Some (str ''token'')))"
  "spotify_api deezer_down_world = (\<lambda>h r. Http 200 [])"
  "deezer_api deezer_down_world = (\<lambda>h r. Raised)"
  by (simp_all add: deezer_down_world_def quiet_world_def)



lemma process_album_lookup:
  assumes "\<not> cover_exists s album_data" and "output_path_for w genre album_data \<notin> files s"
  shows "process_album w e tok genre album_data s =
     (case lookup_cover w e tok (rec_artist album_data) (rec_album album_data)
             (rec_year album_data) s of
        (Inl x, s1) \<Rightarrow> (Inl x, s1)
      | (Inr cover_url, s1) \<Rightarrow>
          if \<not> truthy cover_url
          then (Inr (album_data\<lparr>coverSrc := Some (str ''/default-cover.jpg'')\<rparr>), s1)
          else
            (case download_and_resize_image w (the cover_url)
                    (output_path_for w genre album_data) s1 of
               (Inl x, s2) \<Rightarrow> (Inl x, s2)
             | (Inr ok, s2) \<Rightarrow>
                 if ok
                 then (Inr (album_data\<lparr>coverSrc :=
                              Some (str ''/'' @ output_path_for w genre album_data)\<rparr>), s2)
                 else (Inr (if truthy (coverSrc album_data) then album_data
                            else album_data\<lparr>coverSrc := Some []\<rparr>), s2)))"
proof -
  from assms(1) have c: "\<not> (case coverSrc album_data of None \<Rightarrow> False
                          | Some p \<Rightarrow> p \<noteq> [] \<and> p \<in> files s)"
    by (simp add: cover_exists_def)
  from assms(2) have o: "output_path_of w genre (rec_artist album_data) (rec_album album_data)
      \<notin> files s"
    by (simp add: output_path_for_def)
  show ?thesis
    unfolding process_album_def Let_def
    using c o
    by (auto simp: output_path_for_def split: prod.splits sum.splits option.splits)
qed




lemma the_wall_simps:
  "rec_artist the_wall = str ''Pink Floyd''" "rec_album the_wall = str ''The Wall''"
  "rec_year the_wall = Some (str ''1979'')" "coverSrc the_wall = None"
  by (simp_all add: the_wall_def)

lemma the_wall_output_path:
  "output_path_of w' (str ''rock'') (str ''Pink Floyd'') (str ''The Wall'') =
     str ''bandcover/rock/pink-floyd-the-wall.jpg''"
  if "slugify w' = ascii_slug"
  using that by (simp add: output_path_of_def path_join_def ascii_slug_def str_def)


lemma the_wall_needs_lookup:
  "\<not> cover_exists empty_state the_wall"
  "output_path_for quiet_world (str ''rock'') the_wall \<notin> files empty_state"
  by (simp_all add: cover_exists_def the_wall_simps empty_state_simps)

lemma the_wall_quiet_lookup:
  "lookup_cover quiet_world all_credentials (Some (str ''token'')) (rec_artist the_wall)
       (rec_album the_wall) (rec_year the_wall) empty_state =
     (Inr None,
      empty_state\<lparr>trace :=
        map (\<lambda>v. SpotifySearch (str ''token'') v (str ''Pink Floyd'')) (title_variants (str ''The Wall'')) @
        map (DeezerSearch (str ''Pink Floyd'')) (title_variants (str ''The Wall'')) @
        [LastfmAlbumInfo (Some (str ''lkey'')) (str ''Pink Floyd'') (str ''The Wall''),
         DiscogsSearch (Some (str ''dtoken'')) (str ''The Wall'') (str ''Pink Floyd''),
         MusicBrainzSearch (str ''Pink Floyd'') (str ''The Wall'')]\<rparr>)"
  by (simp add: the_wall_simps lookup_cover_def fetch_cover_spotify_def fetch_cover_deezer_def
        fetch_cover_lastfm_def fetch_cover_discogs_def fetch_cover_musicbrainz_def
        title_variants_list spotify_variants_Cons spotify_reply_def deezer_variants_Cons
        deezer_reply_def deezer_first_def quiet_world_simps all_credentials_simps
        sent_def empty_state_def str_def)

section \<open>C4: a failed connection\<close>

lemma fetch_cover_spotify_raises:
  "spotify_api w (trace s) (SpotifySearch token album artist) = Raised \<Longrightarrow>
     fetch_cover_spotify w artist album token yr s =
       (Inl RequestException, sent (SpotifySearch token album artist) s)"
  by (simp add: fetch_cover_spotify_def title_variants_def spotify_variants_Cons
        spotify_reply_def)

lemma fetch_cover_deezer_raises:
  "deezer_api w (trace s) (DeezerSearch artist album) = Raised \<Longrightarrow>
     fetch_cover_deezer w artist album yr s =
       (Inl RequestException, sent (DeezerSearch artist album) s)"
  by (simp add: fetch_cover_deezer_def title_variants_def deezer_variants_Cons deezer_reply_def)

lemma fetch_cover_lastfm_raises:
  "lastfm_api w (trace s) (LastfmAlbumInfo (LASTFM_API_KEY e) artist album) = Raised \<Longrightarrow>
     fetch_cover_lastfm w e artist album s =
       (Inl RequestException, sent (LastfmAlbumInfo (LASTFM_API_KEY e) artist album) s)"
  by (simp add: fetch_cover_lastfm_def)

lemma fetch_cover_musicbrainz_raises:
  "musicbrainz_api w (trace s) (MusicBrainzSearch artist album) = Raised \<Longrightarrow>
     fetch_cover_musicbrainz w artist album s =
       (Inl RequestException, sent (MusicBrainzSearch artist album) s)"
  by (simp add: fetch_cover_musicbrainz_def)

lemma lookup_cover_deezer_raises:
  assumes "(case tok of
              None \<Rightarrow> (Inr None, s)
            | Some token \<Rightarrow>
                if token \<noteq> [] then fetch_cover_spotify w artist album token yr s
                else (Inr None, s)) = (Inr r, s1)"
    and "\<not> truthy r"
    and "deezer_api w (trace s1) (DeezerSearch artist album) = Raised"
  shows "lookup_cover w e tok artist album yr s =
     (Inl RequestException, sent (DeezerSearch artist album) s1)"
  unfolding lookup_cover_def
  by (simp only: assms(1)) (simp add: assms(2) fetch_cover_deezer_raises[OF assms(3)])

text \<open>
  C4 fails where a connection fails. When the request to Spotify found nothing (or no token
  was obtained) and the first request to Deezer cannot be made, \<open>requests\<close> raises; nothing
  catches the exception, so it ends the lookup, the loop body and the loop: Last.fm, Discogs
  and MusicBrainz are not asked, and no album after this one is processed. The same holds of
  the first request of \<open>fetch_cover_spotify\<close>, \<open>fetch_cover_lastfm\<close> and
  \<open>fetch_cover_musicbrainz\<close>: each lets the exception of \<open>requests\<close> escape.
\<close>

theorem C4_transport_error_aborts:
  assumes "\<not> cover_exists s album_data"
    and "output_path_for w genre album_data \<notin> files s"
    and "(case tok of
            None \<Rightarrow> (Inr None, s)
          | Some token \<Rightarrow>
              if token \<noteq> []
              then fetch_cover_spotify w (rec_artist album_data) (rec_album album_data) token
                     (rec_year album_data) s
              else (Inr None, s)) = (Inr r, s1)"
    and "\<not> truthy r"
    and "deezer_api w (trace s1)
           (DeezerSearch (rec_artist album_data) (rec_album album_data)) = Raised"
  shows "lookup_cover w e tok (rec_artist album_data) (rec_album album_data)
       (rec_year album_data) s =
     (Inl RequestException,
      sent (DeezerSearch (rec_artist album_data) (rec_album album_data)) s1) \<and>
   process_album w e tok genre album_data s =
     (Inl RequestException,
      sent (DeezerSearch (rec_artist album_data) (rec_album album_data)) s1) \<and>
   process_albums w e tok genre (album_data # others) s =
     (Inl RequestException,
      sent (DeezerSearch (rec_artist album_data) (rec_album album_data)) s1) \<and>
   (spotify_api w (trace st) (SpotifySearch token album artist) = Raised \<longrightarrow>
      fetch_cover_spotify w artist album token yr st =
        (Inl RequestException, sent (SpotifySearch token album artist) st)) \<and>
   (deezer_api w (trace st) (DeezerSearch artist album) = Raised \<longrightarrow>
      fetch_cover_deezer w artist album yr st =
        (Inl RequestException, sent (DeezerSearch artist album) st)) \<and>
   (lastfm_api w (trace st) (LastfmAlbumInfo (LASTFM_API_KEY e) artist album) = Raised \<longrightarrow>
      fetch_cover_lastfm w e artist album st =
        (Inl RequestException, sent (LastfmAlbumInfo (LASTFM_API_KEY e) artist album) st)) \<and>
   (musicbrainz_api w (trace st) (MusicBrainzSearch artist album) = Raised \<longrightarrow>
      fetch_cover_musicbrainz w artist album st =
        (Inl RequestException, sent (MusicBrainzSearch artist album) st))"
proof -
  let ?q = "DeezerSearch (rec_artist album_data) (rec_album album_data)"
  have l: "lookup_cover w e tok (rec_artist album_data) (rec_album album_data)
       (rec_year album_data) s = (Inl RequestException, sent ?q s1)"
    by (rule lookup_cover_deezer_raises[OF assms(3-5)])
  have a: "process_album w e tok genre album_data s = (Inl RequestException, sent ?q s1)"
    by (simp add: process_album_lookup[OF assms(1,2)] l)
  have b: "process_albums w e tok genre (album_data # others) s =
      (Inl RequestException, sent ?q s1)"
    by (simp add: a)
  show ?thesis
    by (intro conjI impI l a b fetch_cover_spotify_raises fetch_cover_deezer_raises
          fetch_cover_lastfm_raises fetch_cover_musicbrainz_raises)
qed

lemma offline_world_simps:
  "spotify_api offline_world = (\<lambda>h r. Raised)"
  "deezer_api offline_world = (\<lambda>h r. Raised)"
  "lastfm_api offline_world = (\<lambda>h r. Raised)"
  "discogs_api offline_world = (\<lambda>h r. DiscogsRaises)"
  "musicbrainz_api offline_world = (\<lambda>h r. Raised)"
  by (simp_all add: offline_world_def quiet_world_def)

lemma no_output_file: "output_path_for w' genre album_data \<notin> files empty_state"
  by (simp add: empty_state_simps)

lemma deezer_down_spotify:
  "(case Some (str ''token'') of
      None \<Rightarrow> (Inr None, empty_state)
    | Some token \<Rightarrow>
        if token \<noteq> []
        then fetch_cover_spotify deezer_down_world (rec_artist the_wall) (rec_album the_wall)
               token (rec_year the_wall) empty_state
        else (Inr None, empty_state)) =
   (Inr None,
    empty_state\<lparr>trace :=
      map (\<lambda>v. SpotifySearch (str ''token'') v (str ''Pink Floyd''))
        (title_variants (str ''The Wall''))\<rparr>)"
  by (simp add: the_wall_simps fetch_cover_spotify_def title_variants_list spotify_variants_Cons
        spotify_reply_def deezer_down_world_simps sent_def empty_state_def str_def)

lemma deezer_down_raises:
  "deezer_api deezer_down_world
     (trace (empty_state\<lparr>trace :=
        map (\<lambda>v. SpotifySearch (str ''token'') v (str ''Pink Floyd''))
          (title_variants (str ''The Wall''))\<rparr>))
     (DeezerSearch (rec_artist the_wall) (rec_album the_wall)) = Raised"
  by (simp add: deezer_down_world_simps)

lemma offline_raises:
  "spotify_api offline_world (trace empty_state)
     (SpotifySearch (str ''token'') (str ''The Wall'') (str ''Pink Floyd'')) = Raised"
  "deezer_api offline_world (trace empty_state)
     (DeezerSearch (str ''Pink Floyd'') (str ''The Wall'')) = Raised"
  "lastfm_api offline_world (trace empty_state)
     (LastfmAlbumInfo (LASTFM_API_KEY all_credentials) (str ''Pink Floyd'') (str ''The Wall'')) =
   Raised"
  "musicbrainz_api offline_world (trace empty_state)
     (MusicBrainzSearch (str ''Pink Floyd'') (str ''The Wall'')) = Raised"
  by (simp_all add: offline_world_simps)

lemma offline_no_token:
  "(case None of
      None \<Rightarrow> (Inr None, empty_state)
    | Some token \<Rightarrow>
        if token \<noteq> []
        then fetch_cover_spotify offline_world (rec_artist the_wall) (rec_album the_wall)
               token (rec_year the_wall) empty_state
        else (Inr None, empty_state)) =
   (Inr None, empty_state)"
  by simp

lemma offline_deezer_raises:
  "deezer_api offline_world (trace empty_state)
     (DeezerSearch (rec_artist the_wall) (rec_album the_wall)) = Raised"
  by (simp add: offline_world_simps)

lemma deezer_down_run:
  "process_json deezer_down_world all_credentials (str ''catalog/rock.json'') [the_wall, animals]
       empty_state =
     (Inl RequestException,
      empty_state\<lparr>trace :=
        TokenPost (Some (str ''id'')) (Some (str ''secret'')) #
        map (\<lambda>v. SpotifySearch (str ''token'') v (str ''Pink Floyd''))
          (title_variants (str ''The Wall'')) @
        [DeezerSearch (str ''Pink Floyd'') (str ''The Wall'')]\<rparr>)"
  by (simp add: process_json_def authenticate_spotify_def deezer_down_world_simps
     all_credentials_simps process_album_def lookup_cover_def fetch_cover_spotify_def
     fetch_cover_deezer_def spotify_variants_Cons spotify_reply_def deezer_variants_Cons
     deezer_reply_def title_variants_list the_wall_def animals_def empty_state_def str_def
     sent_def output_path_of_def path_join_def basename_def splitext_root_def ascii_slug_def
     Let_def)

lemma outage_run:
  "process_json outage_world all_credentials (str ''catalog/rock.json'') [the_wall]
       empty_state =
     (Inr [the_wall\<lparr>coverSrc := Some (str ''/default-cover.jpg'')\<rparr>],
      empty_state\<lparr>trace :=
        TokenPost (Some (str ''id'')) (Some (str ''secret'')) #
        map (\<lambda>v. SpotifySearch (str ''token'') v (str ''Pink Floyd''))
          (title_variants (str ''The Wall'')) @
        map (DeezerSearch (str ''Pink Floyd'')) (title_variants (str ''The Wall'')) @
        [LastfmAlbumInfo (Some (str ''lkey'')) (str ''Pink Floyd'') (str ''The Wall''),
         DiscogsSearch (Some (str ''dtoken'')) (str ''The Wall'') (str ''Pink Floyd''),
         MusicBrainzSearch (str ''Pink Floyd'') (str ''The Wall'')]\<rparr>)"
  by (simp add: process_json_def authenticate_spotify_def outage_world_simps
     all_credentials_simps process_album_def lookup_cover_def fetch_cover_spotify_def
     fetch_cover_deezer_def fetch_cover_lastfm_def fetch_cover_discogs_def
     fetch_cover_musicbrainz_def spotify_variants_Cons spotify_reply_def deezer_variants_Cons
     deezer_reply_def title_variants_list the_wall_def empty_state_def str_def
     sent_def output_path_of_def path_join_def basename_def splitext_root_def ascii_slug_def
     Let_def)

theorem C4_transport_error_aborts_witness:
  "\<not> cover_exists empty_state the_wall \<and>
   output_path_for deezer_down_world (str ''rock'') the_wall \<notin> files empty_state \<and>
   (case Some (str ''token'') of
      None \<Rightarrow> (Inr None, empty_state)
    | Some token \<Rightarrow>
        if token \<noteq> []
        then fetch_cover_spotify deezer_down_world (rec_artist the_wall) (rec_album the_wall)
               token (rec_year the_wall) empty_state
        else (Inr None, empty_state)) =
   (Inr None,
    empty_state\<lparr>trace :=
      map (\<lambda>v. SpotifySearch (str ''token'') v (str ''Pink Floyd''))
        (title_variants (str ''The Wall''))\<rparr>) \<and>
   \<not> truthy None \<and>
   deezer_api deezer_down_world
     (trace (empty_state\<lparr>trace :=
        map (\<lambda>v. SpotifySearch (str ''token'') v (str ''Pink Floyd''))
          (title_variants (str ''The Wall''))\<rparr>))
     (DeezerSearch (rec_artist the_wall) (rec_album the_wall)) = Raised \<and>
   lookup_cover deezer_down_world all_credentials (Some (str ''token'')) (rec_artist the_wall)
       (rec_album the_wall) (rec_year the_wall) empty_state =
     (Inl RequestException,
      sent (DeezerSearch (rec_artist the_wall) (rec_album the_wall))
        (empty_state\<lparr>trace :=
           map (\<lambda>v. SpotifySearch (str ''token'') v (str ''Pink Floyd''))
             (title_variants (str ''The Wall''))\<rparr>)) \<and>
   process_album deezer_down_world all_credentials (Some (str ''token'')) (str ''rock'') the_wall
       empty_state =
     (Inl RequestException,
      sent (DeezerSearch (rec_artist the_wall) (rec_album the_wall))
        (empty_state\<lparr>trace :=
           map (\<lambda>v. SpotifySearch (str ''token'') v (str ''Pink Floyd''))
             (title_variants (str ''The Wall''))\<rparr>)) \<and>
   process_albums deezer_down_world all_credentials (Some (str ''token'')) (str ''rock'')
       (the_wall # [animals]) empty_state =
     (Inl RequestException,
      sent (DeezerSearch (rec_artist the_wall) (rec_album the_wall))
        (empty_state\<lparr>trace :=
           map (\<lambda>v. SpotifySearch (str ''token'') v (str ''Pink Floyd''))
             (title_variants (str ''The Wall''))\<rparr>)) \<and>
   output_path_for offline_world (str ''rock'') the_wall \<notin> files empty_state \<and>
   (case None of
      None \<Rightarrow> (Inr None, empty_state)
    | Some token \<Rightarrow>
        if token \<noteq> []
        then fetch_cover_spotify offline_world (rec_artist the_wall) (rec_album the_wall)
               token (rec_year the_wall) empty_state
        else (Inr None, empty_state)) =
   (Inr None, empty_state) \<and>
   deezer_api offline_world (trace empty_state)
     (DeezerSearch (rec_artist the_wall) (rec_album the_wall)) = Raised \<and>
   lookup_cover offline_world all_credentials None (rec_artist the_wall) (rec_album the_wall)
       (rec_year the_wall) empty_state =
     (Inl RequestException,
      sent (DeezerSearch (rec_artist the_wall) (rec_album the_wall)) empty_state) \<and>
   spotify_api offline_world (trace empty_state)
     (SpotifySearch (str ''token'') (str ''The Wall'') (str ''Pink Floyd'')) = Raised \<and>
   fetch_cover_spotify offline_world (str ''Pink Floyd'') (str ''The Wall'') (str ''token'')
       (Some (str ''1979'')) empty_state =
     (Inl RequestException,
      sent (SpotifySearch (str ''token'') (str ''The Wall'') (str ''Pink Floyd'')) empty_state) \<and>
   deezer_api offline_world (trace empty_state)
     (DeezerSearch (str ''Pink Floyd'') (str ''The Wall'')) = Raised \<and>
   fetch_cover_deezer offline_world (str ''Pink Floyd'') (str ''The Wall'')
       (Some (str ''1979'')) empty_state =
     (Inl RequestException,
      sent (DeezerSearch (str ''Pink Floyd'') (str ''The Wall'')) empty_state) \<and>
   lastfm_api offline_world (trace empty_state)
     (LastfmAlbumInfo (LASTFM_API_KEY all_credentials) (str ''Pink Floyd'') (str ''The Wall'')) =
     Raised \<and>
   fetch_cover_lastfm offline_world all_credentials (str ''Pink Floyd'') (str ''The Wall'')
       empty_state =
     (Inl RequestException,
      sent (LastfmAlbumInfo (LASTFM_API_KEY all_credentials) (str ''Pink Floyd'')
              (str ''The Wall'')) empty_state) \<and>
   musicbrainz_api offline_world (trace empty_state)
     (MusicBrainzSearch (str ''Pink Floyd'') (str ''The Wall'')) = Raised \<and>
   fetch_cover_musicbrainz offline_world (str ''Pink Floyd'') (str ''The Wall'') empty_state =
     (Inl RequestException,
      sent (MusicBrainzSearch (str ''Pink Floyd'') (str ''The Wall'')) empty_state) \<and>
   process_json deezer_down_world all_credentials (str ''catalog/rock.json'') [the_wall, animals]
       empty_state =
     (Inl RequestException,
      empty_state\<lparr>trace :=
        TokenPost (Some (str ''id'')) (Some (str ''secret'')) #
        map (\<lambda>v. SpotifySearch (str ''token'') v (str ''Pink Floyd''))
          (title_variants (str ''The Wall'')) @
        [DeezerSearch (str ''Pink Floyd'') (str ''The Wall'')]\<rparr>) \<and>
   process_json outage_world all_credentials (str ''catalog/rock.json'') [the_wall]
       empty_state =
     (Inr [the_wall\<lparr>coverSrc := Some (str ''/default-cover.jpg'')\<rparr>],
      empty_state\<lparr>trace :=
        TokenPost (Some (str ''id'')) (Some (str ''secret'')) #
        map (\<lambda>v. SpotifySearch (str ''token'') v (str ''Pink Floyd''))
          (title_variants (str ''The Wall'')) @
        map (DeezerSearch (str ''Pink Floyd'')) (title_variants (str ''The Wall'')) @
        [LastfmAlbumInfo (Some (str ''lkey'')) (str ''Pink Floyd'') (str ''The Wall''),
         DiscogsSearch (Some (str ''dtoken'')) (str ''The Wall'') (str ''Pink Floyd''),
         MusicBrainzSearch (str ''Pink Floyd'') (str ''The Wall'')]\<rparr>)"
proof -
  note t = C4_transport_error_aborts[OF the_wall_needs_lookup(1) no_output_file
      deezer_down_spotify not_truthy_None deezer_down_raises,
      where e = all_credentials and genre = "str ''rock''"]
  note v = C4_transport_error_aborts[OF the_wall_needs_lookup(1) no_output_file
      offline_no_token not_truthy_None offline_deezer_raises,
      where e = all_credentials and genre = "str ''rock''" and
        artist = "str ''Pink Floyd''" and album = "str ''The Wall''" and st = empty_state]
  note u = v[THEN conjunct2, THEN conjunct2, THEN conjunct2]
  show ?thesis
    by (intro conjI the_wall_needs_lookup(1) no_output_file deezer_down_spotify not_truthy_None
          deezer_down_raises offline_raises deezer_down_run outage_run
          offline_no_token offline_deezer_raises v[THEN conjunct1]
          t[THEN conjunct1] t[THEN conjunct2, THEN conjunct1]
          t[THEN conjunct2, THEN conjunct2, THEN conjunct1]
          u[THEN conjunct1, rule_format, OF offline_raises(1)]
          u[THEN conjunct2, THEN conjunct1, rule_format, OF offline_raises(2)]
          u[THEN conjunct2, THEN conjunct2, THEN conjunct1, rule_format, OF offline_raises(3)]
          u[THEN conjunct2, THEN conjunct2, THEN conjunct2, rule_format, OF offline_raises(4)])
qed

text \<open>The scenario of the specification: every provider finds nothing.\<close>

lemma the_wall_scenario:
  "fst (process_json quiet_world all_credentials (str ''catalog/rock.json'') [the_wall]
          empty_state) =
     Inr [the_wall\<lparr>coverSrc := Some (str ''/default-cover.jpg'')\<rparr>]"
  by (simp add: process_json_def authenticate_spotify_def quiet_world_simps all_credentials_simps
     process_album_def lookup_cover_def fetch_cover_spotify_def fetch_cover_deezer_def
     fetch_cover_lastfm_def fetch_cover_discogs_def fetch_cover_musicbrainz_def deezer_first_def
     spotify_variants_Cons spotify_reply_def deezer_variants_Cons deezer_reply_def
     title_variants_list the_wall_def empty_state_def str_def
     output_path_of_def path_join_def basename_def splitext_root_def ascii_slug_def Let_def)

section \<open>Paths and sample runs\<close>









lemma the_wall_reissue_lookup:
  "lookup_cover reissue_world all_credentials (Some (str ''token'')) (rec_artist the_wall)
       (rec_album the_wall) (rec_year the_wall) empty_state =
     (Inr (Some (str ''https://i.scdn.co/image/wall'')),
      empty_state\<lparr>trace :=
        [SpotifySearch (str ''token'') (str ''The Wall'') (str ''Pink Floyd''),
         SpotifySearch (str ''token'') (str ''The Wall Deluxe'') (str ''Pink Floyd'')]\<rparr>)"
proof -
  have "str ''token'' \<noteq> []" "str ''https://i.scdn.co/image/wall'' \<noteq> []"
    by (simp_all add: str_def)
  then show ?thesis
    by (simp add: lookup_cover_def the_wall_simps pink_floyd_spotify_reissue)
qed

lemma the_wall_reissue_download:
  "download_and_resize_image reissue_world (str ''https://i.scdn.co/image/wall'')
       (output_path_for reissue_world (str ''rock'') the_wall)
       (empty_state\<lparr>trace :=
        [SpotifySearch (str ''token'') (str ''The Wall'') (str ''Pink Floyd''),
         SpotifySearch (str ''token'') (str ''The Wall Deluxe'') (str ''Pink Floyd'')]\<rparr>) =
     (Inr True,
      \<lparr>files = {str ''bandcover/rock/pink-floyd-the-wall.jpg''},
       trace =
        [SpotifySearch (str ''token'') (str ''The Wall'') (str ''Pink Floyd''),
         SpotifySearch (str ''token'') (str ''The Wall Deluxe'') (str ''Pink Floyd''),
         ImageGet (str ''https://i.scdn.co/image/wall'')]\<rparr>)"
  by (simp add: download_and_resize_image_def reissue_world_simps output_path_for_def
        the_wall_simps the_wall_output_path[OF reissue_world_simps(2)] sent_def empty_state_def)

lemma the_wall_reissue_case:
  "\<not> cover_exists empty_state the_wall \<and>
   output_path_for reissue_world (str ''rock'') the_wall \<notin> files empty_state \<and>
   lookup_cover reissue_world all_credentials (Some (str ''token'')) (rec_artist the_wall)
       (rec_album the_wall) (rec_year the_wall) empty_state =
     (Inr (Some (str ''https://i.scdn.co/image/wall'')),
      empty_state\<lparr>trace :=
        [SpotifySearch (str ''token'') (str ''The Wall'') (str ''Pink Floyd''),
         SpotifySearch (str ''token'') (str ''The Wall Deluxe'') (str ''Pink Floyd'')]\<rparr>) \<and>
   str ''https://i.scdn.co/image/wall'' \<noteq> [] \<and>
   download_and_resize_image reissue_world (str ''https://i.scdn.co/image/wall'')
       (output_path_for reissue_world (str ''rock'') the_wall)
       (empty_state\<lparr>trace :=
        [SpotifySearch (str ''token'') (str ''The Wall'') (str ''Pink Floyd''),
         SpotifySearch (str ''token'') (str ''The Wall Deluxe'') (str ''Pink Floyd'')]\<rparr>) =
     (Inr True,
      \<lparr>files = {str ''bandcover/rock/pink-floyd-the-wall.jpg''},
       trace =
        [SpotifySearch (str ''token'') (str ''The Wall'') (str ''Pink Floyd''),
         SpotifySearch (str ''token'') (str ''The Wall Deluxe'') (str ''Pink Floyd''),
         ImageGet (str ''https://i.scdn.co/image/wall'')]\<rparr>)"
proof -
  have "str ''https://i.scdn.co/image/wall'' \<noteq> []" by (simp add: str_def)
  moreover have "\<not> cover_exists empty_state the_wall"
    "output_path_for reissue_world (str ''rock'') the_wall \<notin> files empty_state"
    by (simp_all add: cover_exists_def the_wall_simps empty_state_simps)
  ultimately show ?thesis
    by (intro conjI the_wall_reissue_lookup the_wall_reissue_download)
qed


section \<open>C10: the stored path and the written path\<close>











section \<open>C6: the placeholder\<close>

lemma lookup_cover_to_musicbrainz:
  assumes "(case tok of
              None \<Rightarrow> (Inr None, s)
            | Some token \<Rightarrow>
                if token \<noteq> [] then fetch_cover_spotify w artist album token yr s
                else (Inr None, s)) = (Inr ra, sa)"
    and "\<not> truthy ra"
    and "fetch_cover_deezer w artist album yr sa = (Inr rb, sb)" and "\<not> truthy rb"
    and "fetch_cover_lastfm w e artist album sb = (Inr rc, sc)" and "\<not> truthy rc"
    and "fetch_cover_discogs w e artist album sc = (Inr rd, sd)" and "\<not> truthy rd"
  shows "lookup_cover w e tok artist album yr s = fetch_cover_musicbrainz w artist album sd"
  unfolding lookup_cover_def
  by (simp only: assms(1)) (simp add: assms(2-8))

lemma lookup_cover_lastfm_found:
  assumes "(case tok of
              None \<Rightarrow> (Inr None, s)
            | Some token \<Rightarrow>
                if token \<noteq> [] then fetch_cover_spotify w artist album token yr s
                else (Inr None, s)) = (Inr ra, sa)"
    and "\<not> truthy ra"
    and "fetch_cover_deezer w artist album yr sa = (Inr rb, sb)" and "\<not> truthy rb"
    and "fetch_cover_lastfm w e artist album sb = (Inr (Some url), sc)" and "url \<noteq> []"
  shows "lookup_cover w e tok artist album yr s = (Inr (Some url), sc)"
  unfolding lookup_cover_def
  by (simp only: assms(1)) (simp add: assms(2-6))

text \<open>
  C6, as amended. For an album object that needs a lookup (its cover is not on disk, nor is
  its output file): when the chain returns no URL or an empty one, \<open>coverSrc\<close> is set to
  \<open>/default-cover.jpg\<close>, and the chain returns what MusicBrainz returns when Spotify (or the
  missing token), Deezer, Last.fm and Discogs have returned nothing. When the chain returns
  a URL, the placeholder is not assigned: after a successful download \<open>coverSrc\<close> is a slash
  followed by the output path, and after a download that returns failure it is what it was,
  the empty string where it was missing or empty. A URL that Last.fm returns after Spotify
  and Deezer returned nothing is such a URL of the chain, although nothing verified it.
\<close>

theorem C6_placeholder:
  assumes "\<not> cover_exists s album_data"
    and "output_path_for w genre album_data \<notin> files s"
  shows "(lookup_cover w e tok (rec_artist album_data) (rec_album album_data)
        (rec_year album_data) s = (Inr r, s') \<and> \<not> truthy r \<longrightarrow>
      process_album w e tok genre album_data s =
        (Inr (album_data\<lparr>coverSrc := Some (str ''/default-cover.jpg'')\<rparr>), s')) \<and>
   (lookup_cover w e tok (rec_artist album_data) (rec_album album_data)
        (rec_year album_data) s = (Inr (Some url), s1) \<and> url \<noteq> [] \<and>
    download_and_resize_image w url (output_path_for w genre album_data) s1 =
      (Inr True, s2) \<longrightarrow>
      process_album w e tok genre album_data s =
        (Inr (album_data\<lparr>coverSrc := Some (str ''/'' @ output_path_for w genre album_data)\<rparr>),
         s2)) \<and>
   (lookup_cover w e tok (rec_artist album_data) (rec_album album_data)
        (rec_year album_data) s = (Inr (Some url), s1) \<and> url \<noteq> [] \<and>
    download_and_resize_image w url (output_path_for w genre album_data) s1 =
      (Inr False, s2) \<longrightarrow>
      process_album w e tok genre album_data s =
        (Inr (if truthy (coverSrc album_data) then album_data
              else album_data\<lparr>coverSrc := Some []\<rparr>), s2)) \<and>
   ((case tok of
       None \<Rightarrow> (Inr None, s)
     | Some token \<Rightarrow>
         if token \<noteq> []
         then fetch_cover_spotify w (rec_artist album_data) (rec_album album_data) token
                (rec_year album_data) s
         else (Inr None, s)) = (Inr ra, sa) \<and> \<not> truthy ra \<and>
    fetch_cover_deezer w (rec_artist album_data) (rec_album album_data) (rec_year album_data)
      sa = (Inr rb, sb) \<and> \<not> truthy rb \<and>
    fetch_cover_lastfm w e (rec_artist album_data) (rec_album album_data) sb = (Inr rc, sc) \<and>
    \<not> truthy rc \<and>
    fetch_cover_discogs w e (rec_artist album_data) (rec_album album_data) sc = (Inr rd, sd) \<and>
    \<not> truthy rd \<longrightarrow>
      lookup_cover w e tok (rec_artist album_data) (rec_album album_data)
        (rec_year album_data) s =
      fetch_cover_musicbrainz w (rec_artist album_data) (rec_album album_data) sd) \<and>
   ((case tok of
       None \<Rightarrow> (Inr None, s)
     | Some token \<Rightarrow>
         if token \<noteq> []
         then fetch_cover_spotify w (rec_artist album_data) (rec_album album_data) token
                (rec_year album_data) s
         else (Inr None, s)) = (Inr ra, sa) \<and> \<not> truthy ra \<and>
    fetch_cover_deezer w (rec_artist album_data) (rec_album album_data) (rec_year album_data)
      sa = (Inr rb, sb) \<and> \<not> truthy rb \<and>
    fetch_cover_lastfm w e (rec_artist album_data) (rec_album album_data) sb =
      (Inr (Some url), sc) \<and> url \<noteq> [] \<longrightarrow>
      lookup_cover w e tok (rec_artist album_data) (rec_album album_data)
        (rec_year album_data) s = (Inr (Some url), sc))"
proof (intro conjI impI)
  assume "lookup_cover w e tok (rec_artist album_data) (rec_album album_data)
        (rec_year album_data) s = (Inr r, s') \<and> \<not> truthy r"
  then show "process_album w e tok genre album_data s =
        (Inr (album_data\<lparr>coverSrc := Some (str ''/default-cover.jpg'')\<rparr>), s')"
    by (simp add: process_album_lookup[OF assms])
next
  assume "lookup_cover w e tok (rec_artist album_data) (rec_album album_data)
        (rec_year album_data) s = (Inr (Some url), s1) \<and> url \<noteq> [] \<and>
    download_and_resize_image w url (output_path_for w genre album_data) s1 = (Inr True, s2)"
  then show "process_album w e tok genre album_data s =
        (Inr (album_data\<lparr>coverSrc := Some (str ''/'' @ output_path_for w genre album_data)\<rparr>),
         s2)"
    by (simp add: process_album_lookup[OF assms])
next
  assume "lookup_cover w e tok (rec_artist album_data) (rec_album album_data)
        (rec_year album_data) s = (Inr (Some url), s1) \<and> url \<noteq> [] \<and>
    download_and_resize_image w url (output_path_for w genre album_data) s1 = (Inr False, s2)"
  then show "process_album w e tok genre album_data s =
        (Inr (if truthy (coverSrc album_data) then album_data
              else album_data\<lparr>coverSrc := Some []\<rparr>), s2)"
    by (simp add: process_album_lookup[OF assms])
next
  assume a: "(case tok of
       None \<Rightarrow> (Inr None, s)
     | Some token \<Rightarrow>
         if token \<noteq> []
         then fetch_cover_spotify w (rec_artist album_data) (rec_album album_data) token
                (rec_year album_data) s
         else (Inr None, s)) = (Inr ra, sa) \<and> \<not> truthy ra \<and>
    fetch_cover_deezer w (rec_artist album_data) (rec_album album_data) (rec_year album_data)
      sa = (Inr rb, sb) \<and> \<not> truthy rb \<and>
    fetch_cover_lastfm w e (rec_artist album_data) (rec_album album_data) sb = (Inr rc, sc) \<and>
    \<not> truthy rc \<and>
    fetch_cover_discogs w e (rec_artist album_data) (rec_album album_data) sc = (Inr rd, sd) \<and>
    \<not> truthy rd"
  show "lookup_cover w e tok (rec_artist album_data) (rec_album album_data)
        (rec_year album_data) s =
      fetch_cover_musicbrainz w (rec_artist album_data) (rec_album album_data) sd"
    by (rule lookup_cover_to_musicbrainz[OF a[THEN conjunct1] a[THEN conjunct2, THEN conjunct1]
          a[THEN conjunct2, THEN conjunct2, THEN conjunct1]
          a[THEN conjunct2, THEN conjunct2, THEN conjunct2, THEN conjunct1]
          a[THEN conjunct2, THEN conjunct2, THEN conjunct2, THEN conjunct2, THEN conjunct1]
          a[THEN conjunct2, THEN conjunct2, THEN conjunct2, THEN conjunct2, THEN conjunct2,
            THEN conjunct1]
          a[THEN conjunct2, THEN conjunct2, THEN conjunct2, THEN conjunct2, THEN conjunct2,
            THEN conjunct2, THEN conjunct1]
          a[THEN conjunct2, THEN conjunct2, THEN conjunct2, THEN conjunct2, THEN conjunct2,
            THEN conjunct2, THEN conjunct2]])
next
  assume a: "(case tok of
       None \<Rightarrow> (Inr None, s)
     | Some token \<Rightarrow>
         if token \<noteq> []
         then fetch_cover_spotify w (rec_artist album_data) (rec_album album_data) token
                (rec_year album_data) s
         else (Inr None, s)) = (Inr ra, sa) \<and> \<not> truthy ra \<and>
    fetch_cover_deezer w (rec_artist album_data) (rec_album album_data) (rec_year album_data)
      sa = (Inr rb, sb) \<and> \<not> truthy rb \<and>
    fetch_cover_lastfm w e (rec_artist album_data) (rec_album album_data) sb =
      (Inr (Some url), sc) \<and> url \<noteq> []"
  show "lookup_cover w e tok (rec_artist album_data) (rec_album album_data)
        (rec_year album_data) s = (Inr (Some url), sc)"
    by (rule lookup_cover_lastfm_found[OF a[THEN conjunct1] a[THEN conjunct2, THEN conjunct1]
          a[THEN conjunct2, THEN conjunct2, THEN conjunct1]
          a[THEN conjunct2, THEN conjunct2, THEN conjunct2, THEN conjunct1]
          a[THEN conjunct2, THEN conjunct2, THEN conjunct2, THEN conjunct2, THEN conjunct1]
          a[THEN conjunct2, THEN conjunct2, THEN conjunct2, THEN conjunct2, THEN conjunct2]])
qed

lemma quiet_chain_run:
  "(case Some (str ''token'') of
      None \<Rightarrow> (Inr None, empty_state)
    | Some token \<Rightarrow>
        if token \<noteq> []
        then fetch_cover_spotify quiet_world (rec_artist the_wall) (rec_album the_wall) token (rec_year the_wall) empty_state
        else (Inr None, empty_state)) =
     (Inr None,
      (empty_state\<lparr>trace :=
        map (\<lambda>v. SpotifySearch (str ''token'') v (str ''Pink Floyd''))
          (title_variants (str ''The Wall''))\<rparr>))"
  "fetch_cover_deezer quiet_world (rec_artist the_wall) (rec_album the_wall) (rec_year the_wall)
       (empty_state\<lparr>trace :=
        map (\<lambda>v. SpotifySearch (str ''token'') v (str ''Pink Floyd''))
          (title_variants (str ''The Wall''))\<rparr>) =
     (Inr None,
      (empty_state\<lparr>trace :=
        map (\<lambda>v. SpotifySearch (str ''token'') v (str ''Pink Floyd''))
          (title_variants (str ''The Wall'')) @
        map (DeezerSearch (str ''Pink Floyd'')) (title_variants (str ''The Wall''))\<rparr>))"
  "fetch_cover_lastfm quiet_world all_credentials (rec_artist the_wall) (rec_album the_wall)
       (empty_state\<lparr>trace :=
        map (\<lambda>v. SpotifySearch (str ''token'') v (str ''Pink Floyd''))
          (title_variants (str ''The Wall'')) @
        map (DeezerSearch (str ''Pink Floyd'')) (title_variants (str ''The Wall''))\<rparr>) =
     (Inr None,
      (empty_state\<lparr>trace :=
        map (\<lambda>v. SpotifySearch (str ''token'') v (str ''Pink Floyd''))
          (title_variants (str ''The Wall'')) @
        map (DeezerSearch (str ''Pink Floyd'')) (title_variants (str ''The Wall'')) @
        [LastfmAlbumInfo (Some (str ''lkey'')) (str ''Pink Floyd'') (str ''The Wall'')]\<rparr>))"
  "fetch_cover_discogs quiet_world all_credentials (rec_artist the_wall) (rec_album the_wall)
       (empty_state\<lparr>trace :=
        map (\<lambda>v. SpotifySearch (str ''token'') v (str ''Pink Floyd''))
          (title_variants (str ''The Wall'')) @
        map (DeezerSearch (str ''Pink Floyd'')) (title_variants (str ''The Wall'')) @
        [LastfmAlbumInfo (Some (str ''lkey'')) (str ''Pink Floyd'') (str ''The Wall'')]\<rparr>) =
     (Inr None,
      (empty_state\<lparr>trace :=
        map (\<lambda>v. SpotifySearch (str ''token'') v (str ''Pink Floyd''))
          (title_variants (str ''The Wall'')) @
        map (DeezerSearch (str ''Pink Floyd'')) (title_variants (str ''The Wall'')) @
        [LastfmAlbumInfo (Some (str ''lkey'')) (str ''Pink Floyd'') (str ''The Wall''),
         DiscogsSearch (Some (str ''dtoken'')) (str ''The Wall'') (str ''Pink Floyd'')]\<rparr>))"
  by (simp_all add: the_wall_simps fetch_cover_spotify_def fetch_cover_deezer_def
        fetch_cover_lastfm_def fetch_cover_discogs_def title_variants_list
        spotify_variants_Cons spotify_reply_def deezer_variants_Cons deezer_reply_def
        deezer_first_def quiet_world_simps all_credentials_simps sent_def empty_state_def
        str_def)

lemma lastfm_chain_run:
  "(case Some (str ''token'') of
      None \<Rightarrow> (Inr None, empty_state)
    | Some token \<Rightarrow>
        if token \<noteq> []
        then fetch_cover_spotify lastfm_world (rec_artist the_wall) (rec_album the_wall) token (rec_year the_wall) empty_state
        else (Inr None, empty_state)) =
     (Inr None,
      (empty_state\<lparr>trace :=
        map (\<lambda>v. SpotifySearch (str ''token'') v (str ''Pink Floyd''))
          (title_variants (str ''The Wall''))\<rparr>))"
  "fetch_cover_deezer lastfm_world (rec_artist the_wall) (rec_album the_wall) (rec_year the_wall)
       (empty_state\<lparr>trace :=
        map (\<lambda>v. SpotifySearch (str ''token'') v (str ''Pink Floyd''))
          (title_variants (str ''The Wall''))\<rparr>) =
     (Inr None,
      (empty_state\<lparr>trace :=
        map (\<lambda>v. SpotifySearch (str ''token'') v (str ''Pink Floyd''))
          (title_variants (str ''The Wall'')) @
        map (DeezerSearch (str ''Pink Floyd'')) (title_variants (str ''The Wall''))\<rparr>))"
  "fetch_cover_lastfm lastfm_world all_credentials (rec_artist the_wall) (rec_album the_wall)
       (empty_state\<lparr>trace :=
        map (\<lambda>v. SpotifySearch (str ''token'') v (str ''Pink Floyd''))
          (title_variants (str ''The Wall'')) @
        map (DeezerSearch (str ''Pink Floyd'')) (title_variants (str ''The Wall''))\<rparr>) =
     (Inr (Some (str ''https://lastfm.freetls.fastly.net/i/u/300x300/berlin.png'')),
      (empty_state\<lparr>trace :=
        map (\<lambda>v. SpotifySearch (str ''token'') v (str ''Pink Floyd''))
          (title_variants (str ''The Wall'')) @
        map (DeezerSearch (str ''Pink Floyd'')) (title_variants (str ''The Wall'')) @
        [LastfmAlbumInfo (Some (str ''lkey'')) (str ''Pink Floyd'') (str ''The Wall'')]\<rparr>))"
  "(str ''https://lastfm.freetls.fastly.net/i/u/300x300/berlin.png'') \<noteq> []"
  by (simp_all add: the_wall_simps fetch_cover_spotify_def fetch_cover_deezer_def
        fetch_cover_lastfm_def title_variants_list
        spotify_variants_Cons spotify_reply_def deezer_variants_Cons deezer_reply_def
        deezer_first_def lastfm_world_simps all_credentials_simps berlin_lastfm_def sent_def
        empty_state_def str_def)

lemma lastfm_lookup_run:
  "lookup_cover lastfm_world all_credentials (Some (str ''token'')) (rec_artist the_wall) (rec_album the_wall) (rec_year the_wall) empty_state =
     (Inr (Some (str ''https://lastfm.freetls.fastly.net/i/u/300x300/berlin.png'')),
      (empty_state\<lparr>trace :=
        map (\<lambda>v. SpotifySearch (str ''token'') v (str ''Pink Floyd''))
          (title_variants (str ''The Wall'')) @
        map (DeezerSearch (str ''Pink Floyd'')) (title_variants (str ''The Wall'')) @
        [LastfmAlbumInfo (Some (str ''lkey'')) (str ''Pink Floyd'') (str ''The Wall'')]\<rparr>))"
  "download_and_resize_image lastfm_world (str ''https://lastfm.freetls.fastly.net/i/u/300x300/berlin.png'')
       (output_path_for lastfm_world (str ''rock'') the_wall)
       (empty_state\<lparr>trace :=
        map (\<lambda>v. SpotifySearch (str ''token'') v (str ''Pink Floyd''))
          (title_variants (str ''The Wall'')) @
        map (DeezerSearch (str ''Pink Floyd'')) (title_variants (str ''The Wall'')) @
        [LastfmAlbumInfo (Some (str ''lkey'')) (str ''Pink Floyd'') (str ''The Wall'')]\<rparr>) =
     (Inr False,
      (empty_state\<lparr>trace :=
        map (\<lambda>v. SpotifySearch (str ''token'') v (str ''Pink Floyd''))
          (title_variants (str ''The Wall'')) @
        map (DeezerSearch (str ''Pink Floyd'')) (title_variants (str ''The Wall'')) @
        [LastfmAlbumInfo (Some (str ''lkey'')) (str ''Pink Floyd'') (str ''The Wall''),
         ImageGet (str ''https://lastfm.freetls.fastly.net/i/u/300x300/berlin.png'')]\<rparr>))"
  by (simp_all add: the_wall_simps lookup_cover_def fetch_cover_spotify_def
        fetch_cover_deezer_def fetch_cover_lastfm_def title_variants_list
        spotify_variants_Cons spotify_reply_def deezer_variants_Cons deezer_reply_def
        deezer_first_def lastfm_world_simps all_credentials_simps berlin_lastfm_def
        download_and_resize_image_def sent_def empty_state_def str_def)

theorem C6_placeholder_witness:
  "\<not> cover_exists empty_state the_wall \<and>
   output_path_for quiet_world (str ''rock'') the_wall \<notin> files empty_state \<and>
   (lookup_cover quiet_world all_credentials (Some (str ''token'')) (rec_artist the_wall) (rec_album the_wall) (rec_year the_wall) empty_state =
     (Inr None,
      (empty_state\<lparr>trace :=
        map (\<lambda>v. SpotifySearch (str ''token'') v (str ''Pink Floyd''))
          (title_variants (str ''The Wall'')) @
        map (DeezerSearch (str ''Pink Floyd'')) (title_variants (str ''The Wall'')) @
        [LastfmAlbumInfo (Some (str ''lkey'')) (str ''Pink Floyd'') (str ''The Wall''),
         DiscogsSearch (Some (str ''dtoken'')) (str ''The Wall'') (str ''Pink Floyd''),
         MusicBrainzSearch (str ''Pink Floyd'') (str ''The Wall'')]\<rparr>)) \<and>
   \<not> truthy None) \<and>
   process_album quiet_world all_credentials (Some (str ''token'')) (str ''rock'') the_wall empty_state =
     (Inr (the_wall\<lparr>coverSrc := Some (str ''/default-cover.jpg'')\<rparr>),
      (empty_state\<lparr>trace :=
        map (\<lambda>v. SpotifySearch (str ''token'') v (str ''Pink Floyd''))
          (title_variants (str ''The Wall'')) @
        map (DeezerSearch (str ''Pink Floyd'')) (title_variants (str ''The Wall'')) @
        [LastfmAlbumInfo (Some (str ''lkey'')) (str ''Pink Floyd'') (str ''The Wall''),
         DiscogsSearch (Some (str ''dtoken'')) (str ''The Wall'') (str ''Pink Floyd''),
         MusicBrainzSearch (str ''Pink Floyd'') (str ''The Wall'')]\<rparr>)) \<and>
   output_path_for reissue_world (str ''rock'') the_wall \<notin> files empty_state \<and>
   (lookup_cover reissue_world all_credentials (Some (str ''token'')) (rec_artist the_wall)
       (rec_album the_wall) (rec_year the_wall) empty_state =
     (Inr (Some (str ''https://i.scdn.co/image/wall'')),
      empty_state\<lparr>trace :=
        [SpotifySearch (str ''token'') (str ''The Wall'') (str ''Pink Floyd''),
         SpotifySearch (str ''token'') (str ''The Wall Deluxe'') (str ''Pink Floyd'')]\<rparr>) \<and>
   str ''https://i.scdn.co/image/wall'' \<noteq> [] \<and>
   download_and_resize_image reissue_world (str ''https://i.scdn.co/image/wall'')
       (output_path_for reissue_world (str ''rock'') the_wall)
       (empty_state\<lparr>trace :=
        [SpotifySearch (str ''token'') (str ''The Wall'') (str ''Pink Floyd''),
         SpotifySearch (str ''token'') (str ''The Wall Deluxe'') (str ''Pink Floyd'')]\<rparr>) =
     (Inr True,
      \<lparr>files = {str ''bandcover/rock/pink-floyd-the-wall.jpg''},
       trace =
        [SpotifySearch (str ''token'') (str ''The Wall'') (str ''Pink Floyd''),
         SpotifySearch (str ''token'') (str ''The Wall Deluxe'') (str ''Pink Floyd''),
         ImageGet (str ''https://i.scdn.co/image/wall'')]\<rparr>)) \<and>
   process_album reissue_world all_credentials (Some (str ''token'')) (str ''rock'') the_wall empty_state =
     (Inr (the_wall\<lparr>coverSrc :=
        Some (str ''/'' @ output_path_for reissue_world (str ''rock'') the_wall)\<rparr>),
      \<lparr>files = {str ''bandcover/rock/pink-floyd-the-wall.jpg''},
       trace =
        [SpotifySearch (str ''token'') (str ''The Wall'') (str ''Pink Floyd''),
         SpotifySearch (str ''token'') (str ''The Wall Deluxe'') (str ''Pink Floyd''),
         ImageGet (str ''https://i.scdn.co/image/wall'')]\<rparr>) \<and>
   output_path_for lastfm_world (str ''rock'') the_wall \<notin> files empty_state \<and>
   (lookup_cover lastfm_world all_credentials (Some (str ''token'')) (rec_artist the_wall) (rec_album the_wall) (rec_year the_wall) empty_state =
     (Inr (Some (str ''https://lastfm.freetls.fastly.net/i/u/300x300/berlin.png'')),
      (empty_state\<lparr>trace :=
        map (\<lambda>v. SpotifySearch (str ''token'') v (str ''Pink Floyd''))
          (title_variants (str ''The Wall'')) @
        map (DeezerSearch (str ''Pink Floyd'')) (title_variants (str ''The Wall'')) @
        [LastfmAlbumInfo (Some (str ''lkey'')) (str ''Pink Floyd'') (str ''The Wall'')]\<rparr>)) \<and>
   (str ''https://lastfm.freetls.fastly.net/i/u/300x300/berlin.png'') \<noteq> [] \<and>
   download_and_resize_image lastfm_world (str ''https://lastfm.freetls.fastly.net/i/u/300x300/berlin.png'')
       (output_path_for lastfm_world (str ''rock'') the_wall)
       (empty_state\<lparr>trace :=
        map (\<lambda>v. SpotifySearch (str ''token'') v (str ''Pink Floyd''))
          (title_variants (str ''The Wall'')) @
        map (DeezerSearch (str ''Pink Floyd'')) (title_variants (str ''The Wall'')) @
        [LastfmAlbumInfo (Some (str ''lkey'')) (str ''Pink Floyd'') (str ''The Wall'')]\<rparr>) =
     (Inr False,
      (empty_state\<lparr>trace :=
        map (\<lambda>v. SpotifySearch (str ''token'') v (str ''Pink Floyd''))
          (title_variants (str ''The Wall'')) @
        map (DeezerSearch (str ''Pink Floyd'')) (title_variants (str ''The Wall'')) @
        [LastfmAlbumInfo (Some (str ''lkey'')) (str ''Pink Floyd'') (str ''The Wall''),
         ImageGet (str ''https://lastfm.freetls.fastly.net/i/u/300x300/berlin.png'')]\<rparr>))) \<and>
   process_album lastfm_world all_credentials (Some (str ''token'')) (str ''rock'') the_wall empty_state =
     (Inr (if truthy (coverSrc the_wall) then the_wall
           else the_wall\<lparr>coverSrc := Some []\<rparr>),
      (empty_state\<lparr>trace :=
        map (\<lambda>v. SpotifySearch (str ''token'') v (str ''Pink Floyd''))
          (title_variants (str ''The Wall'')) @
        map (DeezerSearch (str ''Pink Floyd'')) (title_variants (str ''The Wall'')) @
        [LastfmAlbumInfo (Some (str ''lkey'')) (str ''Pink Floyd'') (str ''The Wall''),
         ImageGet (str ''https://lastfm.freetls.fastly.net/i/u/300x300/berlin.png'')]\<rparr>)) \<and>
   ((case Some (str ''token'') of
      None \<Rightarrow> (Inr None, empty_state)
    | Some token \<Rightarrow>
        if token \<noteq> []
        then fetch_cover_spotify quiet_world (rec_artist the_wall) (rec_album the_wall) token (rec_year the_wall) empty_state
        else (Inr None, empty_state)) =
     (Inr None,
      (empty_state\<lparr>trace :=
        map (\<lambda>v. SpotifySearch (str ''token'') v (str ''Pink Floyd''))
          (title_variants (str ''The Wall''))\<rparr>)) \<and>
   \<not> truthy None \<and>
   fetch_cover_deezer quiet_world (rec_artist the_wall) (rec_album the_wall) (rec_year the_wall)
       (empty_state\<lparr>trace :=
        map (\<lambda>v. SpotifySearch (str ''token'') v (str ''Pink Floyd''))
          (title_variants (str ''The Wall''))\<rparr>) =
     (Inr None,
      (empty_state\<lparr>trace :=
        map (\<lambda>v. SpotifySearch (str ''token'') v (str ''Pink Floyd''))
          (title_variants (str ''The Wall'')) @
        map (DeezerSearch (str ''Pink Floyd'')) (title_variants (str ''The Wall''))\<rparr>)) \<and>
   \<not> truthy None \<and>
   fetch_cover_lastfm quiet_world all_credentials (rec_artist the_wall) (rec_album the_wall)
       (empty_state\<lparr>trace :=
        map (\<lambda>v. SpotifySearch (str ''token'') v (str ''Pink Floyd''))
          (title_variants (str ''The Wall'')) @
        map (DeezerSearch (str ''Pink Floyd'')) (title_variants (str ''The Wall''))\<rparr>) =
     (Inr None,
      (empty_state\<lparr>trace :=
        map (\<lambda>v. SpotifySearch (str ''token'') v (str ''Pink Floyd''))
          (title_variants (str ''The Wall'')) @
        map (DeezerSearch (str ''Pink Floyd'')) (title_variants (str ''The Wall'')) @
        [LastfmAlbumInfo (Some (str ''lkey'')) (str ''Pink Floyd'') (str ''The Wall'')]\<rparr>)) \<and>
   \<not> truthy None \<and>
   fetch_cover_discogs quiet_world all_credentials (rec_artist the_wall) (rec_album the_wall)
       (empty_state\<lparr>trace :=
        map (\<lambda>v. SpotifySearch (str ''token'') v (str ''Pink Floyd''))
          (title_variants (str ''The Wall'')) @
        map (DeezerSearch (str ''Pink Floyd'')) (title_variants (str ''The Wall'')) @
        [LastfmAlbumInfo (Some (str ''lkey'')) (str ''Pink Floyd'') (str ''The Wall'')]\<rparr>) =
     (Inr None,
      (empty_state\<lparr>trace :=
        map (\<lambda>v. SpotifySearch (str ''token'') v (str ''Pink Floyd''))
          (title_variants (str ''The Wall'')) @
        map (DeezerSearch (str ''Pink Floyd'')) (title_variants (str ''The Wall'')) @
        [LastfmAlbumInfo (Some (str ''lkey'')) (str ''Pink Floyd'') (str ''The Wall''),
         DiscogsSearch (Some (str ''dtoken'')) (str ''The Wall'') (str ''Pink Floyd'')]\<rparr>)) \<and>
   \<not> truthy None) \<and>
   lookup_cover quiet_world all_credentials (Some (str ''token'')) (rec_artist the_wall) (rec_album the_wall) (rec_year the_wall) empty_state =
     fetch_cover_musicbrainz quiet_world (rec_artist the_wall) (rec_album the_wall)
       (empty_state\<lparr>trace :=
        map (\<lambda>v. SpotifySearch (str ''token'') v (str ''Pink Floyd''))
          (title_variants (str ''The Wall'')) @
        map (DeezerSearch (str ''Pink Floyd'')) (title_variants (str ''The Wall'')) @
        [LastfmAlbumInfo (Some (str ''lkey'')) (str ''Pink Floyd'') (str ''The Wall''),
         DiscogsSearch (Some (str ''dtoken'')) (str ''The Wall'') (str ''Pink Floyd'')]\<rparr>) \<and>
   ((case Some (str ''token'') of
      None \<Rightarrow> (Inr None, empty_state)
    | Some token \<Rightarrow>
        if token \<noteq> []
        then fetch_cover_spotify lastfm_world (rec_artist the_wall) (rec_album the_wall) token (rec_year the_wall) empty_state
        else (Inr None, empty_state)) =
     (Inr None,
      (empty_state\<lparr>trace :=
        map (\<lambda>v. SpotifySearch (str ''token'') v (str ''Pink Floyd''))
          (title_variants (str ''The Wall''))\<rparr>)) \<and>
   \<not> truthy None \<and>
   fetch_cover_deezer lastfm_world (rec_artist the_wall) (rec_album the_wall) (rec_year the_wall)
       (empty_state\<lparr>trace :=
        map (\<lambda>v. SpotifySearch (str ''token'') v (str ''Pink Floyd''))
          (title_variants (str ''The Wall''))\<rparr>) =
     (Inr None,
      (empty_state\<lparr>trace :=
        map (\<lambda>v. SpotifySearch (str ''token'') v (str ''Pink Floyd''))
          (title_variants (str ''The Wall'')) @
        map (DeezerSearch (str ''Pink Floyd'')) (title_variants (str ''The Wall''))\<rparr>)) \<and>
   \<not> truthy None \<and>
   fetch_cover_lastfm lastfm_world all_credentials (rec_artist the_wall) (rec_album the_wall)
       (empty_state\<lparr>trace :=
        map (\<lambda>v. SpotifySearch (str ''token'') v (str ''Pink Floyd''))
          (title_variants (str ''The Wall'')) @
        map (DeezerSearch (str ''Pink Floyd'')) (title_variants (str ''The Wall''))\<rparr>) =
     (Inr (Some (str ''https://lastfm.freetls.fastly.net/i/u/300x300/berlin.png'')),
      (empty_state\<lparr>trace :=
        map (\<lambda>v. SpotifySearch (str ''token'') v (str ''Pink Floyd''))
          (title_variants (str ''The Wall'')) @
        map (DeezerSearch (str ''Pink Floyd'')) (title_variants (str ''The Wall'')) @
        [LastfmAlbumInfo (Some (str ''lkey'')) (str ''Pink Floyd'') (str ''The Wall'')]\<rparr>)) \<and>
   (str ''https://lastfm.freetls.fastly.net/i/u/300x300/berlin.png'') \<noteq> []) \<and>
   lookup_cover lastfm_world all_credentials (Some (str ''token'')) (rec_artist the_wall) (rec_album the_wall) (rec_year the_wall) empty_state =
     (Inr (Some (str ''https://lastfm.freetls.fastly.net/i/u/300x300/berlin.png'')),
      (empty_state\<lparr>trace :=
        map (\<lambda>v. SpotifySearch (str ''token'') v (str ''Pink Floyd''))
          (title_variants (str ''The Wall'')) @
        map (DeezerSearch (str ''Pink Floyd'')) (title_variants (str ''The Wall'')) @
        [LastfmAlbumInfo (Some (str ''lkey'')) (str ''Pink Floyd'') (str ''The Wall'')]\<rparr>)) \<and>
   fst (process_json quiet_world all_credentials (str ''catalog/rock.json'') [the_wall]
          empty_state) =
     Inr [the_wall\<lparr>coverSrc := Some (str ''/default-cover.jpg'')\<rparr>]"
proof -
  have h1:
    "lookup_cover quiet_world all_credentials (Some (str ''token'')) (rec_artist the_wall) (rec_album the_wall) (rec_year the_wall) empty_state =
         (Inr None,
          (empty_state\<lparr>trace :=
            map (\<lambda>v. SpotifySearch (str ''token'') v (str ''Pink Floyd''))
              (title_variants (str ''The Wall'')) @
            map (DeezerSearch (str ''Pink Floyd'')) (title_variants (str ''The Wall'')) @
            [LastfmAlbumInfo (Some (str ''lkey'')) (str ''Pink Floyd'') (str ''The Wall''),
             DiscogsSearch (Some (str ''dtoken'')) (str ''The Wall'') (str ''Pink Floyd''),
             MusicBrainzSearch (str ''Pink Floyd'') (str ''The Wall'')]\<rparr>)) \<and>
       \<not> truthy None"
    by (intro conjI the_wall_quiet_lookup not_truthy_None)
  have h2:
    "lookup_cover reissue_world all_credentials (Some (str ''token'')) (rec_artist the_wall)
           (rec_album the_wall) (rec_year the_wall) empty_state =
         (Inr (Some (str ''https://i.scdn.co/image/wall'')),
          empty_state\<lparr>trace :=
            [SpotifySearch (str ''token'') (str ''The Wall'') (str ''Pink Floyd''),
             SpotifySearch (str ''token'') (str ''The Wall Deluxe'') (str ''Pink Floyd'')]\<rparr>) \<and>
       str ''https://i.scdn.co/image/wall'' \<noteq> [] \<and>
       download_and_resize_image reissue_world (str ''https://i.scdn.co/image/wall'')
           (output_path_for reissue_world (str ''rock'') the_wall)
           (empty_state\<lparr>trace :=
            [SpotifySearch (str ''token'') (str ''The Wall'') (str ''Pink Floyd''),
             SpotifySearch (str ''token'') (str ''The Wall Deluxe'') (str ''Pink Floyd'')]\<rparr>) =
         (Inr True,
          \<lparr>files = {str ''bandcover/rock/pink-floyd-the-wall.jpg''},
           trace =
            [SpotifySearch (str ''token'') (str ''The Wall'') (str ''Pink Floyd''),
             SpotifySearch (str ''token'') (str ''The Wall Deluxe'') (str ''Pink Floyd''),
             ImageGet (str ''https://i.scdn.co/image/wall'')]\<rparr>)"
    by (intro conjI the_wall_reissue_case[THEN conjunct2, THEN conjunct2, THEN conjunct1]
          the_wall_reissue_case[THEN conjunct2, THEN conjunct2, THEN conjunct2, THEN conjunct1]
          the_wall_reissue_case[THEN conjunct2, THEN conjunct2, THEN conjunct2, THEN conjunct2])
  have h3:
    "lookup_cover lastfm_world all_credentials (Some (str ''token'')) (rec_artist the_wall) (rec_album the_wall) (rec_year the_wall) empty_state =
         (Inr (Some (str ''https://lastfm.freetls.fastly.net/i/u/300x300/berlin.png'')),
          (empty_state\<lparr>trace :=
            map (\<lambda>v. SpotifySearch (str ''token'') v (str ''Pink Floyd''))
              (title_variants (str ''The Wall'')) @
            map (DeezerSearch (str ''Pink Floyd'')) (title_variants (str ''The Wall'')) @
            [LastfmAlbumInfo (Some (str ''lkey'')) (str ''Pink Floyd'') (str ''The Wall'')]\<rparr>)) \<and>
       (str ''https://lastfm.freetls.fastly.net/i/u/300x300/berlin.png'') \<noteq> [] \<and>
       download_and_resize_image lastfm_world (str ''https://lastfm.freetls.fastly.net/i/u/300x300/berlin.png'')
           (output_path_for lastfm_world (str ''rock'') the_wall)
           (empty_state\<lparr>trace :=
            map (\<lambda>v. SpotifySearch (str ''token'') v (str ''Pink Floyd''))
              (title_variants (str ''The Wall'')) @
            map (DeezerSearch (str ''Pink Floyd'')) (title_variants (str ''The Wall'')) @
            [LastfmAlbumInfo (Some (str ''lkey'')) (str ''Pink Floyd'') (str ''The Wall'')]\<rparr>) =
         (Inr False,
          (empty_state\<lparr>trace :=
            map (\<lambda>v. SpotifySearch (str ''token'') v (str ''Pink Floyd''))
              (title_variants (str ''The Wall'')) @
            map (DeezerSearch (str ''Pink Floyd'')) (title_variants (str ''The Wall'')) @
            [LastfmAlbumInfo (Some (str ''lkey'')) (str ''Pink Floyd'') (str ''The Wall''),
             ImageGet (str ''https://lastfm.freetls.fastly.net/i/u/300x300/berlin.png'')]\<rparr>))"
    by (intro conjI lastfm_lookup_run lastfm_chain_run(4))
  have h4:
    "(case Some (str ''token'') of
          None \<Rightarrow> (Inr None, empty_state)
        | Some token \<Rightarrow>
            if token \<noteq> []
            then fetch_cover_spotify quiet_world (rec_artist the_wall) (rec_album the_wall) token (rec_year the_wall) empty_state
            else (Inr None, empty_state)) =
         (Inr None,
          (empty_state\<lparr>trace :=
            map (\<lambda>v. SpotifySearch (str ''token'') v (str ''Pink Floyd''))
              (title_variants (str ''The Wall''))\<rparr>)) \<and>
       \<not> truthy None \<and>
       fetch_cover_deezer quiet_world (rec_artist the_wall) (rec_album the_wall) (rec_year the_wall)
           (empty_state\<lparr>trace :=
            map (\<lambda>v. SpotifySearch (str ''token'') v (str ''Pink Floyd''))
              (title_variants (str ''The Wall''))\<rparr>) =
         (Inr None,
          (empty_state\<lparr>trace :=
            map (\<lambda>v. SpotifySearch (str ''token'') v (str ''Pink Floyd''))
              (title_variants (str ''The Wall'')) @
            map (DeezerSearch (str ''Pink Floyd'')) (title_variants (str ''The Wall''))\<rparr>)) \<and>
       \<not> truthy None \<and>
       fetch_cover_lastfm quiet_world all_credentials (rec_artist the_wall) (rec_album the_wall)
           (empty_state\<lparr>trace :=
            map (\<lambda>v. SpotifySearch (str ''token'') v (str ''Pink Floyd''))
              (title_variants (str ''The Wall'')) @
            map (DeezerSearch (str ''Pink Floyd'')) (title_variants (str ''The Wall''))\<rparr>) =
         (Inr None,
          (empty_state\<lparr>trace :=
            map (\<lambda>v. SpotifySearch (str ''token'') v (str ''Pink Floyd''))
              (title_variants (str ''The Wall'')) @
            map (DeezerSearch (str ''Pink Floyd'')) (title_variants (str ''The Wall'')) @
            [LastfmAlbumInfo (Some (str ''lkey'')) (str ''Pink Floyd'') (str ''The Wall'')]\<rparr>)) \<and>
       \<not> truthy None \<and>
       fetch_cover_discogs quiet_world all_credentials (rec_artist the_wall) (rec_album the_wall)
           (empty_state\<lparr>trace :=
            map (\<lambda>v. SpotifySearch (str ''token'') v (str ''Pink Floyd''))
              (title_variants (str ''The Wall'')) @
            map (DeezerSearch (str ''Pink Floyd'')) (title_variants (str ''The Wall'')) @
            [LastfmAlbumInfo (Some (str ''lkey'')) (str ''Pink Floyd'') (str ''The Wall'')]\<rparr>) =
         (Inr None,
          (empty_state\<lparr>trace :=
            map (\<lambda>v. SpotifySearch (str ''token'') v (str ''Pink Floyd''))
              (title_variants (str ''The Wall'')) @
            map (DeezerSearch (str ''Pink Floyd'')) (title_variants (str ''The Wall'')) @
            [LastfmAlbumInfo (Some (str ''lkey'')) (str ''Pink Floyd'') (str ''The Wall''),
             DiscogsSearch (Some (str ''dtoken'')) (str ''The Wall'') (str ''Pink Floyd'')]\<rparr>)) \<and>
       \<not> truthy None"
    by (intro conjI quiet_chain_run not_truthy_None)
  have h5:
    "(case Some (str ''token'') of
          None \<Rightarrow> (Inr None, empty_state)
        | Some token \<Rightarrow>
            if token \<noteq> []
            then fetch_cover_spotify lastfm_world (rec_artist the_wall) (rec_album the_wall) token (rec_year the_wall) empty_state
            else (Inr None, empty_state)) =
         (Inr None,
          (empty_state\<lparr>trace :=
            map (\<lambda>v. SpotifySearch (str ''token'') v (str ''Pink Floyd''))
              (title_variants (str ''The Wall''))\<rparr>)) \<and>
       \<not> truthy None \<and>
       fetch_cover_deezer lastfm_world (rec_artist the_wall) (rec_album the_wall) (rec_year the_wall)
           (empty_state\<lparr>trace :=
            map (\<lambda>v. SpotifySearch (str ''token'') v (str ''Pink Floyd''))
              (title_variants (str ''The Wall''))\<rparr>) =
         (Inr None,
          (empty_state\<lparr>trace :=
            map (\<lambda>v. SpotifySearch (str ''token'') v (str ''Pink Floyd''))
              (title_variants (str ''The Wall'')) @
            map (DeezerSearch (str ''Pink Floyd'')) (title_variants (str ''The Wall''))\<rparr>)) \<and>
       \<not> truthy None \<and>
       fetch_cover_lastfm lastfm_world all_credentials (rec_artist the_wall) (rec_album the_wall)
           (empty_state\<lparr>trace :=
            map (\<lambda>v. SpotifySearch (str ''token'') v (str ''Pink Floyd''))
              (title_variants (str ''The Wall'')) @
            map (DeezerSearch (str ''Pink Floyd'')) (title_variants (str ''The Wall''))\<rparr>) =
         (Inr (Some (str ''https://lastfm.freetls.fastly.net/i/u/300x300/berlin.png'')),
          (empty_state\<lparr>trace :=
            map (\<lambda>v. SpotifySearch (str ''token'') v (str ''Pink Floyd''))
              (title_variants (str ''The Wall'')) @
            map (DeezerSearch (str ''Pink Floyd'')) (title_variants (str ''The Wall'')) @
            [LastfmAlbumInfo (Some (str ''lkey'')) (str ''Pink Floyd'') (str ''The Wall'')]\<rparr>)) \<and>
       (str ''https://lastfm.freetls.fastly.net/i/u/300x300/berlin.png'') \<noteq> []"
    by (intro conjI lastfm_chain_run not_truthy_None)
  note q = C6_placeholder[OF the_wall_needs_lookup(1) no_output_file,
      where w = quiet_world and e = all_credentials and tok = "Some (str ''token'')" and
        genre = "str ''rock''"]
  note r = C6_placeholder[OF the_wall_needs_lookup(1) no_output_file,
      where w = reissue_world and e = all_credentials and tok = "Some (str ''token'')" and
        genre = "str ''rock''"]
  note l = C6_placeholder[OF the_wall_needs_lookup(1) no_output_file,
      where w = lastfm_world and e = all_credentials and tok = "Some (str ''token'')" and
        genre = "str ''rock''"]
  show ?thesis
    by (intro conjI the_wall_needs_lookup(1) no_output_file the_wall_quiet_lookup
          not_truthy_None the_wall_scenario quiet_chain_run lastfm_chain_run lastfm_lookup_run
          the_wall_reissue_case[THEN conjunct2, THEN conjunct2, THEN conjunct1]
          the_wall_reissue_case[THEN conjunct2, THEN conjunct2, THEN conjunct2, THEN conjunct1]
          the_wall_reissue_case[THEN conjunct2, THEN conjunct2, THEN conjunct2, THEN conjunct2]
          q[THEN conjunct1, rule_format, OF h1]
          r[THEN conjunct2, THEN conjunct1, rule_format, OF h2]
          l[THEN conjunct2, THEN conjunct2, THEN conjunct1, rule_format, OF h3]
          q[THEN conjunct2, THEN conjunct2, THEN conjunct2, THEN conjunct1, rule_format, OF h4]
          l[THEN conjunct2, THEN conjunct2, THEN conjunct2, THEN conjunct2, rule_format, OF h5])
qed

lemma berlin_cover_world_simps:
  "token_sort_ratio berlin_cover_world = exact_ratio"
  "slugify berlin_cover_world = ascii_slug"
  "spotify_token_api berlin_cover_world = (\<lambda>h r. Http 200 (Some (str ''token'')))"
  "spotify_api berlin_cover_world = (\<lambda>h r. Http 200 [])"
  "deezer_api berlin_cover_world = (\<lambda>h r. Http 200 [])"
  "lastfm_api berlin_cover_world = (\<lambda>h r. Http 200 (Some berlin_lastfm))"
  "image_api berlin_cover_world = (\<lambda>h r. Http 200 [255, 216, 255])"
  "imaging berlin_cover_world = (\<lambda>c p. True)"
  by (simp_all add: berlin_cover_world_def lastfm_world_def quiet_world_def)

text \<open>
  C6 as stated fails where Last.fm answers. Asked for \<open>The Wall\<close> by \<open>Pink Floyd\<close>, Spotify
  and Deezer find no verified match, Last.fm answers with an album by another artist that
  fails the verification, and Discogs and MusicBrainz know nothing: no provider produces a
  verified match. The run does not set the placeholder: it takes the image of the other
  album, and \<open>coverSrc\<close> ends as the empty string where the image cannot be downloaded and
  as the path of the saved image where it can.
\<close>

theorem C6_counterexample:
  "fst (fetch_cover_spotify lastfm_world (str ''Pink Floyd'') (str ''The Wall'') (str ''token'')
          (Some (str ''1979'')) empty_state) = Inr None \<and>
   fst (fetch_cover_deezer lastfm_world (str ''Pink Floyd'') (str ''The Wall'')
          (Some (str ''1979'')) empty_state) = Inr None \<and>
   lastfm_api lastfm_world []
       (LastfmAlbumInfo (Some (str ''lkey'')) (str ''Pink Floyd'') (str ''The Wall'')) =
     Http 200 (Some berlin_lastfm) \<and>
   \<not> match_ok lastfm_world (str ''Pink Floyd'') (str ''The Wall'') (Some (str ''1979''))
       (lf_artist berlin_lastfm) (lf_name berlin_lastfm) (Some (str ''album''))
       (Some (str ''1979'')) \<and>
   fst (fetch_cover_discogs lastfm_world all_credentials (str ''Pink Floyd'') (str ''The Wall'')
          empty_state) = Inr None \<and>
   fst (fetch_cover_musicbrainz lastfm_world (str ''Pink Floyd'') (str ''The Wall'')
          empty_state) = Inr None \<and>
   fst (process_json lastfm_world all_credentials (str ''catalog/rock.json'') [the_wall]
          empty_state) =
     Inr [the_wall\<lparr>coverSrc := Some []\<rparr>] \<and>
   process_json berlin_cover_world all_credentials (str ''catalog/rock.json'') [the_wall]
       empty_state =
     (Inr [the_wall\<lparr>coverSrc := Some (str ''/bandcover/rock/pink-floyd-the-wall.jpg'')\<rparr>],
      \<lparr>files = {str ''bandcover/rock/pink-floyd-the-wall.jpg''},
       trace =
        TokenPost (Some (str ''id'')) (Some (str ''secret'')) #
        map (\<lambda>v. SpotifySearch (str ''token'') v (str ''Pink Floyd''))
          (title_variants (str ''The Wall'')) @
        map (DeezerSearch (str ''Pink Floyd'')) (title_variants (str ''The Wall'')) @
        [LastfmAlbumInfo (Some (str ''lkey'')) (str ''Pink Floyd'') (str ''The Wall''),
         ImageGet (str ''https://lastfm.freetls.fastly.net/i/u/300x300/berlin.png'')]\<rparr>)"
  by (intro conjI)
     (simp_all add: process_json_def authenticate_spotify_def lastfm_world_simps
        berlin_cover_world_simps all_credentials_simps process_album_def lookup_cover_def
        fetch_cover_spotify_def fetch_cover_deezer_def fetch_cover_lastfm_def
        fetch_cover_discogs_def fetch_cover_musicbrainz_def deezer_first_def
        spotify_variants_Cons spotify_reply_def deezer_variants_Cons deezer_reply_def
        download_and_resize_image_def match_ok_def fuzzy_match_def exact_ratio_def
        berlin_lastfm_def title_variants_list the_wall_def empty_state_def str_def sent_def
        output_path_of_def path_join_def basename_def splitext_root_def ascii_slug_def Let_def)

section \<open>C5: what needs no lookup\<close>







lemma html_image_world_simps:
  "token_sort_ratio html_image_world = exact_ratio"
  "slugify html_image_world = ascii_slug"
  "spotify_token_api html_image_world = (\<lambda>h r. Http 200 (Some (str ''token'')))"
  "spotify_api html_image_world =
     (\<lambda>h r. if r = SpotifySearch (str ''token'') (str ''The Wall Deluxe'') (str ''Pink Floyd'')
             then Http 200 [wall_spotify] else Http 200 [])"
  "image_api html_image_world = (\<lambda>h r. Http 200 (str ''<html>not an image</html>''))"
  "imaging html_image_world = (\<lambda>c p. False)"
  by (simp_all add: html_image_world_def reissue_world_def quiet_world_def)

lemma rejecting_world_simps:
  "token_sort_ratio rejecting_world = exact_ratio"
  "slugify rejecting_world = ascii_slug"
  "spotify_token_api rejecting_world = (\<lambda>h r. Http 400 None)"
  "spotify_api rejecting_world = (\<lambda>h r. Http 200 [])"
  "deezer_api rejecting_world = (\<lambda>h r. Http 200 [])"
  "lastfm_api rejecting_world = (\<lambda>h r. Http 403 None)"
  "discogs_api rejecting_world = (\<lambda>h r. DiscogsRaises)"
  "musicbrainz_api rejecting_world = (\<lambda>h r. Http 200 [])"
  "coverart_api rejecting_world = (\<lambda>h r. Http 404 ())"
  "image_api rejecting_world = (\<lambda>h r. Http 404 [])"
  "imaging rejecting_world = (\<lambda>c p. True)"
  by (simp_all add: rejecting_world_def quiet_world_def)

lemma keyless_lastfm_world_simps:
  "token_sort_ratio keyless_lastfm_world = exact_ratio"
  "slugify keyless_lastfm_world = ascii_slug"
  "spotify_token_api keyless_lastfm_world = (\<lambda>h r. Http 400 None)"
  "spotify_api keyless_lastfm_world = (\<lambda>h r. Http 200 [])"
  "deezer_api keyless_lastfm_world = (\<lambda>h r. Http 200 [])"
  "lastfm_api keyless_lastfm_world = (\<lambda>h r. Http 200 (Some berlin_lastfm))"
  "discogs_api keyless_lastfm_world = (\<lambda>h r. DiscogsRaises)"
  "musicbrainz_api keyless_lastfm_world = (\<lambda>h r. Http 200 [])"
  "coverart_api keyless_lastfm_world = (\<lambda>h r. Http 404 ())"
  "image_api keyless_lastfm_world = (\<lambda>h r. Http 404 [])"
  "imaging keyless_lastfm_world = (\<lambda>c p. True)"
  by (simp_all add: keyless_lastfm_world_def rejecting_world_def quiet_world_def)

section \<open>C8: a failed download\<close>

text \<open>
  What holds of C8: a transport error and a status other than 200 make
  \<open>download_and_resize_image\<close> return \<open>False\<close>, and the loop then goes on with the album
  object as it was (its \<open>coverSrc\<close> the empty string when it had none).
\<close>

lemma download_failure_returns_False:
  "image_api w (trace s) (ImageGet url) = Raised \<or>
   (\<exists>status content. image_api w (trace s) (ImageGet url) = Http status content \<and> status \<noteq> 200)
   \<Longrightarrow> download_and_resize_image w url output_path s = (Inr False, sent (ImageGet url) s)"
  by (auto simp: download_and_resize_image_def)

lemma download_failure_continues:
  assumes "\<not> cover_exists s album_data" and "output_path_for w genre album_data \<notin> files s"
    and "lookup_cover w e tok (rec_artist album_data) (rec_album album_data)
           (rec_year album_data) s = (Inr (Some url), s1)"
    and "url \<noteq> []"
    and "download_and_resize_image w url (output_path_for w genre album_data) s1 =
           (Inr False, s2)"
  shows "process_album w e tok genre album_data s =
     (Inr (if truthy (coverSrc album_data) then album_data
           else album_data\<lparr>coverSrc := Some []\<rparr>), s2)"
  using assms(3-5) by (simp add: process_album_lookup[OF assms(1,2)])

text \<open>
  C8 fails where a step after the download raises. The image host answers with status 200
  and a page that is no image: decoding raises, \<open>download_and_resize_image\<close> does not return
  \<open>False\<close> but lets the exception through, and \<open>process_json\<close> ends with it: the second
  album is never looked at and the catalog is not written.
\<close>

theorem C8_imaging_error_aborts:
  "download_and_resize_image html_image_world (str ''https://i.scdn.co/image/wall'')
       (str ''bandcover/rock/pink-floyd-the-wall.jpg'') empty_state =
     (Inl ImagingError,
      empty_state\<lparr>trace := [ImageGet (str ''https://i.scdn.co/image/wall'')]\<rparr>) \<and>
   process_json html_image_world all_credentials (str ''catalog/rock.json'') [the_wall, animals]
       empty_state =
     (Inl ImagingError,
      empty_state\<lparr>trace :=
        [TokenPost (Some (str ''id'')) (Some (str ''secret'')),
         SpotifySearch (str ''token'') (str ''The Wall'') (str ''Pink Floyd''),
         SpotifySearch (str ''token'') (str ''The Wall Deluxe'') (str ''Pink Floyd''),
         ImageGet (str ''https://i.scdn.co/image/wall'')]\<rparr>)"
  by (simp add: download_and_resize_image_def process_json_def authenticate_spotify_def
     html_image_world_simps all_credentials_simps
     process_album_def lookup_cover_def fetch_cover_spotify_def
     spotify_variants_Cons spotify_reply_def match_ok_def fuzzy_match_def exact_ratio_def
     ALBUM_TYPES_def release_year_of_def wall_spotify_def
     title_variants_list the_wall_def animals_def empty_state_def str_def sent_def
     output_path_of_def path_join_def basename_def splitext_root_def ascii_slug_def Let_def)

lemma lookup_cover_without_token:
  "\<not> truthy tok \<Longrightarrow>
     lookup_cover w e tok artist album yr s =
       first_found w e tok artist album yr [Deezer, Lastfm, Discogs, MusicBrainz] s"
  by (cases tok) (simp_all add: lookup_cover_first_found PROVIDER_ORDER_def)

lemma fetch_cover_discogs_returns:
  "\<exists>r. fst (fetch_cover_discogs w e artist album s) = Inr r"
  by (simp add: fetch_cover_discogs_def Let_def split: discogs_reply.splits list.splits)

section \<open>C9: missing credentials\<close>

text \<open>
  C9, as amended. Without a Spotify token the chain is the chain over Deezer, Last.fm,
  Discogs and MusicBrainz: Spotify is skipped; and a token request answered with a status
  other than 200 gives no token. Last.fm and Discogs are asked in any case, with whatever
  credential the environment holds, also none. A Last.fm answer with a status other than 200
  and an exception of the Discogs client make the provider return nothing, and the Discogs
  provider never raises.
\<close>

theorem C9_missing_credentials:
  "(\<not> truthy tok \<longrightarrow>
      lookup_cover w e tok artist album yr s =
        first_found w e tok artist album yr [Deezer, Lastfm, Discogs, MusicBrainz] s) \<and>
   (spotify_token_api w (trace s)
        (TokenPost (SPOTIFY_CLIENT_ID e) (SPOTIFY_CLIENT_SECRET e)) = Http status body \<and>
    status \<noteq> 200 \<longrightarrow>
      authenticate_spotify w e s =
        (Inr None, s\<lparr>trace := trace s @
           [TokenPost (SPOTIFY_CLIENT_ID e) (SPOTIFY_CLIENT_SECRET e)]\<rparr>)) \<and>
   trace (snd (fetch_cover_lastfm w e artist album s)) =
     trace s @ [LastfmAlbumInfo (LASTFM_API_KEY e) artist album] \<and>
   trace (snd (fetch_cover_discogs w e artist album s)) =
     trace s @ [DiscogsSearch (DISCOGS_API_TOKEN e) album artist] \<and>
   (lastfm_api w (trace s) (LastfmAlbumInfo (LASTFM_API_KEY e) artist album) =
        Http lastfm_status lastfm_body \<and> lastfm_status \<noteq> 200 \<longrightarrow>
      fst (fetch_cover_lastfm w e artist album s) = Inr None) \<and>
   (discogs_api w (trace s) (DiscogsSearch (DISCOGS_API_TOKEN e) album artist) = DiscogsRaises \<longrightarrow>
      fst (fetch_cover_discogs w e artist album s) = Inr None) \<and>
   (\<exists>r. fst (fetch_cover_discogs w e artist album s) = Inr r)"
proof (intro conjI impI)
  assume "\<not> truthy tok"
  then show "lookup_cover w e tok artist album yr s =
        first_found w e tok artist album yr [Deezer, Lastfm, Discogs, MusicBrainz] s"
    by (rule lookup_cover_without_token)
next
  assume "spotify_token_api w (trace s)
        (TokenPost (SPOTIFY_CLIENT_ID e) (SPOTIFY_CLIENT_SECRET e)) = Http status body \<and>
    status \<noteq> 200"
  then show "authenticate_spotify w e s =
        (Inr None, s\<lparr>trace := trace s @
           [TokenPost (SPOTIFY_CLIENT_ID e) (SPOTIFY_CLIENT_SECRET e)]\<rparr>)"
    by (simp add: authenticate_spotify_def sent_def)
next
  show "trace (snd (fetch_cover_lastfm w e artist album s)) =
     trace s @ [LastfmAlbumInfo (LASTFM_API_KEY e) artist album]"
    by (rule fetch_cover_lastfm_trace)
  show "trace (snd (fetch_cover_discogs w e artist album s)) =
     trace s @ [DiscogsSearch (DISCOGS_API_TOKEN e) album artist]"
    by (rule fetch_cover_discogs_trace)
  show "\<exists>r. fst (fetch_cover_discogs w e artist album s) = Inr r"
    by (rule fetch_cover_discogs_returns)
next
  assume "lastfm_api w (trace s) (LastfmAlbumInfo (LASTFM_API_KEY e) artist album) =
        Http lastfm_status lastfm_body \<and> lastfm_status \<noteq> 200"
  then show "fst (fetch_cover_lastfm w e artist album s) = Inr None"
    by (simp add: fetch_cover_lastfm_def)
next
  assume "discogs_api w (trace s) (DiscogsSearch (DISCOGS_API_TOKEN e) album artist) =
     DiscogsRaises"
  then show "fst (fetch_cover_discogs w e artist album s) = Inr None"
    by (simp add: fetch_cover_discogs_def)
qed

lemma rejecting_answers:
  "spotify_token_api rejecting_world (trace empty_state)
        (TokenPost (SPOTIFY_CLIENT_ID no_credentials) (SPOTIFY_CLIENT_SECRET no_credentials)) =
      Http 400 None \<and> (400 :: nat) \<noteq> 200"
  "lastfm_api rejecting_world (trace empty_state)
        (LastfmAlbumInfo (LASTFM_API_KEY no_credentials) (str ''Pink Floyd'') (str ''The Wall'')) =
      Http 403 None \<and> (403 :: nat) \<noteq> 200"
  "discogs_api rejecting_world (trace empty_state)
        (DiscogsSearch (DISCOGS_API_TOKEN no_credentials) (str ''The Wall'') (str ''Pink Floyd'')) =
      DiscogsRaises"
  by (simp_all add: rejecting_world_simps)

theorem C9_missing_credentials_witness:
  "\<not> truthy None \<and>
   lookup_cover rejecting_world no_credentials None (str ''Pink Floyd'') (str ''The Wall'')
       (Some (str ''1979'')) empty_state =
     first_found rejecting_world no_credentials None (str ''Pink Floyd'') (str ''The Wall'')
       (Some (str ''1979'')) [Deezer, Lastfm, Discogs, MusicBrainz] empty_state \<and>
   (spotify_token_api rejecting_world (trace empty_state)
        (TokenPost (SPOTIFY_CLIENT_ID no_credentials) (SPOTIFY_CLIENT_SECRET no_credentials)) =
      Http 400 None \<and> (400 :: nat) \<noteq> 200) \<and>
   authenticate_spotify rejecting_world no_credentials empty_state =
     (Inr None, empty_state\<lparr>trace := trace empty_state @
        [TokenPost (SPOTIFY_CLIENT_ID no_credentials) (SPOTIFY_CLIENT_SECRET no_credentials)]\<rparr>) \<and>
   (lastfm_api rejecting_world (trace empty_state)
        (LastfmAlbumInfo (LASTFM_API_KEY no_credentials) (str ''Pink Floyd'') (str ''The Wall'')) =
      Http 403 None \<and> (403 :: nat) \<noteq> 200) \<and>
   fst (fetch_cover_lastfm rejecting_world no_credentials (str ''Pink Floyd'') (str ''The Wall'')
          empty_state) = Inr None \<and>
   discogs_api rejecting_world (trace empty_state)
        (DiscogsSearch (DISCOGS_API_TOKEN no_credentials) (str ''The Wall'') (str ''Pink Floyd'')) =
      DiscogsRaises \<and>
   fst (fetch_cover_discogs rejecting_world no_credentials (str ''Pink Floyd'') (str ''The Wall'')
          empty_state) = Inr None"
proof -
  note t = C9_missing_credentials
  note c1 = t[THEN conjunct1, rule_format]
  note c2 = t[THEN conjunct2, THEN conjunct1, rule_format]
  note c5 = t[THEN conjunct2, THEN conjunct2, THEN conjunct2, THEN conjunct2, THEN conjunct1,
      rule_format]
  note c6 = t[THEN conjunct2, THEN conjunct2, THEN conjunct2, THEN conjunct2, THEN conjunct2,
      THEN conjunct1, rule_format]
  show ?thesis
    by (intro conjI not_truthy_None c1[OF not_truthy_None]
          rejecting_answers(1)[THEN conjunct1] rejecting_answers(1)[THEN conjunct2]
          c2[OF rejecting_answers(1)]
          rejecting_answers(2)[THEN conjunct1] rejecting_answers(2)[THEN conjunct2]
          c5[OF rejecting_answers(2)] rejecting_answers(3) c6[OF rejecting_answers(3)])
qed

text \<open>
  C9 as stated fails for Last.fm and Discogs: with no credential in the environment the
  chain does not skip them. In a run where every service refuses what it is asked without
  a credential, Spotify is skipped, and Last.fm and Discogs are each asked once, with no key
  and no token; the run ends normally with the placeholder. And were Last.fm to answer the
  request without a key, the chain would take the cover it names.
\<close>

theorem C9_counterexample:
  "process_json rejecting_world no_credentials (str ''catalog/rock.json'') [the_wall]
       empty_state =
     (Inr [wall_default],
      empty_state\<lparr>trace :=
        TokenPost None None #
        map (DeezerSearch (str ''Pink Floyd'')) (title_variants (str ''The Wall'')) @
        [LastfmAlbumInfo None (str ''Pink Floyd'') (str ''The Wall''),
         DiscogsSearch None (str ''The Wall'') (str ''Pink Floyd''),
         MusicBrainzSearch (str ''Pink Floyd'') (str ''The Wall'')]\<rparr>) \<and>
   LASTFM_API_KEY no_credentials = None \<and>
   DISCOGS_API_TOKEN no_credentials = None \<and>
   fst (lookup_cover keyless_lastfm_world no_credentials None (str ''Pink Floyd'')
          (str ''The Wall'') (Some (str ''1979'')) empty_state) =
     Inr (Some (str ''https://lastfm.freetls.fastly.net/i/u/300x300/berlin.png''))"
  by (simp add: process_json_def authenticate_spotify_def rejecting_world_simps
     keyless_lastfm_world_simps no_credentials_simps berlin_lastfm_def
     process_album_def lookup_cover_def fetch_cover_deezer_def
     fetch_cover_lastfm_def fetch_cover_discogs_def fetch_cover_musicbrainz_def deezer_first_def
     deezer_variants_Cons deezer_reply_def
     title_variants_list the_wall_def wall_default_def empty_state_def str_def sent_def
     output_path_of_def path_join_def basename_def splitext_root_def ascii_slug_def Let_def)

section \<open>C2: the artist names are compared as they are\<close>

text \<open>
  C2 fails: \<open>normalize_artist_name\<close> is defined and never called. Spotify's loop and
  Deezer's check compare the requested artist and the candidate's artist as they are, so a
  candidate whose artist scores below 90 against the requested one is rejected, also when
  the two names are equal once their diacritics are removed.
\<close>

theorem C2_artist_compared_raw:
  "normalize_artist_name w artist = normalize_artist_name w artist_name \<and>
   token_sort_ratio w artist artist_name < 90 \<longrightarrow>
     spotify_items w artist album yr [sp_item\<lparr>sp_artists := [artist_name]\<rparr>] = Inr None \<and>
     deezer_first w artist album yr [dz_item\<lparr>dz_artist_name := artist_name\<rparr>] = None"
  by (simp add: deezer_first_def match_ok_def fuzzy_match_def)

lemma bjork_names:
  "normalize_artist_name quiet_world bjork = normalize_artist_name quiet_world (str ''Bjork'') \<and>
   token_sort_ratio quiet_world bjork (str ''Bjork'') < 90"
  by (simp add: normalize_artist_name_def quiet_world_simps sample_nfd_def sample_category_def
        exact_ratio_def bjork_def str_def)

theorem C2_artist_compared_raw_witness:
  "(normalize_artist_name quiet_world bjork = normalize_artist_name quiet_world (str ''Bjork'') \<and>
    token_sort_ratio quiet_world bjork (str ''Bjork'') < 90) \<and>
   normalize_artist_name quiet_world bjork = str ''Bjork'' \<and>
   homogenic_spotify\<lparr>sp_artists := [str ''Bjork'']\<rparr> = homogenic_spotify \<and>
   homogenic_deezer\<lparr>dz_artist_name := str ''Bjork''\<rparr> = homogenic_deezer \<and>
   spotify_items quiet_world bjork (str ''Homogenic'') (Some (str ''1997''))
     [homogenic_spotify\<lparr>sp_artists := [str ''Bjork'']\<rparr>] = Inr None \<and>
   deezer_first quiet_world bjork (str ''Homogenic'') (Some (str ''1997''))
     [homogenic_deezer\<lparr>dz_artist_name := str ''Bjork''\<rparr>] = None \<and>
   spotify_items quiet_world (normalize_artist_name quiet_world bjork) (str ''Homogenic'')
     (Some (str ''1997'')) [homogenic_spotify] =
     Inr (Some (str ''https://i.scdn.co/image/homogenic''))"
proof -
  note c = C2_artist_compared_raw[rule_format, OF bjork_names]
  have n: "normalize_artist_name quiet_world bjork = str ''Bjork''"
    by (simp add: normalize_artist_name_def quiet_world_simps sample_nfd_def sample_category_def
          bjork_def str_def)
  have a: "homogenic_spotify\<lparr>sp_artists := [str ''Bjork'']\<rparr> = homogenic_spotify"
    "homogenic_deezer\<lparr>dz_artist_name := str ''Bjork''\<rparr> = homogenic_deezer"
    by (simp_all add: homogenic_spotify_def homogenic_deezer_def)
  have ok: "spotify_items quiet_world (normalize_artist_name quiet_world bjork) (str ''Homogenic'')
     (Some (str ''1997'')) [homogenic_spotify] =
     Inr (Some (str ''https://i.scdn.co/image/homogenic''))"
    unfolding n
    by (simp add: quiet_world_simps match_ok_def fuzzy_match_def exact_ratio_def ALBUM_TYPES_def
          release_year_of_def homogenic_spotify_def str_def)
  show ?thesis
    by (intro conjI bjork_names[THEN conjunct1] bjork_names[THEN conjunct2] n a
          c[THEN conjunct1] c[THEN conjunct2] ok)
qed

end
